theory Spec2Isabelle
  imports Main "HOL-Library.Multiset"
begin

section \<open>The host: clock, time zone, date parsing\<close>

text \<open>
  The CV route (\<^verbatim>\<open>src/app/api/generate-cv/route.ts\<close>) works on JavaScript \<^verbatim>\<open>Date\<close>
  objects. A \<^verbatim>\<open>Date\<close> holds a time value: a number of milliseconds since the epoch, or
  \<^verbatim>\<open>NaN\<close> for an invalid date. Time values are integers of magnitude at most
  \<open>8.64 \<times> 10\<^sup>1\<^sup>5\<close>, so a \<^verbatim>\<open>Date\<close> is an \<open>int option\<close> here, \<open>None\<close> being \<^verbatim>\<open>NaN\<close>.
  The same type stands for the numbers computed from dates (\<^verbatim>\<open>getFullYear()\<close> of an
  invalid date is \<^verbatim>\<open>NaN\<close>, and \<^verbatim>\<open>NaN\<close> propagates through the arithmetic).

  What the route reads from its host is a record: the clock read by \<^verbatim>\<open>new Date()\<close>,
  all readings within one request taken to be the same instant \<open>now\<close>; the offset
  \<open>tza t\<close> of local time from UTC at the instant \<open>t\<close>, in milliseconds; and the result
  of \<^verbatim>\<open>Date.parse\<close> on strings outside the ISO forms parsed below, which ECMAScript
  leaves to the implementation; and \<^verbatim>\<open>String.prototype.toLowerCase\<close>, which follows the
  case mappings of Unicode.

  A string is kept as the bytes of its UTF-8 encoding.
\<close>

type_synonym num = "int option"

record host =
  now :: int
  tza :: "int \<Rightarrow> int"
  hostParse :: "string \<Rightarrow> int option"
  toLowerCase :: "string \<Rightarrow> string"

definition msPerDay :: int where
  "msPerDay = 86400000"

definition maxTime :: int where
  "maxTime = 8640000000000000"

definition TimeClip :: "int \<Rightarrow> num" where
  "TimeClip t = (if \<bar>t\<bar> \<le> maxTime then Some t else None)"

subsection \<open>Calendar arithmetic of ECMAScript\<close>

definition DaysInYear :: "int \<Rightarrow> int" where
  "DaysInYear y =
     (if y mod 4 \<noteq> 0 then 365
      else if y mod 100 \<noteq> 0 then 366
      else if y mod 400 \<noteq> 0 then 365
      else 366)"

definition DayFromYear :: "int \<Rightarrow> int" where
  "DayFromYear y =
     365 * (y - 1970) + (y - 1969) div 4 - (y - 1901) div 100 + (y - 1601) div 400"

text \<open>
  \<^verbatim>\<open>YearFromTime\<close> is the largest year whose first day is not after the given day. It is
  computed from an estimate that is off by at most one (lemma \<open>YearFromDay_bounds\<close>).
\<close>

definition YearFromDay :: "int \<Rightarrow> int" where
  "YearFromDay d =
     (let y = 1970 + (400 * d) div 146097
      in if d < DayFromYear y then y - 1
         else if DayFromYear (y + 1) \<le> d then y + 1
         else y)"

definition Day :: "int \<Rightarrow> int" where
  "Day t = t div msPerDay"

definition TimeWithinDay :: "int \<Rightarrow> int" where
  "TimeWithinDay t = t mod msPerDay"

definition YearFromTime :: "int \<Rightarrow> int" where
  "YearFromTime t = YearFromDay (Day t)"

definition InLeapYear :: "int \<Rightarrow> int" where
  "InLeapYear y = (if DaysInYear y = 366 then 1 else 0)"

definition DayWithinYear :: "int \<Rightarrow> int" where
  "DayWithinYear t = Day t - DayFromYear (YearFromTime t)"

text \<open>The first day (counted from 0 within the year) of month \<open>m\<close>, \<open>0 \<le> m \<le> 12\<close>.\<close>

definition monthStart :: "int \<Rightarrow> int \<Rightarrow> int" where
  "monthStart leap m =
     (if m \<le> 0 then 0 else if m = 1 then 31
      else leap +
        (if m = 2 then 59 else if m = 3 then 90 else if m = 4 then 120
         else if m = 5 then 151 else if m = 6 then 181 else if m = 7 then 212
         else if m = 8 then 243 else if m = 9 then 273 else if m = 10 then 304
         else if m = 11 then 334 else 365))"

definition monthOfDay :: "int \<Rightarrow> int \<Rightarrow> int" where
  "monthOfDay leap d =
     (if d < 31 then 0 else if d < 59 + leap then 1 else if d < 90 + leap then 2
      else if d < 120 + leap then 3 else if d < 151 + leap then 4
      else if d < 181 + leap then 5 else if d < 212 + leap then 6
      else if d < 243 + leap then 7 else if d < 273 + leap then 8
      else if d < 304 + leap then 9 else if d < 334 + leap then 10 else 11)"

definition MonthFromTime :: "int \<Rightarrow> int" where
  "MonthFromTime t = monthOfDay (InLeapYear (YearFromTime t)) (DayWithinYear t)"

definition DateFromTime :: "int \<Rightarrow> int" where
  "DateFromTime t =
     DayWithinYear t - monthStart (InLeapYear (YearFromTime t)) (MonthFromTime t) + 1"

definition HourFromTime :: "int \<Rightarrow> int" where
  "HourFromTime t = TimeWithinDay t div 3600000"

definition MinFromTime :: "int \<Rightarrow> int" where
  "MinFromTime t = (TimeWithinDay t div 60000) mod 60"

definition SecFromTime :: "int \<Rightarrow> int" where
  "SecFromTime t = (TimeWithinDay t div 1000) mod 60"

definition msFromTime :: "int \<Rightarrow> int" where
  "msFromTime t = TimeWithinDay t mod 1000"

text \<open>\<^verbatim>\<open>MakeDay\<close> for a month \<open>1 \<le> m \<le> 12\<close> and a day of the month counted from 1.\<close>

definition MakeDay :: "int \<Rightarrow> int \<Rightarrow> int \<Rightarrow> int" where
  "MakeDay y m d = DayFromYear y + monthStart (InLeapYear y) (m - 1) + d - 1"

definition DaysInMonth :: "int \<Rightarrow> int \<Rightarrow> int" where
  "DaysInMonth y m = monthStart (InLeapYear y) m - monthStart (InLeapYear y) (m - 1)"

subsection \<open>Decimal numerals\<close>

definition digitChar :: "nat \<Rightarrow> char" where
  "digitChar n = char_of (48 + n)"

definition digitVal :: "char \<Rightarrow> nat option" where
  "digitVal c =
     (let n = (of_char c :: nat) in if 48 \<le> n \<and> n \<le> 57 then Some (n - 48) else None)"

text \<open>\<^verbatim>\<open>String(n).padStart(k, "0")\<close> for \<open>n < 10\<^sup>k\<close>.\<close>

fun pad :: "nat \<Rightarrow> nat \<Rightarrow> string" where
  "pad 0 n = []"
| "pad (Suc k) n = pad k (n div 10) @ [digitChar (n mod 10)]"

fun digitsFrom :: "nat \<Rightarrow> string \<Rightarrow> nat option" where
  "digitsFrom acc [] = Some acc"
| "digitsFrom acc (c # cs) =
     (case digitVal c of None \<Rightarrow> None | Some d \<Rightarrow> digitsFrom (10 * acc + d) cs)"

text \<open>The decimal numeral of a natural number, as \<^verbatim>\<open>String(n)\<close> writes it.\<close>

function decimal :: "nat \<Rightarrow> string" where
  "decimal n = (if n < 10 then [digitChar n] else decimal (n div 10) @ [digitChar (n mod 10)])"
  by pat_completeness auto
termination
  by (relation "measure id") auto

declare decimal.simps [simp del]

definition numToString :: "int \<Rightarrow> string" where
  "numToString i = (if i < 0 then CHR ''-'' # decimal (nat (- i)) else decimal (nat i))"

subsection \<open>\<^verbatim>\<open>toISOString\<close> and \<^verbatim>\<open>new Date(string)\<close>\<close>

datatype error = RangeError | UpstreamError string | LibraryError string

definition isoYear :: "int \<Rightarrow> string" where
  "isoYear y =
     (if 0 \<le> y \<and> y \<le> 9999 then pad 4 (nat y)
      else if y < 0 then CHR ''-'' # pad 6 (nat (- y))
      else CHR ''+'' # pad 6 (nat y))"

text \<open>\<^verbatim>\<open>Date.prototype.toISOString\<close>: throws \<^verbatim>\<open>RangeError\<close> on an invalid date.\<close>

definition toISOString :: "num \<Rightarrow> error + string" where
  "toISOString d =
     (case d of
        None \<Rightarrow> Inl RangeError
      | Some t \<Rightarrow>
          Inr (isoYear (YearFromTime t) @ ''-'' @ pad 2 (nat (MonthFromTime t + 1)) @ ''-''
               @ pad 2 (nat (DateFromTime t)) @ ''T'' @ pad 2 (nat (HourFromTime t)) @ '':''
               @ pad 2 (nat (MinFromTime t)) @ '':'' @ pad 2 (nat (SecFromTime t)) @ ''.''
               @ pad 3 (nat (msFromTime t)) @ ''Z''))"

text \<open>
  The ISO forms of \<^verbatim>\<open>Date.parse\<close> modelled here are the date-only form
  \<^verbatim>\<open>YYYY-MM-DD\<close> (UTC midnight) and the full form \<^verbatim>\<open>YYYY-MM-DDTHH:mm:ss.sssZ\<close> that
  \<^verbatim>\<open>toISOString\<close> writes, both also with an expanded year \<^verbatim>\<open>+YYYYYY\<close> or \<^verbatim>\<open>-YYYYYY\<close>.
  A string of neither form, or with a field out of range, is left to \<open>hostParse\<close>.
\<close>

definition field :: "nat \<Rightarrow> nat \<Rightarrow> string \<Rightarrow> nat option" where
  "field i k s = (if i + k \<le> length s then digitsFrom 0 (take k (drop i s)) else None)"

definition sep :: "nat \<Rightarrow> char \<Rightarrow> string \<Rightarrow> bool" where
  "sep i c s = (i < length s \<and> s ! i = c)"

definition parseYear :: "string \<Rightarrow> (int \<times> string) option" where
  "parseYear s =
     (case s of
        [] \<Rightarrow> None
      | c # cs \<Rightarrow>
          if c = CHR ''+'' then map_option (\<lambda>y. (int y, drop 6 cs)) (field 0 6 cs)
          else if c = CHR ''-'' then
            (case field 0 6 cs of
               None \<Rightarrow> None
             | Some y \<Rightarrow> if y = 0 then None else Some (- int y, drop 6 cs))
          else map_option (\<lambda>y. (int y, drop 4 s)) (field 0 4 s))"

definition parseTime :: "string \<Rightarrow> int option" where
  "parseTime b =
     (if sep 6 CHR ''T'' b \<and> sep 9 CHR '':'' b \<and> sep 12 CHR '':'' b \<and> sep 15 CHR ''.'' b
         \<and> sep 19 CHR ''Z'' b
      then
        (case (field 7 2 b, field 10 2 b, field 13 2 b, field 16 3 b) of
           (Some h, Some mi, Some s, Some ms) \<Rightarrow>
             if h \<le> 23 \<and> mi \<le> 59 \<and> s \<le> 59
             then Some (int h * 3600000 + int mi * 60000 + int s * 1000 + int ms)
             else None
         | _ \<Rightarrow> None)
      else None)"

definition parseISO :: "string \<Rightarrow> int option" where
  "parseISO s =
     (case parseYear s of
        None \<Rightarrow> None
      | Some (y, b) \<Rightarrow>
          if (length b = 6 \<or> length b = 20) \<and> sep 0 CHR ''-'' b \<and> sep 3 CHR ''-'' b then
            (case (field 1 2 b, field 4 2 b) of
               (Some m, Some d) \<Rightarrow>
                 if 1 \<le> m \<and> m \<le> 12 \<and> 1 \<le> d \<and> int d \<le> DaysInMonth y (int m) then
                   (if length b = 6 then Some (MakeDay y (int m) (int d) * msPerDay)
                    else map_option (\<lambda>w. MakeDay y (int m) (int d) * msPerDay + w) (parseTime b))
                 else None
             | _ \<Rightarrow> None)
          else None)"

text \<open>\<^verbatim>\<open>new Date(s)\<close> for a string \<open>s\<close>, and \<^verbatim>\<open>new Date()\<close>.\<close>

definition newDate :: "host \<Rightarrow> string \<Rightarrow> num" where
  "newDate rt s =
     (case parseISO s of
        Some t \<Rightarrow> TimeClip t
      | None \<Rightarrow> (case hostParse rt s of None \<Rightarrow> None | Some t \<Rightarrow> TimeClip t))"

definition newDateNow :: "host \<Rightarrow> num" where
  "newDateNow rt = TimeClip (now rt)"

text \<open>
  \<^verbatim>\<open>new Date(v)\<close> for a column value \<open>v\<close> that is \<^verbatim>\<open>null\<close> (\<open>None\<close>) or a string:
  \<^verbatim>\<open>null\<close> converts to the number 0, the epoch.
\<close>

definition newDateOf :: "host \<Rightarrow> string option \<Rightarrow> num" where
  "newDateOf rt v = (case v of None \<Rightarrow> Some 0 | Some s \<Rightarrow> newDate rt s)"

definition getFullYear :: "host \<Rightarrow> num \<Rightarrow> num" where
  "getFullYear rt d = map_option (\<lambda>t. YearFromTime (t + tza rt t)) d"

definition getMonth :: "host \<Rightarrow> num \<Rightarrow> num" where
  "getMonth rt d = map_option (\<lambda>t. MonthFromTime (t + tza rt t)) d"

section \<open>The tenure calculator\<close>

text \<open>A value is falsy when it is \<^verbatim>\<open>null\<close>, \<^verbatim>\<open>undefined\<close> or the empty string.\<close>

definition truthy :: "string option \<Rightarrow> bool" where
  "truthy v = (case v of None \<Rightarrow> False | Some s \<Rightarrow> s \<noteq> [])"

definition numSub :: "num \<Rightarrow> num \<Rightarrow> num" where
  "numSub a b = (case (a, b) of (Some x, Some y) \<Rightarrow> Some (x - y) | _ \<Rightarrow> None)"

text \<open>A comparison with \<^verbatim>\<open>NaN\<close> is false.\<close>

definition numLess :: "num \<Rightarrow> int \<Rightarrow> bool" where
  "numLess a k = (case a of None \<Rightarrow> False | Some x \<Rightarrow> x < k)"

definition numGreater :: "num \<Rightarrow> int \<Rightarrow> bool" where
  "numGreater a k = (case a of None \<Rightarrow> False | Some x \<Rightarrow> k < x)"

definition numShow :: "num \<Rightarrow> string" where
  "numShow a = (case a of None \<Rightarrow> ''NaN'' | Some x \<Rightarrow> numToString x)"

text \<open>
  \<^verbatim>\<open>trim\<close> is applied to the text built in \<^verbatim>\<open>calculateDuration\<close> only, which holds
  digits, letters and spaces of ASCII: the white space of ASCII is all it can meet.
\<close>

definition isSpace :: "char \<Rightarrow> bool" where
  "isSpace c = (c \<in> set [CHR '' '', CHR 0x09, CHR 0x0A, CHR 0x0B, CHR 0x0C, CHR 0x0D])"

definition trim :: "string \<Rightarrow> string" where
  "trim s = rev (dropWhile isSpace (rev (dropWhile isSpace s)))"

text \<open>
  \<^verbatim>\<open>calculateDuration\<close>, lines 57 to 63: the pair \<^verbatim>\<open>(years, months)\<close> after the borrow.
\<close>

definition tenureSpan :: "host \<Rightarrow> num \<Rightarrow> num \<Rightarrow> num \<times> num" where
  "tenureSpan rt start end =
     (let years = numSub (getFullYear rt end) (getFullYear rt start);
          months = numSub (getMonth rt end) (getMonth rt start)
      in if numLess months 0
         then (numSub years (Some 1), numSub months (Some (- 12)))
         else (years, months))"

text \<open>\<^verbatim>\<open>calculateDuration\<close>, lines 65 to 71: the text of a pair \<^verbatim>\<open>(years, months)\<close>.\<close>

definition renderSpan :: "num \<times> num \<Rightarrow> string" where
  "renderSpan ym =
     (let years = fst ym; months = snd ym;
          result = [];
          result = (if numGreater years 0
                    then result @ numShow years @ '' an'' @ (if numGreater years 1 then ''s'' else [])
                    else result);
          result = (if numGreater months 0
                    then (if result \<noteq> [] then result @ '' '' else result) @ numShow months @ '' mois''
                    else result)
      in if trim result \<noteq> [] then trim result else ''Moins d'un mois'')"

text \<open>\<^verbatim>\<open>v ? new Date(v) : new Date()\<close>: the end of a stint, now when there is none.\<close>

definition endDate :: "host \<Rightarrow> string option \<Rightarrow> num" where
  "endDate rt v =
     (case v of None \<Rightarrow> newDateNow rt | Some s \<Rightarrow> if s = [] then newDateNow rt else newDate rt s)"

definition calculateDuration :: "host \<Rightarrow> string option \<Rightarrow> string option \<Rightarrow> string" where
  "calculateDuration rt startDateStr endDateStr =
     (case startDateStr of
        None \<Rightarrow> []
      | Some s \<Rightarrow>
          if s = [] then []
          else
            let start = newDate rt s;
                end = endDate rt endDateStr
            in renderSpan (tenureSpan rt start end))"


section \<open>Rows read from the store\<close>

text \<open>
  The rows are untyped (\<^verbatim>\<open>any\<close>) in the route. A column that the route tests before
  use is an option here, \<open>None\<close> being \<^verbatim>\<open>null\<close>; the boolean columns are \<open>True\<close> exactly
  when the value is truthy. \<open>skills_name\<close> is \<^verbatim>\<open>uskill.skills?.name\<close>.
\<close>

record skill_family =
  family_name :: string

record skill =
  skill_name :: string
  skill_type :: string
  skill_families :: "skill_family option"

record experience_skill =
  skills :: "skill option"

record experience =
  company :: "string option"
  title :: "string option"
  startdate :: "string option"
  enddate :: "string option"
  experience_skills :: "experience_skill list option"

record training =
  training_name :: string
  training_date :: "string option"
  provider :: "string option"

record user_skill =
  uskill_id :: "string option"
  hascertification :: bool
  certificationname :: "string option"
  certificationdate :: "string option"
  hastrainings :: bool
  skills_name :: "string option"
  trainings :: "training list option"

record certification =
  cert_name :: string
  cert_date :: "string option"

record user =
  email :: "string option"
  fullname :: "string option"

section \<open>Tenure at one company and over all experiences\<close>

text \<open>
  \<^verbatim>\<open>new Date(Math.min.apply(null, ts))\<close> and \<^verbatim>\<open>new Date(Math.max.apply(null, ts))\<close> for
  a list of time values: \<^verbatim>\<open>NaN\<close> when one of them is \<^verbatim>\<open>NaN\<close>, and an invalid date for
  the empty list, whose minimum is \<^verbatim>\<open>Infinity\<close>.
\<close>

definition dateOfMin :: "num list \<Rightarrow> num" where
  "dateOfMin ts =
     (case those ts of
        None \<Rightarrow> None
      | Some [] \<Rightarrow> None
      | Some (x # xs) \<Rightarrow> TimeClip (fold min xs x))"

definition dateOfMax :: "num list \<Rightarrow> num" where
  "dateOfMax ts =
     (case those ts of
        None \<Rightarrow> None
      | Some [] \<Rightarrow> None
      | Some (x # xs) \<Rightarrow> TimeClip (fold max xs x))"

text \<open>
  \<^verbatim>\<open>calculateDuration(minStartDate.toISOString(), maxEndDate.toISOString())\<close>: the
  arguments are evaluated from left to right and either may throw.
\<close>

definition durationOfEnvelope :: "host \<Rightarrow> num \<Rightarrow> num \<Rightarrow> error + string" where
  "durationOfEnvelope rt minStartDate maxEndDate =
     (case toISOString minStartDate of
        Inl e \<Rightarrow> Inl e
      | Inr s \<Rightarrow>
          (case toISOString maxEndDate of
             Inl e \<Rightarrow> Inl e
           | Inr e \<Rightarrow> Inr (calculateDuration rt (Some s) (Some e))))"

text \<open>
  Line 76:
  \<^verbatim>\<open>exp.company && exp.company.toLowerCase() === companyName.toLowerCase()\<close>
\<close>

definition matchesCompany :: "host \<Rightarrow> string \<Rightarrow> experience \<Rightarrow> bool" where
  "matchesCompany rt companyName exp =
     (case company exp of
        None \<Rightarrow> False
      | Some c \<Rightarrow> c \<noteq> [] \<and> toLowerCase rt c = toLowerCase rt companyName)"

definition calculateDurationForCompany :: "host \<Rightarrow> experience list \<Rightarrow> string \<Rightarrow> error + string" where
  "calculateDurationForCompany rt experiences companyName =
     (let companyExperiences = filter (matchesCompany rt companyName) experiences
      in if companyExperiences = [] then Inr ''N/A''
         else
           let allStartDates = map (\<lambda>exp. newDateOf rt (startdate exp)) companyExperiences;
               allEndDates = map (\<lambda>exp. endDate rt (enddate exp)) companyExperiences;
               minStartDate = dateOfMin allStartDates;
               maxEndDate = dateOfMax allEndDates
           in durationOfEnvelope rt minStartDate maxEndDate)"

definition total_experience :: "host \<Rightarrow> experience list \<Rightarrow> error + string" where
  "total_experience rt experiences =
     (if experiences \<noteq> [] then
        let allStartDates = map (\<lambda>exp. newDateOf rt (startdate exp)) experiences;
            allEndDates = map (\<lambda>exp. endDate rt (enddate exp)) experiences
        in if allStartDates \<noteq> [] \<and> list_all (\<lambda>d. d \<noteq> None) allStartDates then
             let minStartDate = dateOfMin allStartDates;
                 maxEndDate = dateOfMax allEndDates
             in durationOfEnvelope rt minStartDate maxEndDate
           else Inr ''N/A''
      else Inr ''N/A'')"

section \<open>The expertise tables\<close>

text \<open>
  A JavaScript \<^verbatim>\<open>Map\<close> iterates in insertion order, and \<^verbatim>\<open>set\<close> on a key that is
  present replaces the value in place: an association list.
\<close>

fun mapSet :: "'k \<Rightarrow> 'v \<Rightarrow> ('k \<times> 'v) list \<Rightarrow> ('k \<times> 'v) list" where
  "mapSet k v [] = [(k, v)]"
| "mapSet k v ((k', v') # m) = (if k = k' then (k, v) # m else (k', v') # mapSet k v m)"

definition mapGet :: "'k \<Rightarrow> ('k \<times> 'v) list \<Rightarrow> 'v option" where
  "mapGet k m = map_of m k"

record domain_row =
  domain :: string
  specific_area :: string
  experience_yrs_months :: string

record technical_row =
  tech_skill_name :: string
  tech_experience_yrs_months :: string

text \<open>\<^verbatim>\<open>exp.experience_skills?.forEach\<close>: nothing to visit when the list is missing.\<close>

definition skillsOf :: "experience \<Rightarrow> experience_skill list" where
  "skillsOf exp = (case experience_skills exp of None \<Rightarrow> [] | Some l \<Rightarrow> l)"

definition expDuration :: "host \<Rightarrow> experience \<Rightarrow> string" where
  "expDuration rt exp = calculateDuration rt (startdate exp) (enddate exp)"

definition domainStep ::
  "string \<Rightarrow> (string \<times> (string \<times> string) list) list \<Rightarrow> experience_skill
     \<Rightarrow> (string \<times> (string \<times> string) list) list" where
  "domainStep d m es =
     (case skills es of
        None \<Rightarrow> m
      | Some sk \<Rightarrow>
          (case skill_families sk of
             None \<Rightarrow> m
           | Some fam \<Rightarrow>
               let domainName = family_name fam;
                   skillName = skill_name sk;
                   m = (case mapGet domainName m of None \<Rightarrow> mapSet domainName [] m | Some _ \<Rightarrow> m);
                   inner = (case mapGet domainName m of None \<Rightarrow> [] | Some i \<Rightarrow> i)
               in mapSet domainName (mapSet skillName d inner) m))"

definition domain_expertise_map ::
  "host \<Rightarrow> experience list \<Rightarrow> (string \<times> (string \<times> string) list) list" where
  "domain_expertise_map rt experiences =
     fold (\<lambda>exp m. fold (\<lambda>es m. domainStep (expDuration rt exp) m es) (skillsOf exp) m)
       experiences []"

definition domain_expertise_rows :: "host \<Rightarrow> experience list \<Rightarrow> domain_row list" where
  "domain_expertise_rows rt experiences =
     concat (map (\<lambda>(d, skillsMap).
               map (\<lambda>(area, e). \<lparr>domain = d, specific_area = area, experience_yrs_months = e\<rparr>)
                 skillsMap)
             (domain_expertise_map rt experiences))"

definition technicalStep :: "string \<Rightarrow> technical_row list \<Rightarrow> experience_skill \<Rightarrow> technical_row list" where
  "technicalStep d rows es =
     (case skills es of
        None \<Rightarrow> rows
      | Some sk \<Rightarrow>
          if skill_type sk = ''hard'' then
            (case find (\<lambda>s. tech_skill_name s = skill_name sk) rows of
               None \<Rightarrow> rows @ [\<lparr>tech_skill_name = skill_name sk, tech_experience_yrs_months = d\<rparr>]
             | Some _ \<Rightarrow> rows)
          else rows)"

definition technical_expertise_primary_skills :: "host \<Rightarrow> experience list \<Rightarrow> technical_row list" where
  "technical_expertise_primary_skills rt experiences =
     fold (\<lambda>exp rows. fold (\<lambda>es rows. technicalStep (expDuration rt exp) rows es) (skillsOf exp) rows)
       experiences []"

section \<open>Professional activities\<close>

text \<open>The \<^verbatim>\<open>year\<close> of a row is a number (possibly \<^verbatim>\<open>NaN\<close>) or the string \<^verbatim>\<open>"N/A"\<close>.\<close>

datatype jsval = Num num | Str string

record activity_row =
  course_certification_name :: string
  institution :: string
  year :: jsval
  years_of_experience :: string

text \<open>\<^verbatim>\<open>d ? new Date(d).getFullYear() : "N/A"\<close>\<close>

definition yearOf :: "host \<Rightarrow> string option \<Rightarrow> jsval" where
  "yearOf rt d =
     (case d of
        None \<Rightarrow> Str ''N/A''
      | Some s \<Rightarrow> if s = [] then Str ''N/A'' else Num (getFullYear rt (newDate rt s)))"

text \<open>\<^verbatim>\<open>a || b\<close> on strings that may be missing.\<close>

definition orElse :: "string option \<Rightarrow> string \<Rightarrow> string" where
  "orElse v d = (case v of None \<Rightarrow> d | Some s \<Rightarrow> if s = [] then d else s)"

definition certRow :: "host \<Rightarrow> certification \<Rightarrow> activity_row" where
  "certRow rt cert =
     \<lparr>course_certification_name = cert_name cert,
      institution = ''N/A (Certification)'',
      year = yearOf rt (cert_date cert),
      years_of_experience = []\<rparr>"

definition trainingRow :: "host \<Rightarrow> training \<Rightarrow> activity_row" where
  "trainingRow rt tr =
     \<lparr>course_certification_name = training_name tr,
      institution = orElse (provider tr) ''N/A'',
      year = yearOf rt (training_date tr),
      years_of_experience = []\<rparr>"

definition trainingRows :: "host \<Rightarrow> user_skill \<Rightarrow> activity_row list" where
  "trainingRows rt uskill =
     (if hastrainings uskill then
        (case trainings uskill of None \<Rightarrow> [] | Some ts \<Rightarrow> map (trainingRow rt) ts)
      else [])"

definition certName :: "user_skill \<Rightarrow> string" where
  "certName uskill =
     orElse (certificationname uskill) (orElse (skills_name uskill) ''Unnamed Certification'')"

definition syntheticRows :: "host \<Rightarrow> user_skill \<Rightarrow> activity_row list" where
  "syntheticRows rt uskill =
     (if hascertification uskill then
        [\<lparr>course_certification_name = certName uskill,
          institution = ''N/A (via User Skill)'',
          year = yearOf rt (certificationdate uskill),
          years_of_experience = []\<rparr>]
      else [])"

text \<open>
  The comparator of line 303. \<^verbatim>\<open>typeof a.year === 'number'\<close> holds for every number,
  \<^verbatim>\<open>NaN\<close> included.
\<close>

definition sortYear :: "activity_row \<Rightarrow> num" where
  "sortYear r = (case year r of Num n \<Rightarrow> n | Str _ \<Rightarrow> Some 0)"

definition comparefn :: "activity_row \<Rightarrow> activity_row \<Rightarrow> num" where
  "comparefn a b = numSub (sortYear b) (sortYear a)"

text \<open>
  \<^verbatim>\<open>Array.prototype.sort\<close> reads a \<^verbatim>\<open>NaN\<close> from the comparator as \<open>0\<close>
  (\<open>SortCompare\<close>). The route runs on V8, whose sort of an array of fewer than 64
  elements finds the run at the head of the array (\<^verbatim>\<open>CountAndMakeRun\<close>: elements in
  order, or strictly out of order and then reversed) and puts each later element in its
  place by a binary search from the left (\<^verbatim>\<open>BinaryInsertionSort\<close>). This is the sort
  modelled here. From 64 elements on V8 cuts the array into such runs and merges them;
  with a consistent comparator (no \<^verbatim>\<open>NaN\<close> year) the result is the same stable
  ordering, with an inconsistent one the model covers rosters of fewer than 64 rows.
\<close>

definition SortCompare :: "activity_row \<Rightarrow> activity_row \<Rightarrow> int" where
  "SortCompare a b = (case comparefn a b of None \<Rightarrow> 0 | Some v \<Rightarrow> v)"

text \<open>How many of the elements that follow \<open>previousElement\<close> go on with the run.\<close>

fun runLength :: "bool \<Rightarrow> activity_row \<Rightarrow> activity_row list \<Rightarrow> nat" where
  "runLength isDescending previousElement [] = 0"
| "runLength isDescending previousElement (currentElement # rest) =
     (let order = SortCompare currentElement previousElement
      in if (if isDescending then 0 \<le> order else order < 0) then 0
         else Suc (runLength isDescending currentElement rest))"

text \<open>The run at the head of the array, put in order, and the elements after it.\<close>

definition CountAndMakeRun :: "activity_row list \<Rightarrow> activity_row list \<times> activity_row list" where
  "CountAndMakeRun a =
     (case a of
        elementHigh # elementLow # rest \<Rightarrow>
          (let isDescending = (SortCompare elementLow elementHigh < 0);
               n = 2 + runLength isDescending elementLow rest
           in (if isDescending then rev (take n a) else take n a, drop n a))
      | _ \<Rightarrow> (a, []))"

text \<open>The binary search of \<^verbatim>\<open>BinaryInsertionSort\<close> for the place of \<open>pivot\<close>.\<close>

function findInsertionPoint :: "activity_row \<Rightarrow> activity_row list \<Rightarrow> nat \<Rightarrow> nat \<Rightarrow> nat" where
  "findInsertionPoint pivot a left right =
     (if left < right then
        (if SortCompare pivot (a ! (left + (right - left) div 2)) < 0
         then findInsertionPoint pivot a left (left + (right - left) div 2)
         else findInsertionPoint pivot a (left + (right - left) div 2 + 1) right)
      else left)"
  by pat_completeness auto
termination
  by (relation "measure (\<lambda>(pivot, a, left, right). right - left)") auto

declare findInsertionPoint.simps [simp del]

definition insertPivot :: "activity_row list \<Rightarrow> activity_row \<Rightarrow> activity_row list" where
  "insertPivot a pivot =
     (let left = findInsertionPoint pivot a 0 (length a)
      in take left a @ pivot # drop left a)"

definition BinaryInsertionSort :: "activity_row list \<Rightarrow> activity_row list \<Rightarrow> activity_row list" where
  "BinaryInsertionSort run rest = fold (\<lambda>pivot a. insertPivot a pivot) rest run"

definition sortRows :: "activity_row list \<Rightarrow> activity_row list" where
  "sortRows rows = (case CountAndMakeRun rows of (run, rest) \<Rightarrow> BinaryInsertionSort run rest)"

definition professional_activities_rows ::
  "host \<Rightarrow> certification list \<Rightarrow> user_skill list \<Rightarrow> activity_row list" where
  "professional_activities_rows rt certifications userSkills =
     sortRows (map (certRow rt) certifications
               @ concat (map (\<lambda>uskill. trainingRows rt uskill @ syntheticRows rt uskill) userSkills))"


section \<open>The request handler\<close>

text \<open>
  A read of the store answers with \<^verbatim>\<open>{ data, error }\<close>; the error is kept by its
  message. The four reads of the handler are the fields of \<open>store\<close>, and the document
  renderer with its template file is \<open>renderer\<close>. \<open>template\<close> is \<open>None\<close> when the file does
  not exist, and otherwise what \<^verbatim>\<open>readFileSync\<close> does: the message of the error it
  throws or the content of the file. \<open>construct\<close> is \<^verbatim>\<open>new PizZip\<close> followed by
  \<^verbatim>\<open>new Docxtemplater\<close>: the message of what they throw, if they do. \<open>render\<close> is
  \<^verbatim>\<open>doc.render\<close>, which throws an error or leaves the rendered document, and
  \<open>generate\<close> is \<^verbatim>\<open>doc.getZip().generate\<close>, which throws or gives the bytes.

  The handler returns its response with the trace of what it did: the reads it issued,
  by table, and the lines it wrote with \<^verbatim>\<open>console.error\<close>.
\<close>

record 'a reply =
  data :: "'a option"
  error :: "string option"

record store =
  users_single :: "string \<Rightarrow> user reply"
  experiences_select :: "string \<Rightarrow> experience list reply"
  user_skills_select :: "string \<Rightarrow> user_skill list reply"
  certifications_in :: "string list \<Rightarrow> certification list reply"

datatype event = Query string | ConsoleError string

record diagnostic =
  diag_id :: "string option"
  diag_message :: "string option"
  diag_explanation :: "string option"
  diag_stack :: "string option"

text \<open>
  What \<^verbatim>\<open>doc.render\<close> throws: \<^verbatim>\<open>error.message\<close> and, when present,
  \<^verbatim>\<open>error.properties.errors\<close>.
\<close>

record render_error =
  error_message :: string
  properties_errors :: "diagnostic list option"

text \<open>
  The payload handed to the renderer. The entries of \<^verbatim>\<open>dataForTemplate\<close> that are
  constants or formatted by the host's locale (the employment history, the summary
  points, the contact placeholders, \<^verbatim>\<open>last_updated\<close>) are not part of the record; none
  of them can throw.
\<close>

record view_model =
  vm_fullname :: string
  vm_role_in_company :: string
  vm_email_id :: string
  vm_total_experience :: string
  vm_dxc_experience :: string
  vm_domain_expertise_rows :: "domain_row list"
  vm_technical_expertise_primary_skills :: "technical_row list"
  vm_professional_activities_rows :: "activity_row list"

record renderer =
  template :: "(string + string) option"
  construct :: "string \<Rightarrow> string option"
  render :: "string \<Rightarrow> view_model \<Rightarrow> render_error + string"
  generate :: "string \<Rightarrow> string + string"

datatype details = NoDetails | Message string | Diagnostics "diagnostic list"

datatype response =
    Json nat string details
  | Docx string string

text \<open>What a stage of the handler does: return a response, throw, or go on.\<close>

datatype 'a outcome = Return response | Throw error | Continue 'a

text \<open>\<^verbatim>\<open>error.message\<close>; for the \<^verbatim>\<open>RangeError\<close> of \<^verbatim>\<open>toISOString\<close> the text is V8's.\<close>

definition message :: "error \<Rightarrow> string" where
  "message e =
     (case e of
        RangeError \<Rightarrow> ''Invalid time value''
      | UpstreamError m \<Rightarrow> m
      | LibraryError m \<Rightarrow> m)"

text \<open>Stage A of the handler, lines 100 to 178: the four reads.\<close>

definition fetchCertifications ::
  "store \<Rightarrow> user_skill list option \<Rightarrow> certification list reply \<times> event list" where
  "fetchCertifications db userSkillsData =
     (case userSkillsData of
        None \<Rightarrow> (\<lparr>data = Some [], error = None\<rparr>, [])
      | Some us \<Rightarrow>
          if us \<noteq> [] then
            let userSkillIds = List.map_filter uskill_id us
            in if userSkillIds \<noteq> [] then
                 let r = certifications_in db userSkillIds
                 in (\<lparr>data = Some (case data r of None \<Rightarrow> [] | Some d \<Rightarrow> d), error = error r\<rparr>,
                     [Query ''certifications''])
               else (\<lparr>data = Some [], error = None\<rparr>, [])
          else (\<lparr>data = Some [], error = None\<rparr>, []))"

definition fetchData ::
  "store \<Rightarrow> string
     \<Rightarrow> (user \<times> experience list \<times> user_skill list \<times> certification list) outcome \<times> event list" where
  "fetchData db userId =
     (let u = users_single db userId; tr = [Query ''users'']
      in case (error u, data u) of
           (None, Some userData) \<Rightarrow>
             (let e = experiences_select db userId; tr = tr @ [Query ''experiences'']
              in case error e of
                   Some experiencesError \<Rightarrow>
                     (Throw (UpstreamError experiencesError),
                      tr @ [ConsoleError ''Error fetching experiences:''])
                 | None \<Rightarrow>
                     (let s = user_skills_select db userId; tr = tr @ [Query ''user_skills'']
                      in case error s of
                           Some userSkillsError \<Rightarrow>
                             (Throw (UpstreamError userSkillsError),
                              tr @ [ConsoleError ''Error fetching user skills:''])
                         | None \<Rightarrow>
                             (let (c, q) = fetchCertifications db (data s); tr = tr @ q
                              in case error c of
                                   Some certError \<Rightarrow>
                                     (Throw (UpstreamError certError),
                                      tr @ [ConsoleError ''Error fetching certifications:''])
                                 | None \<Rightarrow>
                                     (Continue
                                        (userData,
                                         (case data e of None \<Rightarrow> [] | Some d \<Rightarrow> d),
                                         (case data s of None \<Rightarrow> [] | Some d \<Rightarrow> d),
                                         (case data c of None \<Rightarrow> [] | Some d \<Rightarrow> d)),
                                      tr))))
         | _ \<Rightarrow>
             (Return (Json 404 ''User not found or error fetching user data.'' NoDetails),
              tr @ [ConsoleError ''Error fetching user:'']))"

text \<open>\<^verbatim>\<open>experiences?.[0]?.title || 'N/A'\<close>\<close>

definition role_in_company :: "experience list \<Rightarrow> string" where
  "role_in_company experiences =
     (case experiences of [] \<Rightarrow> ''N/A'' | exp # _ \<Rightarrow> orElse (title exp) ''N/A'')"

text \<open>
  The white space of a regular expression (\<^verbatim>\<open>\s\<close>): \<open>whiteSpace s\<close> is the number of
  bytes of the white-space character at the head of \<open>s\<close>, 0 when there is none. Beyond
  ASCII these are U+00A0, U+1680, U+2000 to U+200A, U+2028, U+2029, U+202F, U+205F,
  U+3000 and U+FEFF.
\<close>

definition whiteSpace :: "string \<Rightarrow> nat" where
  "whiteSpace s =
     (let b = map (of_char :: char \<Rightarrow> nat) (take 3 s)
      in if take 1 b \<in> set [[9], [10], [11], [12], [13], [32]] then 1
         else if take 2 b = [194, 160] then 2
         else if b = [225, 154, 128] then 3
         else if length b = 3 \<and> take 2 b = [226, 128]
                 \<and> (128 \<le> b ! 2 \<and> b ! 2 \<le> 138 \<or> b ! 2 \<in> set [168, 169, 175]) then 3
         else if b = [226, 129, 159] then 3
         else if b = [227, 128, 128] then 3
         else if b = [239, 187, 191] then 3
         else 0)"

text \<open>
  \<^verbatim>\<open>name.replace(/\s+/g, '_')\<close>: every run of white space becomes one underscore.
  \<open>skip\<close> counts the bytes still to drop of the white-space character being read, and
  \<open>inRun\<close> tells that the run has its underscore already.
\<close>

fun replaceRuns :: "nat \<Rightarrow> bool \<Rightarrow> string \<Rightarrow> string" where
  "replaceRuns skip inRun [] = []"
| "replaceRuns skip inRun (c # cs) =
     (if 0 < skip then replaceRuns (skip - 1) True cs
      else if 0 < whiteSpace (c # cs)
        then (if inRun then [] else ''_'') @ replaceRuns (whiteSpace (c # cs) - 1) True cs
      else c # replaceRuns 0 False cs)"

definition underscores :: "string \<Rightarrow> string" where
  "underscores s = replaceRuns 0 False s"

text \<open>
  Stages B and C, lines 180 to 392. \<^verbatim>\<open>total_experience\<close> is computed before the
  template is looked up, and the tenure at DXC when \<^verbatim>\<open>dataForTemplate\<close> is built, after
  the template is loaded. Only \<^verbatim>\<open>doc.render\<close> has a \<^verbatim>\<open>try\<close> of its own; what the
  other calls throw reaches the \<^verbatim>\<open>catch\<close> of line 394.
\<close>

definition renderFailure :: "render_error \<Rightarrow> response \<times> event list" where
  "renderFailure err =
     (case properties_errors err of
        None \<Rightarrow>
          (Json 500 ''Failed to render CV document.''
             (Diagnostics [\<lparr>diag_id = None, diag_message = Some (error_message err),
                             diag_explanation = None, diag_stack = None\<rparr>]),
           [ConsoleError ''Docxtemplater render error:''])
      | Some errors \<Rightarrow>
          (Json 500 ''Failed to render CV document.'' (Diagnostics errors),
           [ConsoleError ''Docxtemplater render error:'', ConsoleError ''Template Errors:'']))"

definition compile ::
  "host \<Rightarrow> renderer \<Rightarrow> user \<times> experience list \<times> user_skill list \<times> certification list
     \<Rightarrow> (error + response) \<times> event list" where
  "compile rt rd fetched =
     (case fetched of
        (userData, experiences, userSkills, certifications) \<Rightarrow>
          (case total_experience rt experiences of
             Inl e \<Rightarrow> (Inl e, [])
           | Inr totalExp \<Rightarrow>
               (case template rd of
                  None \<Rightarrow>
                    (Inr (Json 404 ''Template file not found.'' NoDetails),
                     [ConsoleError ''Template file not found at path:''])
                | Some (Inl m) \<Rightarrow> (Inl (LibraryError m), [])
                | Some (Inr templateFile) \<Rightarrow>
                    (case construct rd templateFile of
                       Some m \<Rightarrow> (Inl (LibraryError m), [])
                     | None \<Rightarrow>
                         (case calculateDurationForCompany rt experiences ''DXC'' of
                            Inl e \<Rightarrow> (Inl e, [])
                          | Inr dxc \<Rightarrow>
                              (let dataForTemplate =
                                     \<lparr>vm_fullname = orElse (fullname userData) ''N/A'',
                                      vm_role_in_company = role_in_company experiences,
                                      vm_email_id = orElse (email userData) ''N/A'',
                                      vm_total_experience = totalExp,
                                      vm_dxc_experience = dxc,
                                      vm_domain_expertise_rows =
                                        domain_expertise_rows rt experiences,
                                      vm_technical_expertise_primary_skills =
                                        technical_expertise_primary_skills rt experiences,
                                      vm_professional_activities_rows =
                                        professional_activities_rows rt certifications userSkills\<rparr>
                               in case render rd templateFile dataForTemplate of
                                    Inl err \<Rightarrow>
                                      (Inr (fst (renderFailure err)), snd (renderFailure err))
                                  | Inr doc \<Rightarrow>
                                      (case generate rd doc of
                                         Inl m \<Rightarrow> (Inl (LibraryError m), [])
                                       | Inr buf \<Rightarrow>
                                           (Inr (Docx buf
                                                   (''attachment; filename=\"cv_''
                                                    @ underscores (orElse (fullname userData) ''user'')
                                                    @ ''.docx\"'')),
                                            []))))))))"

text \<open>The \<^verbatim>\<open>catch\<close> of line 394.\<close>

definition caught :: "error \<Rightarrow> event list \<Rightarrow> response \<times> event list" where
  "caught e tr =
     (Json 500 ''Failed to generate CV.'' (Message (message e)),
      tr @ [ConsoleError ''Error generating CV:''])"

text \<open>The handler: the guard on \<^verbatim>\<open>userId\<close>, then the stages inside the \<^verbatim>\<open>try\<close>.\<close>

definition GET :: "host \<Rightarrow> store \<Rightarrow> renderer \<Rightarrow> string option \<Rightarrow> response \<times> event list" where
  "GET rt db rd userId =
     (case userId of
        None \<Rightarrow> (Json 400 ''userId is required'' NoDetails, [])
      | Some uid \<Rightarrow>
          if uid = [] then (Json 400 ''userId is required'' NoDetails, [])
          else
            (case fetchData db uid of
               (Return r, tr) \<Rightarrow> (r, tr)
             | (Throw e, tr) \<Rightarrow> caught e tr
             | (Continue fetched, tr) \<Rightarrow>
                 (case compile rt rd fetched of
                    (Inr r, tr') \<Rightarrow> (r, tr @ tr')
                  | (Inl e, tr') \<Rightarrow> caught e (tr @ tr'))))"

subsection \<open>Hosts and inputs of the examples\<close>

text \<open>
  The names in the examples are ASCII, on which \<^verbatim>\<open>toLowerCase\<close> lowers the letters A
  to Z and nothing else; no string of the examples outside the ISO forms is a date.
\<close>

definition lowerChar :: "char \<Rightarrow> char" where
  "lowerChar c =
     (let n = (of_char c :: nat) in if 65 \<le> n \<and> n \<le> 90 then char_of (n + 32) else c)"

definition asciiLowerCase :: "string \<Rightarrow> string" where
  "asciiLowerCase s = map lowerChar s"

definition utcHost :: host where
  "utcHost =
     \<lparr>now = 1700000000000, tza = (\<lambda>_. 0), hostParse = (\<lambda>_. None),
      toLowerCase = asciiLowerCase\<rparr>"

definition brusselsWinterHost :: host where
  "brusselsWinterHost =
     \<lparr>now = 1700000000000, tza = (\<lambda>_. 3600000), hostParse = (\<lambda>_. None),
      toLowerCase = asciiLowerCase\<rparr>"


text \<open>The tenure texts held in the map of the domain table.\<close>

definition mapValues :: "(string \<times> (string \<times> string) list) list \<Rightarrow> string set" where
  "mapValues m = set (concat (map (\<lambda>(k, i). map snd i) m))"

definition experienceWithoutStart :: experience where
  "experienceWithoutStart =
     \<lparr>company = Some ''Acme'', title = Some ''Engineer'', startdate = None, enddate = None,
      experience_skills =
        Some [\<lparr>skills = Some \<lparr>skill_name = ''Isabelle'', skill_type = ''hard'',
                                  skill_families = Some \<lparr>family_name = ''Proof''\<rparr>\<rparr>\<rparr>]\<rparr>"

definition acmeExperiences :: "experience list" where
  "acmeExperiences =
     [\<lparr>company = Some ''Globex'', title = Some ''Architect'', startdate = Some ''2021-03-01'',
       enddate = None, experience_skills = None\<rparr>,
      \<lparr>company = Some ''ACME'', title = Some ''Lead'', startdate = Some ''2020-01-01'',
       enddate = Some ''2021-01-01'', experience_skills = None\<rparr>,
      \<lparr>company = Some ''Acme'', title = Some ''Engineer'', startdate = Some ''2019-01-01'',
       enddate = Some ''2020-06-01'', experience_skills = None\<rparr>]"

definition experiencesWithBadStart :: "experience list" where
  "experiencesWithBadStart =
     [\<lparr>company = Some ''Acme'', title = Some ''Engineer'', startdate = Some ''2020-01-15'',
       enddate = Some ''2023-04-10'', experience_skills = None\<rparr>,
      \<lparr>company = Some ''Acme'', title = Some ''Intern'', startdate = Some ''n/a'',
       enddate = Some ''2019-12-31'', experience_skills = None\<rparr>]"


text \<open>Two stints at DXC, the start date of the second of which is not a date.\<close>

definition dxcExperiencesWithBadStart :: "experience list" where
  "dxcExperiencesWithBadStart =
     [\<lparr>company = Some ''DXC'', title = Some ''Engineer'', startdate = Some ''2020-01-15'',
       enddate = Some ''2023-04-10'', experience_skills = None\<rparr>,
      \<lparr>company = Some ''dxc'', title = Some ''Intern'', startdate = Some ''n/a'',
       enddate = Some ''2019-12-31'', experience_skills = None\<rparr>]"

text \<open>An experience with a start date and the same skill as \<open>experienceWithoutStart\<close>.\<close>

definition datedExperience :: experience where
  "datedExperience =
     \<lparr>company = Some ''Globex'', title = Some ''Architect'', startdate = Some ''2020-01-15'',
      enddate = Some ''2023-04-10'',
      experience_skills =
        Some [\<lparr>skills = Some \<lparr>skill_name = ''Isabelle'', skill_type = ''hard'',
                                  skill_families = Some \<lparr>family_name = ''Proof''\<rparr>\<rparr>\<rparr>]\<rparr>"

definition awsTraining :: training where
  "awsTraining = \<lparr>training_name = ''AWS Essentials'', training_date = Some ''2022-09-12'',
                   provider = Some ''AWS''\<rparr>"

definition unflaggedUserSkill :: user_skill where
  "unflaggedUserSkill =
     \<lparr>uskill_id = Some ''us-1'', hascertification = False, certificationname = None,
      certificationdate = None, hastrainings = False, skills_name = Some ''AWS'',
      trainings = Some [awsTraining]\<rparr>"

definition trainedUserSkill :: user_skill where
  "trainedUserSkill =
     \<lparr>uskill_id = Some ''us-2'', hascertification = True, certificationname = None,
      certificationdate = None, hastrainings = True, skills_name = Some ''AWS'',
      trainings = Some [awsTraining]\<rparr>"

definition namedCertificationSkill :: user_skill where
  "namedCertificationSkill =
     \<lparr>uskill_id = Some ''us-3'', hascertification = True,
      certificationname = Some ''AWS Solutions Architect'', certificationdate = Some ''2021-06-30'',
      hastrainings = False, skills_name = Some ''AWS'', trainings = None\<rparr>"

text \<open>A user-skill with neither a certification nor trainings of its own.\<close>

definition plainUserSkill :: user_skill where
  "plainUserSkill =
     \<lparr>uskill_id = Some ''us-4'', hascertification = False, certificationname = None,
      certificationdate = None, hastrainings = False, skills_name = Some ''Scrum'',
      trainings = None\<rparr>"

definition certificationsWithBadDate :: "certification list" where
  "certificationsWithBadDate =
     [\<lparr>cert_name = ''PSM I'', cert_date = Some ''2021-05-01''\<rparr>,
      \<lparr>cert_name = ''CKA'', cert_date = Some ''n/a''\<rparr>,
      \<lparr>cert_name = ''AWS SAA'', cert_date = Some ''2023-02-01''\<rparr>]"

definition certificationsWithBadDateOfFour :: "certification list" where
  "certificationsWithBadDateOfFour =
     [\<lparr>cert_name = ''PSM I'', cert_date = Some ''2021-05-01''\<rparr>,
      \<lparr>cert_name = ''PSPO I'', cert_date = Some ''2022-03-01''\<rparr>,
      \<lparr>cert_name = ''CKA'', cert_date = Some ''n/a''\<rparr>,
      \<lparr>cert_name = ''AWS SAA'', cert_date = Some ''2023-02-01''\<rparr>]"

definition certificationsWithMissingDate :: "certification list" where
  "certificationsWithMissingDate =
     [\<lparr>cert_name = ''PSM I'', cert_date = Some ''2021-05-01''\<rparr>,
      \<lparr>cert_name = ''CKA'', cert_date = None\<rparr>,
      \<lparr>cert_name = ''AWS SAA'', cert_date = Some ''2023-02-01''\<rparr>]"


definition failingSkillsStore :: store where
  "failingSkillsStore =
     \<lparr>users_single = (\<lambda>_. \<lparr>data = Some \<lparr>email = Some ''ada@example.org'', fullname = Some ''Ada L''\<rparr>,
                             error = None\<rparr>),
      experiences_select = (\<lambda>_. \<lparr>data = Some acmeExperiences, error = None\<rparr>),
      user_skills_select = (\<lambda>_. \<lparr>data = None, error = Some ''permission denied for table user_skills''\<rparr>),
      certifications_in = (\<lambda>_. \<lparr>data = Some certificationsWithMissingDate, error = None\<rparr>)\<rparr>"

definition echoRenderer :: renderer where
  "echoRenderer =
     \<lparr>template = Some (Inr ''template''), construct = (\<lambda>_. None),
      render = (\<lambda>t vm. Inr (t @ vm_fullname vm)), generate = (\<lambda>doc. Inr doc)\<rparr>"


text \<open>A renderer whose document is the column of the years of the roster.\<close>

definition yearText :: "jsval \<Rightarrow> string" where
  "yearText v = (case v of Num n \<Rightarrow> numShow n | Str s \<Rightarrow> s)"

definition rosterRenderer :: renderer where
  "rosterRenderer =
     \<lparr>template = Some (Inr ''template''), construct = (\<lambda>_. None),
      render = (\<lambda>t vm. Inr (concat (map (\<lambda>r. yearText (year r) @ '';'')
                                       (vm_professional_activities_rows vm)))),
      generate = (\<lambda>doc. Inr doc)\<rparr>"

text \<open>
  A store whose reads all succeed: one user-skill without flags, and three certifications,
  the date of the second of which is not a date.
\<close>

definition badDateStore :: store where
  "badDateStore =
     \<lparr>users_single = (\<lambda>_. \<lparr>data = Some \<lparr>email = Some ''ada@example.org'', fullname = Some ''Ada L''\<rparr>,
                             error = None\<rparr>),
      experiences_select = (\<lambda>_. \<lparr>data = Some acmeExperiences, error = None\<rparr>),
      user_skills_select = (\<lambda>_. \<lparr>data = Some [plainUserSkill], error = None\<rparr>),
      certifications_in = (\<lambda>_. \<lparr>data = Some certificationsWithBadDate, error = None\<rparr>)\<rparr>"

text \<open>A store whose reads all succeed, for a user with the two stints at DXC.\<close>

definition dxcStore :: store where
  "dxcStore =
     \<lparr>users_single = (\<lambda>_. \<lparr>data = Some \<lparr>email = Some ''ada@example.org'', fullname = Some ''Ada L''\<rparr>,
                             error = None\<rparr>),
      experiences_select = (\<lambda>_. \<lparr>data = Some dxcExperiencesWithBadStart, error = None\<rparr>),
      user_skills_select = (\<lambda>_. \<lparr>data = Some [], error = None\<rparr>),
      certifications_in = (\<lambda>_. \<lparr>data = Some [], error = None\<rparr>)\<rparr>"

text \<open>A renderer whose template has a tag that is never closed.\<close>

definition unclosedTag :: diagnostic where
  "unclosedTag =
     \<lparr>diag_id = Some ''unclosed_tag'', diag_message = Some ''Unclosed tag'',
      diag_explanation = Some ''The tag beginning with \"{fullname\" is unclosed'',
      diag_stack = None\<rparr>"

definition failingRenderer :: renderer where
  "failingRenderer =
     echoRenderer\<lparr>render :=
       (\<lambda>t vm. Inl \<lparr>error_message = ''Multi error'', properties_errors = Some [unclosedTag]\<rparr>)\<rparr>"

definition answeringStore :: store where
  "answeringStore =
     failingSkillsStore\<lparr>user_skills_select :=
       (\<lambda>_. \<lparr>data = Some [namedCertificationSkill, trainedUserSkill], error = None\<rparr>)\<rparr>"

section \<open>The calendar\<close>

lemma div_succ:
  assumes "0 < (k::int)"
  shows "(x + 1) div k = x div k + (if (x + 1) mod k = 0 then 1 else 0)"
proof -
  define q r where "q = x div k" and "r = x mod k"
  have x: "x = k * q + r" and r: "0 \<le> r" "r < k"
    using assms by (simp_all add: q_def r_def)
  show ?thesis
  proof (cases "r + 1 = k")
    case True
    have e: "x + 1 = k * (q + 1) + 0" using x True by (simp add: algebra_simps)
    have "(x + 1) div k = q + 1" by (rule int_div_pos_eq [OF e]) (use assms in simp_all)
    moreover have "(x + 1) mod k = 0" by (rule int_mod_pos_eq [OF e]) (use assms in simp_all)
    ultimately show ?thesis by (simp add: q_def)
  next
    case False
    have e: "x + 1 = k * q + (r + 1)" using x by simp
    have b: "0 \<le> r + 1" "r + 1 < k" using r False by simp_all
    have "(x + 1) div k = q" by (rule int_div_pos_eq [OF e b])
    moreover have "(x + 1) mod k = r + 1" by (rule int_mod_pos_eq [OF e b])
    ultimately show ?thesis using r by (simp add: q_def)
  qed
qed

lemma mod_shift4: "((y::int) - 1969 + 1) mod 4 = 0 \<longleftrightarrow> y mod 4 = 0"
  using mod_diff_right_eq [of y 1968 4] by simp

lemma mod_shift100: "((y::int) - 1901 + 1) mod 100 = 0 \<longleftrightarrow> y mod 100 = 0"
  using mod_diff_right_eq [of y 1900 100] by simp

lemma mod_shift400: "((y::int) - 1601 + 1) mod 400 = 0 \<longleftrightarrow> y mod 400 = 0"
  using mod_diff_right_eq [of y 1600 400] by simp

lemma dvd_mod_0: "(k::int) dvd n \<Longrightarrow> y mod n = 0 \<Longrightarrow> y mod k = 0"
  by (meson dvd_trans mod_eq_0_iff_dvd)

text \<open>A year has as many days as lie between its first day and the next year's.\<close>

lemma DayFromYear_Suc: "DayFromYear (y + 1) = DayFromYear y + DaysInYear y"
proof -
  have a: "(y + 1 - 1969) div 4 = (y - 1969) div 4 + (if y mod 4 = 0 then 1 else 0)"
    using div_succ [of 4 "y - 1969"] mod_shift4 [of y] by (simp add: algebra_simps)
  have b: "(y + 1 - 1901) div 100 = (y - 1901) div 100 + (if y mod 100 = 0 then 1 else 0)"
    using div_succ [of 100 "y - 1901"] mod_shift100 [of y] by (simp add: algebra_simps)
  have c: "(y + 1 - 1601) div 400 = (y - 1601) div 400 + (if y mod 400 = 0 then 1 else 0)"
    using div_succ [of 400 "y - 1601"] mod_shift400 [of y] by (simp add: algebra_simps)
  have d: "y mod 100 = 0 \<Longrightarrow> y mod 4 = 0" "y mod 400 = 0 \<Longrightarrow> y mod 100 = 0"
    by (rule dvd_mod_0 [of 4 100], simp, assumption) (rule dvd_mod_0 [of 100 400], simp, assumption)
  show ?thesis
    unfolding DayFromYear_def DaysInYear_def a b c using d by auto
qed

lemma leap_count_bounds:
  fixes y a b c ra rb rc :: int
  assumes "y - 1969 = 4 * a + ra" "0 \<le> ra" "ra < 4"
    and "y - 1901 = 100 * b + rb" "0 \<le> rb" "rb < 100"
    and "y - 1601 = 400 * c + rc" "0 \<le> rc" "rc < 400"
  shows "400 * (365 * (y - 1970) + a - b + c) - 146097 * (y - 1970) \<le> 589"
    and "146097 * (y - 1970) - 400 * (365 * (y - 1970) + a - b + c) \<le> 506"
proof -
  show "400 * (365 * (y - 1970) + a - b + c) - 146097 * (y - 1970) \<le> 589"
    using assms by (simp add: algebra_simps)
  show "146097 * (y - 1970) - 400 * (365 * (y - 1970) + a - b + c) \<le> 506"
    using assms by (simp add: algebra_simps)
qed

lemma DayFromYear_bounds:
  "400 * DayFromYear y - 146097 * (y - 1970) \<le> 589"
  "146097 * (y - 1970) - 400 * DayFromYear y \<le> 506"
  unfolding DayFromYear_def
  by (rule leap_count_bounds [where ra = "(y - 1969) mod 4" and rb = "(y - 1901) mod 100"
        and rc = "(y - 1601) mod 400"]; simp)+

lemma year_estimate:
  fixes d y r lo hi :: int
  assumes "400 * d = 146097 * (y - 1970) + r" "0 \<le> r" "r < 146097"
    and "400 * lo - 146097 * (y - 1 - 1970) \<le> 589"
    and "146097 * (y + 2 - 1970) - 400 * hi \<le> 506"
  shows "lo \<le> d" "d < hi"
proof -
  show "lo \<le> d" using assms by (simp add: algebra_simps)
  show "d < hi" using assms by (simp add: algebra_simps)
qed

text \<open>\<open>YearFromDay\<close> is the year of ECMAScript's \<^verbatim>\<open>YearFromTime\<close>.\<close>

lemma YearFromDay_bounds:
  "DayFromYear (YearFromDay d) \<le> d" "d < DayFromYear (YearFromDay d + 1)"
proof -
  define y where "y = 1970 + (400 * d) div 146097"
  have e: "400 * d = 146097 * (y - 1970) + (400 * d) mod 146097" unfolding y_def by simp
  have r: "0 \<le> (400 * d) mod 146097" "(400 * d) mod 146097 < 146097" by simp_all
  note est = year_estimate [OF e r DayFromYear_bounds(1) [of "y - 1"] DayFromYear_bounds(2) [of "y + 2"]]
  have s: "y - 1 + 1 = y" "y + 1 + 1 = y + 2" by simp_all
  show "DayFromYear (YearFromDay d) \<le> d"
    unfolding YearFromDay_def y_def [symmetric] Let_def using est(1) by auto
  show "d < DayFromYear (YearFromDay d + 1)"
    unfolding YearFromDay_def y_def [symmetric] Let_def using est(2) by (auto simp: s)
qed

lemma DaysInYear_cases: "DaysInYear y = 365 \<or> DaysInYear y = 366"
  by (simp add: DaysInYear_def)

lemma InLeapYear_cases: "InLeapYear y = 0 \<or> InLeapYear y = 1"
  by (simp add: InLeapYear_def)

lemma DayWithinYear_bounds:
  "0 \<le> DayWithinYear t" "DayWithinYear t < 365 + InLeapYear (YearFromTime t)"
proof -
  show "0 \<le> DayWithinYear t"
    using YearFromDay_bounds(1) [of "Day t"] by (simp add: DayWithinYear_def YearFromTime_def)
  have "Day t < DayFromYear (YearFromTime t) + DaysInYear (YearFromTime t)"
    using YearFromDay_bounds(2) [of "Day t"] by (simp add: YearFromTime_def DayFromYear_Suc)
  then show "DayWithinYear t < 365 + InLeapYear (YearFromTime t)"
    using DaysInYear_cases [of "YearFromTime t"] by (auto simp: DayWithinYear_def InLeapYear_def)
qed

lemma monthOfDay_range: "0 \<le> monthOfDay l d" "monthOfDay l d \<le> 11"
  by (simp_all add: monthOfDay_def)

lemma monthStart_monthOfDay:
  assumes "l = 0 \<or> l = 1" "0 \<le> d" "d < 365 + l"
  shows "monthStart l (monthOfDay l d) \<le> d" "d < monthStart l (monthOfDay l d + 1)"
  using assms by (auto simp: monthStart_def monthOfDay_def)

lemma MonthFromTime_range: "0 \<le> MonthFromTime t" "MonthFromTime t \<le> 11"
  by (simp_all add: MonthFromTime_def monthOfDay_range)

lemma DateFromTime_range:
  "1 \<le> DateFromTime t"
  "DateFromTime t \<le> DaysInMonth (YearFromTime t) (MonthFromTime t + 1)"
proof -
  note ms = monthStart_monthOfDay [OF InLeapYear_cases DayWithinYear_bounds, of t]
  show "1 \<le> DateFromTime t"
    using ms(1) by (simp add: DateFromTime_def MonthFromTime_def)
  show "DateFromTime t \<le> DaysInMonth (YearFromTime t) (MonthFromTime t + 1)"
    using ms(2) by (simp add: DateFromTime_def MonthFromTime_def DaysInMonth_def)
qed

lemma DaysInMonth_le: "DaysInMonth y m \<le> 31"
proof -
  have "m \<le> 0 \<or> m = 1 \<or> m = 2 \<or> m = 3 \<or> m = 4 \<or> m = 5 \<or> m = 6 \<or> m = 7 \<or> m = 8
      \<or> m = 9 \<or> m = 10 \<or> m = 11 \<or> m = 12 \<or> 13 \<le> m"
    by arith
  then show ?thesis
    using InLeapYear_cases [of y]
    by (elim disjE) (simp_all add: DaysInMonth_def monthStart_def)
qed

lemma MakeDay_fields: "MakeDay (YearFromTime t) (MonthFromTime t + 1) (DateFromTime t) = Day t"
  by (simp add: MakeDay_def DateFromTime_def DayWithinYear_def)

lemma TimeWithinDay_bounds: "0 \<le> TimeWithinDay t" "TimeWithinDay t < 86400000"
  by (simp_all add: TimeWithinDay_def msPerDay_def)

lemma Day_TimeWithinDay: "Day t * msPerDay + TimeWithinDay t = t"
  by (simp add: Day_def TimeWithinDay_def)

lemma time_fields:
  fixes w :: int
  assumes "0 \<le> w" "w < 86400000"
  shows "0 \<le> w div 3600000" "w div 3600000 \<le> 23"
    and "0 \<le> (w div 60000) mod 60" "(w div 60000) mod 60 \<le> 59"
    and "0 \<le> (w div 1000) mod 60" "(w div 1000) mod 60 \<le> 59"
    and "0 \<le> w mod 1000" "w mod 1000 < 1000"
    and "(w div 3600000) * 3600000 + ((w div 60000) mod 60) * 60000
           + ((w div 1000) mod 60) * 1000 + w mod 1000 = w"
proof -
  show "0 \<le> w div 3600000" using assms by simp
  show "w div 3600000 \<le> 23" using assms by simp
  show "0 \<le> (w div 60000) mod 60" "(w div 60000) mod 60 \<le> 59"
       "0 \<le> (w div 1000) mod 60" "(w div 1000) mod 60 \<le> 59"
       "0 \<le> w mod 1000" "w mod 1000 < 1000"
    by simp_all
  have a: "w div 60000 = (w div 1000) div 60" "w div 3600000 = (w div 60000) div 60"
    by (simp_all add: zdiv_zmult2_eq [symmetric])
  have b: "w = 1000 * (w div 1000) + w mod 1000" by simp
  have c: "w div 1000 = 60 * ((w div 1000) div 60) + (w div 1000) mod 60" by simp
  have d: "w div 60000 = 60 * ((w div 60000) div 60) + (w div 60000) mod 60" by simp
  define q1 q2 q3 r1 r2 r3 where "q1 = w div 1000" and "q2 = w div 60000" and "q3 = w div 3600000"
    and "r1 = w mod 1000" and "r2 = (w div 1000) mod 60" and "r3 = (w div 60000) mod 60"
  have "w = 1000 * q1 + r1" "q1 = 60 * q2 + r2" "q2 = 60 * q3 + r3"
    unfolding q1_def q2_def q3_def r1_def r2_def r3_def using a b c d by simp_all
  then have "q3 * 3600000 + r3 * 60000 + r2 * 1000 + r1 = w" by simp
  then show "(w div 3600000) * 3600000 + ((w div 60000) mod 60) * 60000
           + ((w div 1000) mod 60) * 1000 + w mod 1000 = w"
    unfolding q1_def q2_def q3_def r1_def r2_def r3_def .
qed

lemma time_fields_nat:
  shows "nat (HourFromTime t) \<le> 23" "nat (MinFromTime t) \<le> 59" "nat (SecFromTime t) \<le> 59"
    "nat (msFromTime t) < 1000"
    and "int (nat (HourFromTime t)) * 3600000 + int (nat (MinFromTime t)) * 60000
         + int (nat (SecFromTime t)) * 1000 + int (nat (msFromTime t)) = TimeWithinDay t"
proof -
  note tf = time_fields [OF TimeWithinDay_bounds, of t]
  show "nat (HourFromTime t) \<le> 23" using tf(2) unfolding HourFromTime_def by linarith
  show "nat (MinFromTime t) \<le> 59" using tf(4) unfolding MinFromTime_def by linarith
  show "nat (SecFromTime t) \<le> 59" using tf(6) unfolding SecFromTime_def by linarith
  show "nat (msFromTime t) < 1000" using tf(8) unfolding msFromTime_def by linarith
  have "int (nat (HourFromTime t)) = TimeWithinDay t div 3600000"
    "int (nat (MinFromTime t)) = (TimeWithinDay t div 60000) mod 60"
    "int (nat (SecFromTime t)) = (TimeWithinDay t div 1000) mod 60"
    "int (nat (msFromTime t)) = TimeWithinDay t mod 1000"
    unfolding HourFromTime_def MinFromTime_def SecFromTime_def msFromTime_def
    using tf(1,3,5,7) by simp_all
  then show "int (nat (HourFromTime t)) * 3600000 + int (nat (MinFromTime t)) * 60000
         + int (nat (SecFromTime t)) * 1000 + int (nat (msFromTime t)) = TimeWithinDay t"
    using tf(9) by (simp only:)
qed

lemma Day_range:
  assumes "\<bar>t\<bar> \<le> maxTime"
  shows "- 100000000 \<le> Day t" "Day t \<le> 100000000"
proof -
  have "- 8640000000000000 \<le> t" "t \<le> 8640000000000000"
    using assms by (simp_all add: maxTime_def)
  then have "(- 8640000000000000) div 86400000 \<le> t div 86400000"
    "t div 86400000 \<le> 8640000000000000 div 86400000"
    by (simp_all add: zdiv_mono1)
  then show "- 100000000 \<le> Day t" "Day t \<le> 100000000"
    by (simp_all add: Day_def msPerDay_def)
qed

lemma YearFromDay_range:
  assumes "- 100000000 \<le> d" "d \<le> 100000000"
  shows "- 999999 \<le> YearFromDay d" "YearFromDay d \<le> 999999"
proof -
  have "(400 * (- 100000000)) div 146097 \<le> (400 * d) div 146097"
    "(400 * d) div 146097 \<le> (400 * 100000000) div 146097"
    using assms by (simp_all add: zdiv_mono1)
  then have "- 273791 \<le> (400 * d) div 146097" "(400 * d) div 146097 \<le> 273790"
    by simp_all
  then show "- 999999 \<le> YearFromDay d" "YearFromDay d \<le> 999999"
    by (simp_all add: YearFromDay_def Let_def)
qed

section \<open>Writing and reading back an ISO string\<close>

lemma digitVal_digitChar: "d < 10 \<Longrightarrow> digitVal (digitChar d) = Some d"
  by (simp add: digitVal_def digitChar_def)

lemma digitChar_not_sign:
  assumes "d < 10"
  shows "digitChar d \<noteq> CHR ''+''" "digitChar d \<noteq> CHR ''-''"
proof -
  have v: "(of_char (digitChar d) :: nat) = 48 + d"
    using assms by (simp add: digitChar_def)
  show "digitChar d \<noteq> CHR ''+''"
  proof
    assume "digitChar d = CHR ''+''"
    then have "(of_char (digitChar d) :: nat) = of_char CHR ''+''" by simp
    then show False using v by simp
  qed
  show "digitChar d \<noteq> CHR ''-''"
  proof
    assume "digitChar d = CHR ''-''"
    then have "(of_char (digitChar d) :: nat) = of_char CHR ''-''" by simp
    then show False using v by simp
  qed
qed

lemma digitsFrom_append:
  "digitsFrom acc (xs @ ys) =
     (case digitsFrom acc xs of None \<Rightarrow> None | Some a \<Rightarrow> digitsFrom a ys)"
  by (induction xs arbitrary: acc) (auto split: option.splits)

lemma digitsFrom_pad: "n < 10 ^ k \<Longrightarrow> digitsFrom acc (pad k n) = Some (acc * 10 ^ k + n)"
proof (induction k arbitrary: n)
  case 0
  then show ?case by simp
next
  case (Suc k)
  have "n div 10 < 10 ^ k" using Suc.prems by (simp add: less_mult_imp_div_less mult.commute)
  then have "digitsFrom acc (pad k (n div 10)) = Some (acc * 10 ^ k + n div 10)"
    by (rule Suc.IH)
  then show ?case
    by (simp add: digitsFrom_append digitVal_digitChar algebra_simps)
qed

lemma length_pad: "length (pad k n) = k"
  by (induction k arbitrary: n) simp_all

lemma drop_pad: "drop k (pad k n @ b) = b"
  by (simp add: length_pad)

lemma field_here: "n < 10 ^ k \<Longrightarrow> field 0 k (pad k n @ b) = Some n"
  by (simp add: field_def length_pad digitsFrom_pad)

lemma field_skip:
  assumes "length a \<le> i"
  shows "field i k (a @ b) = field (i - length a) k b"
proof -
  have "drop i (a @ b) = drop (i - length a) b" using assms by simp
  moreover have "i + k \<le> length (a @ b) \<longleftrightarrow> i - length a + k \<le> length b"
    using assms by auto
  ultimately show ?thesis unfolding field_def by simp
qed

lemma field_Cons: "0 < i \<Longrightarrow> field i k (c # b) = field (i - 1) k b"
  using field_skip [of "[c]" i k b] by simp

lemma sep_here: "sep 0 c (c # b)"
  by (simp add: sep_def)

lemma sep_skip: "length a \<le> i \<Longrightarrow> sep i c (a @ b) = sep (i - length a) c b"
  by (auto simp: sep_def nth_append)

lemma sep_Cons: "0 < i \<Longrightarrow> sep i c (x # b) = sep (i - 1) c b"
  using sep_skip [of "[x]" i c b] by simp

lemmas scan_simps = field_here field_skip field_Cons sep_here sep_skip sep_Cons length_pad

lemma pad_Suc_first: "\<exists>d cs. d < 10 \<and> pad (Suc k) n = digitChar d # cs"
proof (induction k arbitrary: n)
  case 0
  have "n mod 10 < 10 \<and> pad (Suc 0) n = digitChar (n mod 10) # []" by simp
  then show ?case by blast
next
  case (Suc k)
  obtain d cs where "d < 10" "pad (Suc k) (n div 10) = digitChar d # cs"
    using Suc.IH by blast
  then have "d < 10 \<and> pad (Suc (Suc k)) n = digitChar d # (cs @ [digitChar (n mod 10)])"
    by simp
  then show ?case by blast
qed

lemma pad_first:
  assumes "0 < k"
  obtains d cs where "d < 10" "pad k n = digitChar d # cs"
proof -
  obtain j where "k = Suc j" using assms by (cases k) simp_all
  then show ?thesis using pad_Suc_first [of j n] that by blast
qed

lemma parseYear_digit:
  assumes "d < 10"
  shows "parseYear (digitChar d # cs) =
    map_option (\<lambda>y. (int y, drop 4 (digitChar d # cs))) (field 0 4 (digitChar d # cs))"
  using digitChar_not_sign [OF assms] by (simp add: parseYear_def)

lemma parseYear_plain:
  assumes "n < 10 ^ 4"
  shows "parseYear (pad 4 n @ b) = Some (int n, b)"
proof -
  obtain d cs where d: "d < 10" and p: "pad 4 n = digitChar d # cs"
    by (rule pad_first [of 4 n]) simp
  have f: "field 0 4 (pad 4 n @ b) = Some n"
    using assms by (rule field_here)
  have "parseYear (pad 4 n @ b) =
      map_option (\<lambda>y. (int y, drop 4 (pad 4 n @ b))) (field 0 4 (pad 4 n @ b))"
    unfolding p using parseYear_digit [OF d, of "cs @ b"] by simp
  then show ?thesis
    unfolding f drop_pad by simp
qed

lemma parseYear_plus:
  assumes "n < 10 ^ 6"
  shows "parseYear (CHR ''+'' # pad 6 n @ b) = Some (int n, b)"
  using field_here [OF assms, of b] drop_pad [of 6 n b] by (simp add: parseYear_def)

lemma parseYear_minus:
  assumes "n < 10 ^ 6" "n \<noteq> 0"
  shows "parseYear (CHR ''-'' # pad 6 n @ b) = Some (- int n, b)"
  using field_here [OF assms(1), of b] drop_pad [of 6 n b] assms(2) by (simp add: parseYear_def)

lemma parseYear_isoYear:
  assumes "- 999999 \<le> y" "y \<le> 999999"
  shows "parseYear (isoYear y @ b) = Some (y, b)"
proof -
  consider "0 \<le> y \<and> y \<le> 9999" | "y < 0" | "9999 < y" by linarith
  then show ?thesis
  proof cases
    case 1
    then have "nat y < 10000" by linarith
    then have "nat y < 10 ^ 4" by simp
    then show ?thesis using 1 parseYear_plain [of "nat y" b] by (simp add: isoYear_def)
  next
    case 2
    then have "nat (- y) < 1000000" "nat (- y) \<noteq> 0" using assms by linarith+
    then have "nat (- y) < 10 ^ 6" "nat (- y) \<noteq> 0" by simp_all
    then show ?thesis using 2 parseYear_minus [of "nat (- y)" b] by (simp add: isoYear_def)
  next
    case 3
    then have "nat y < 1000000" using assms by linarith
    then have "nat y < 10 ^ 6" by simp
    then show ?thesis using 3 parseYear_plus [of "nat y" b] by (simp add: isoYear_def)
  qed
qed

lemma body_scan:
  fixes M D h mi sc ms :: nat
  assumes "M < 100" "D < 100" "h < 100" "mi < 100" "sc < 100" "ms < 1000"
  defines "b \<equiv> ''-'' @ pad 2 M @ ''-'' @ pad 2 D @ ''T'' @ pad 2 h @ '':'' @ pad 2 mi @ '':''
                 @ pad 2 sc @ ''.'' @ pad 3 ms @ ''Z''"
  shows "length b = 20"
    and "sep 0 CHR ''-'' b" and "sep 3 CHR ''-'' b" and "sep 6 CHR ''T'' b"
    and "sep 9 CHR '':'' b" and "sep 12 CHR '':'' b" and "sep 15 CHR ''.'' b"
    and "sep 19 CHR ''Z'' b"
    and "field 1 2 b = Some M" and "field 4 2 b = Some D" and "field 7 2 b = Some h"
    and "field 10 2 b = Some mi" and "field 13 2 b = Some sc" and "field 16 3 b = Some ms"
  using assms by (simp_all add: scan_simps)

lemma parseTime_body:
  fixes M D h mi sc ms :: nat
  assumes "M < 100" "D < 100" "h \<le> 23" "mi \<le> 59" "sc \<le> 59" "ms < 1000"
  shows "parseTime (''-'' @ pad 2 M @ ''-'' @ pad 2 D @ ''T'' @ pad 2 h @ '':'' @ pad 2 mi @ '':''
                 @ pad 2 sc @ ''.'' @ pad 3 ms @ ''Z'')
         = Some (int h * 3600000 + int mi * 60000 + int sc * 1000 + int ms)"
proof -
  have l: "h < 100" "mi < 100" "sc < 100" using assms by simp_all
  note bs = body_scan [OF assms(1,2) l assms(6)]
  show ?thesis unfolding parseTime_def using bs(4-8,11-14) assms(3-5) by simp
qed

lemma parseISO_full:
  fixes M D h mi sc ms :: nat
  assumes y: "- 999999 \<le> y" "y \<le> 999999"
    and M: "1 \<le> M" "M \<le> 12" and D: "1 \<le> D" "int D \<le> DaysInMonth y (int M)" "D < 100"
    and t: "h \<le> 23" "mi \<le> 59" "sc \<le> 59" "ms < 1000"
  shows "parseISO (isoYear y @ ''-'' @ pad 2 M @ ''-'' @ pad 2 D @ ''T'' @ pad 2 h @ '':''
                   @ pad 2 mi @ '':'' @ pad 2 sc @ ''.'' @ pad 3 ms @ ''Z'')
         = Some (MakeDay y (int M) (int D) * msPerDay
                 + (int h * 3600000 + int mi * 60000 + int sc * 1000 + int ms))"
proof -
  have l: "M < 100" "h < 100" "mi < 100" "sc < 100" using M t by simp_all
  note bs = body_scan [OF l(1) D(3) l(2-4) t(4)]
  note pt = parseTime_body [OF l(1) D(3) t]
  show ?thesis
    unfolding parseISO_def parseYear_isoYear [OF y]
    using bs(1-3,9,10) pt M D(1,2) by simp
qed

lemma toISOString_Some:
  "toISOString (Some t) =
     Inr (isoYear (YearFromTime t) @ ''-'' @ pad 2 (nat (MonthFromTime t + 1)) @ ''-''
               @ pad 2 (nat (DateFromTime t)) @ ''T'' @ pad 2 (nat (HourFromTime t)) @ '':''
               @ pad 2 (nat (MinFromTime t)) @ '':'' @ pad 2 (nat (SecFromTime t)) @ ''.''
               @ pad 3 (nat (msFromTime t)) @ ''Z'')"
  unfolding toISOString_def by simp

text \<open>\<^verbatim>\<open>Date.parse(d.toISOString())\<close> is the time value of \<open>d\<close>.\<close>

lemma parseISO_toISOString:
  assumes "\<bar>t\<bar> \<le> maxTime" "toISOString (Some t) = Inr s"
  shows "parseISO s = Some t"
proof -
  have yr: "- 999999 \<le> YearFromTime t" "YearFromTime t \<le> 999999"
    unfolding YearFromTime_def using YearFromDay_range [OF Day_range [OF assms(1)]] .
  have iM: "int (nat (MonthFromTime t + 1)) = MonthFromTime t + 1"
    using MonthFromTime_range(1) [of t] by simp
  have iD: "int (nat (DateFromTime t)) = DateFromTime t"
    using DateFromTime_range(1) [of t] by simp
  have Mr: "1 \<le> nat (MonthFromTime t + 1)" "nat (MonthFromTime t + 1) \<le> 12"
    using MonthFromTime_range [of t] by linarith+
  have Dr: "1 \<le> nat (DateFromTime t)"
    "int (nat (DateFromTime t)) \<le> DaysInMonth (YearFromTime t) (int (nat (MonthFromTime t + 1)))"
    unfolding iM iD using DateFromTime_range [of t] by linarith+
  have D100: "nat (DateFromTime t) < 100"
    using Dr(2) DaysInMonth_le [of "YearFromTime t" "int (nat (MonthFromTime t + 1))"] by linarith
  have e: "s = isoYear (YearFromTime t) @ ''-'' @ pad 2 (nat (MonthFromTime t + 1)) @ ''-''
               @ pad 2 (nat (DateFromTime t)) @ ''T'' @ pad 2 (nat (HourFromTime t)) @ '':''
               @ pad 2 (nat (MinFromTime t)) @ '':'' @ pad 2 (nat (SecFromTime t)) @ ''.''
               @ pad 3 (nat (msFromTime t)) @ ''Z''"
    using assms(2) unfolding toISOString_Some by (rule sum.inject(2) [THEN iffD1, symmetric])
  have "parseISO s = Some (MakeDay (YearFromTime t) (int (nat (MonthFromTime t + 1)))
            (int (nat (DateFromTime t))) * msPerDay
          + (int (nat (HourFromTime t)) * 3600000 + int (nat (MinFromTime t)) * 60000
             + int (nat (SecFromTime t)) * 1000 + int (nat (msFromTime t))))"
    unfolding e by (rule parseISO_full [OF yr Mr Dr D100 time_fields_nat(1-4)])
  also have "\<dots> = Some (Day t * msPerDay + TimeWithinDay t)"
    unfolding iM iD MakeDay_fields time_fields_nat(5) ..
  finally show ?thesis unfolding Day_TimeWithinDay .
qed


section \<open>Properties of the tenure calculator\<close>

lemma tenureSpan_Some:
  "tenureSpan rt (Some ts) (Some te) =
     (let dy = YearFromTime (te + tza rt te) - YearFromTime (ts + tza rt ts);
          dm = MonthFromTime (te + tza rt te) - MonthFromTime (ts + tza rt ts)
      in if dm < 0 then (Some (dy - 1), Some (dm + 12)) else (Some dy, Some dm))"
  by (simp add: tenureSpan_def getFullYear_def getMonth_def numSub_def numLess_def Let_def)

lemma calculateDuration_Some:
  "s \<noteq> [] \<Longrightarrow>
   calculateDuration rt (Some s) e = renderSpan (tenureSpan rt (newDate rt s) (endDate rt e))"
  by (simp add: calculateDuration_def Let_def)

lemma trim_Nil: "trim [] = []"
  by (simp add: trim_def)

lemma renderSpan_nothing:
  "y \<le> 0 \<Longrightarrow> m \<le> 0 \<Longrightarrow> renderSpan (Some y, Some m) = ''Moins d'un mois''"
  by (simp add: renderSpan_def numGreater_def trim_Nil)

lemma isSpace_code: "isSpace c \<Longrightarrow> (of_char c :: nat) \<in> {32, 9, 10, 11, 12, 13}"
  by (auto simp: isSpace_def)

lemma digitChar_not_space: "d < 10 \<Longrightarrow> \<not> isSpace (digitChar d)"
proof
  assume d: "d < 10" and sp: "isSpace (digitChar d)"
  have "(of_char (digitChar d) :: nat) \<in> {32, 9, 10, 11, 12, 13}" using sp by (rule isSpace_code)
  moreover have "(of_char (digitChar d) :: nat) = 48 + d" using d by (simp add: digitChar_def)
  ultimately show False by auto
qed

lemma decimal_first: "\<exists>d cs. d < 10 \<and> decimal n = digitChar d # cs"
proof (induction n rule: decimal.induct)
  case (1 n)
  show ?case
  proof (cases "n < 10")
    case True
    then have "n < 10 \<and> decimal n = digitChar n # []" by (simp add: decimal.simps)
    then show ?thesis by blast
  next
    case False
    then obtain d cs where "d < 10" "decimal (n div 10) = digitChar d # cs"
      using 1 by blast
    then have "d < 10 \<and> decimal n = digitChar d # (cs @ [digitChar (n mod 10)])"
      using False by (simp add: decimal.simps [of n])
    then show ?thesis by blast
  qed
qed

lemma trim_keeps:
  assumes "\<not> isSpace c" "\<not> isSpace z"
  shows "trim (c # cs @ [z]) = c # cs @ [z]"
  using assms by (simp add: trim_def)

lemma renderSpan_months_only:
  assumes "y \<le> 0" "0 < m"
  shows "renderSpan (Some y, Some m) = numToString m @ '' mois''"
proof -
  obtain d cs where d: "d < 10" and n: "decimal (nat m) = digitChar d # cs"
    using decimal_first by blast
  have ns: "numToString m = digitChar d # cs" using assms(2) n by (simp add: numToString_def)
  have "trim (digitChar d # (cs @ '' moi'') @ [CHR ''s'']) = digitChar d # (cs @ '' moi'') @ [CHR ''s'']"
    by (rule trim_keeps [OF digitChar_not_space [OF d]]) (simp add: isSpace_def)
  then have "trim (numToString m @ '' mois'') = numToString m @ '' mois''"
    unfolding ns by simp
  then show ?thesis using assms
    by (simp add: renderSpan_def numGreater_def numShow_def ns)
qed


lemma leap_count_mono:
  fixes y z a b c ra rb rc a' b' c' ra' rb' rc' :: int
  assumes "y - 1969 = 4 * a + ra" "0 \<le> ra" "ra < 4"
    and "y - 1901 = 100 * b + rb" "0 \<le> rb" "rb < 100"
    and "y - 1601 = 400 * c + rc" "0 \<le> rc" "rc < 400"
    and "z - 1969 = 4 * a' + ra'" "0 \<le> ra'" "ra' < 4"
    and "z - 1901 = 100 * b' + rb'" "0 \<le> rb'" "rb' < 100"
    and "z - 1601 = 400 * c' + rc'" "0 \<le> rc'" "rc' < 400"
    and "y < z"
  shows "365 * (y - 1970) + a - b + c < 365 * (z - 1970) + a' - b' + c'"
  using assms by (simp add: algebra_simps)

lemma DayFromYear_strict_mono: "y < z \<Longrightarrow> DayFromYear y < DayFromYear z"
  unfolding DayFromYear_def
  by (rule leap_count_mono [where ra = "(y - 1969) mod 4" and rb = "(y - 1901) mod 100"
        and rc = "(y - 1601) mod 400" and ra' = "(z - 1969) mod 4" and rb' = "(z - 1901) mod 100"
        and rc' = "(z - 1601) mod 400"]; simp)

lemma YearFromDay_mono:
  assumes "d \<le> e"
  shows "YearFromDay d \<le> YearFromDay e"
proof (rule ccontr)
  assume "\<not> YearFromDay d \<le> YearFromDay e"
  then have "YearFromDay e + 1 \<le> YearFromDay d" by simp
  then have "DayFromYear (YearFromDay e + 1) \<le> DayFromYear (YearFromDay d)"
    using DayFromYear_strict_mono [of "YearFromDay e + 1" "YearFromDay d"]
    by (cases "YearFromDay e + 1 = YearFromDay d") simp_all
  then show False
    using YearFromDay_bounds(1) [of d] YearFromDay_bounds(2) [of e] assms by linarith
qed

lemma YearFromTime_mono: "a \<le> b \<Longrightarrow> YearFromTime a \<le> YearFromTime b"
  unfolding YearFromTime_def Day_def msPerDay_def
  by (rule YearFromDay_mono) (simp add: zdiv_mono1)

section \<open>Where the tenure texts of the tables come from\<close>

lemma technicalStep_texts:
  "tech_experience_yrs_months ` set (technicalStep d rows es)
     \<subseteq> insert d (tech_experience_yrs_months ` set rows)"
  by (auto simp: technicalStep_def split: option.splits)

lemma technical_inner_texts:
  "tech_experience_yrs_months ` set (fold (\<lambda>es rows. technicalStep d rows es) ess rows)
     \<subseteq> insert d (tech_experience_yrs_months ` set rows)"
proof (induction ess arbitrary: rows)
  case Nil
  then show ?case by auto
next
  case (Cons es ess)
  show ?case using Cons.IH [of "technicalStep d rows es"] technicalStep_texts [of d rows es]
    by auto
qed

lemma technical_outer_texts:
  "tech_experience_yrs_months `
     set (fold (\<lambda>exp rows. fold (\<lambda>es rows. technicalStep (f exp) rows es) (skillsOf exp) rows)
            exps rows)
     \<subseteq> f ` set exps \<union> tech_experience_yrs_months ` set rows"
proof (induction exps arbitrary: rows)
  case Nil
  then show ?case by auto
next
  case (Cons exp exps)
  show ?case
    using Cons.IH [of "fold (\<lambda>es rows. technicalStep (f exp) rows es) (skillsOf exp) rows"]
      technical_inner_texts [of "f exp" "skillsOf exp" rows]
    by auto
qed


lemma set_mapSet: "set (mapSet k v m) \<subseteq> insert (k, v) (set m)"
  by (induction m) (auto split: if_splits)

lemma mapGet_in: "mapGet k m = Some v \<Longrightarrow> (k, v) \<in> set m"
  by (simp add: mapGet_def map_of_SomeD)

lemma mapValues_iff: "x \<in> mapValues m \<longleftrightarrow> (\<exists>k i a. (k, i) \<in> set m \<and> (a, x) \<in> set i)"
  unfolding mapValues_def by force

lemma mapValues_mapSet:
  assumes "\<And>a x. (a, x) \<in> set inner \<Longrightarrow> x \<in> S" "mapValues m \<subseteq> S"
  shows "mapValues (mapSet k inner m) \<subseteq> S"
proof
  fix x
  assume "x \<in> mapValues (mapSet k inner m)"
  then obtain k' i' a where s: "(k', i') \<in> set (mapSet k inner m)" and x: "(a, x) \<in> set i'"
    unfolding mapValues_iff by blast
  from s set_mapSet [of k inner m] have "(k', i') = (k, inner) \<or> (k', i') \<in> set m"
    by blast
  then show "x \<in> S"
  proof
    assume "(k', i') = (k, inner)"
    then show ?thesis using x assms(1) by blast
  next
    assume "(k', i') \<in> set m"
    then have "x \<in> mapValues m" unfolding mapValues_iff using x by blast
    then show ?thesis using assms(2) by blast
  qed
qed

lemma domainStep_values: "mapValues (domainStep d m es) \<subseteq> insert d (mapValues m)"
proof (cases "skills es")
  case None
  then show ?thesis by (auto simp: domainStep_def)
next
  case (Some sk)
  note sk = this
  show ?thesis
  proof (cases "skill_families sk")
    case None
    then show ?thesis using sk by (auto simp: domainStep_def)
  next
    case (Some fam)
    define dn where "dn = family_name fam"
    define m' where "m' = (case mapGet dn m of None \<Rightarrow> mapSet dn [] m | Some _ \<Rightarrow> m)"
    define inner where "inner = (case mapGet dn m' of None \<Rightarrow> [] | Some i \<Rightarrow> i)"
    have m': "mapValues m' \<subseteq> insert d (mapValues m)"
    proof (cases "mapGet dn m")
      case None
      have "mapValues (mapSet dn [] m) \<subseteq> insert d (mapValues m)"
        by (rule mapValues_mapSet) auto
      then show ?thesis using None by (simp add: m'_def)
    next
      case (Some i)
      then show ?thesis by (auto simp: m'_def)
    qed
    have inner: "(a, x) \<in> set inner \<Longrightarrow> x \<in> insert d (mapValues m)" for a x
    proof (cases "mapGet dn m'")
      case None
      assume "(a, x) \<in> set inner"
      then show ?thesis using None by (simp add: inner_def)
    next
      case (Some i)
      assume ax: "(a, x) \<in> set inner"
      have "(dn, inner) \<in> set m'" using Some by (simp add: inner_def mapGet_in)
      then have "x \<in> mapValues m'" unfolding mapValues_iff using ax by blast
      then show ?thesis using m' by blast
    qed
    have new: "(a, x) \<in> set (mapSet (skill_name sk) d inner) \<Longrightarrow> x \<in> insert d (mapValues m)"
      for a x
      using set_mapSet [of "skill_name sk" d inner] inner by blast
    have "mapValues (mapSet dn (mapSet (skill_name sk) d inner) m') \<subseteq> insert d (mapValues m)"
      using new m' by (rule mapValues_mapSet)
    moreover have "domainStep d m es = mapSet dn (mapSet (skill_name sk) d inner) m'"
      unfolding domainStep_def inner_def m'_def dn_def Let_def using sk Some by simp
    ultimately show ?thesis by simp
  qed
qed


lemma domain_inner_values:
  "mapValues (fold (\<lambda>es m. domainStep d m es) ess m) \<subseteq> insert d (mapValues m)"
proof (induction ess arbitrary: m)
  case Nil
  then show ?case by auto
next
  case (Cons es ess)
  show ?case using Cons.IH [of "domainStep d m es"] domainStep_values [of d m es] by auto
qed

lemma domain_outer_values:
  "mapValues (fold (\<lambda>exp m. fold (\<lambda>es m. domainStep (f exp) m es) (skillsOf exp) m) exps m)
     \<subseteq> f ` set exps \<union> mapValues m"
proof (induction exps arbitrary: m)
  case Nil
  then show ?case by auto
next
  case (Cons exp exps)
  show ?case
    using Cons.IH [of "fold (\<lambda>es m. domainStep (f exp) m es) (skillsOf exp) m"]
      domain_inner_values [of "f exp" "skillsOf exp" m]
    by auto
qed

lemma domain_rows_texts:
  assumes "r \<in> set (domain_expertise_rows rt exps)"
  shows "experience_yrs_months r \<in> mapValues (domain_expertise_map rt exps)"
proof -
  obtain d sm area e where m: "(d, sm) \<in> set (domain_expertise_map rt exps)"
    and i: "(area, e) \<in> set sm"
    and r: "r = \<lparr>domain = d, specific_area = area, experience_yrs_months = e\<rparr>"
    using assms by (auto simp: domain_expertise_rows_def)
  show ?thesis unfolding mapValues_iff using m i r by auto
qed

subsection \<open>The first writer of a row of the technical table\<close>

lemma set_technicalStep: "set rows \<subseteq> set (technicalStep d rows es)"
  by (auto simp: technicalStep_def split: option.splits)

lemma technicalStep_named:
  assumes "\<exists>row \<in> set rows. tech_skill_name row = n"
    and "\<forall>row \<in> set rows. tech_skill_name row = n \<longrightarrow> tech_experience_yrs_months row = t"
  shows "\<forall>row \<in> set (technicalStep d rows es).
           tech_skill_name row = n \<longrightarrow> tech_experience_yrs_months row = t"
proof (cases "skills es")
  case None
  then show ?thesis using assms(2) by (simp add: technicalStep_def)
next
  case (Some sk)
  show ?thesis
  proof (cases "skill_type sk = ''hard''
      \<and> find (\<lambda>s. tech_skill_name s = skill_name sk) rows = None")
    case True
    then have "\<forall>row \<in> set rows. tech_skill_name row \<noteq> skill_name sk"
      unfolding find_None_iff by blast
    then have "skill_name sk \<noteq> n" using assms(1) by blast
    then show ?thesis using True Some assms(2) by (simp add: technicalStep_def)
  next
    case False
    then have "technicalStep d rows es = rows"
      using Some by (auto simp: technicalStep_def split: option.splits)
    then show ?thesis using assms(2) by simp
  qed
qed

lemma technicalStep_same:
  assumes "\<forall>row \<in> set rows. tech_skill_name row = n \<longrightarrow> tech_experience_yrs_months row = t"
  shows "\<forall>row \<in> set (technicalStep t rows es).
           tech_skill_name row = n \<longrightarrow> tech_experience_yrs_months row = t"
  using assms by (auto simp: technicalStep_def split: option.splits)

lemma technicalStep_absent:
  assumes "\<forall>row \<in> set rows. tech_skill_name row \<noteq> n"
    and "\<forall>sk. skills es = Some sk \<and> skill_type sk = ''hard'' \<longrightarrow> skill_name sk \<noteq> n"
  shows "\<forall>row \<in> set (technicalStep d rows es). tech_skill_name row \<noteq> n"
  using assms by (auto simp: technicalStep_def split: option.splits)

lemma technicalStep_writes:
  assumes "skills es = Some sk" "skill_type sk = ''hard''"
  shows "\<exists>row \<in> set (technicalStep d rows es). tech_skill_name row = skill_name sk"
proof (cases "find (\<lambda>s. tech_skill_name s = skill_name sk) rows")
  case None
  then show ?thesis using assms by (simp add: technicalStep_def)
next
  case (Some r)
  then have "r \<in> set rows \<and> tech_skill_name r = skill_name sk"
    unfolding find_Some_iff by (metis nth_mem)
  then show ?thesis using assms Some by (auto simp: technicalStep_def)
qed

text \<open>The rows of one experience: its skills visited in turn.\<close>

lemma technical_inner_named:
  assumes "\<exists>row \<in> set rows. tech_skill_name row = n"
    and "\<forall>row \<in> set rows. tech_skill_name row = n \<longrightarrow> tech_experience_yrs_months row = t"
  shows "(\<exists>row \<in> set (fold (\<lambda>es rows. technicalStep d rows es) ess rows). tech_skill_name row = n)
       \<and> (\<forall>row \<in> set (fold (\<lambda>es rows. technicalStep d rows es) ess rows).
             tech_skill_name row = n \<longrightarrow> tech_experience_yrs_months row = t)"
  using assms
proof (induction ess arbitrary: rows)
  case Nil
  then show ?case by simp
next
  case (Cons es ess)
  have "\<exists>row \<in> set (technicalStep d rows es). tech_skill_name row = n"
    using Cons.prems(1) set_technicalStep [of rows d es] by blast
  moreover have "\<forall>row \<in> set (technicalStep d rows es).
      tech_skill_name row = n \<longrightarrow> tech_experience_yrs_months row = t"
    using Cons.prems by (rule technicalStep_named)
  ultimately show ?case using Cons.IH [of "technicalStep d rows es"] by simp
qed

lemma technical_outer_named:
  assumes "\<exists>row \<in> set rows. tech_skill_name row = n"
    and "\<forall>row \<in> set rows. tech_skill_name row = n \<longrightarrow> tech_experience_yrs_months row = t"
  shows "(\<exists>row \<in> set (fold (\<lambda>exp rows. fold (\<lambda>es rows. technicalStep (f exp) rows es)
                                        (skillsOf exp) rows) exps rows).
            tech_skill_name row = n)
       \<and> (\<forall>row \<in> set (fold (\<lambda>exp rows. fold (\<lambda>es rows. technicalStep (f exp) rows es)
                                        (skillsOf exp) rows) exps rows).
             tech_skill_name row = n \<longrightarrow> tech_experience_yrs_months row = t)"
  using assms
proof (induction exps arbitrary: rows)
  case Nil
  then show ?case by simp
next
  case (Cons exp exps)
  have i: "(\<exists>row \<in> set (fold (\<lambda>es rows. technicalStep (f exp) rows es) (skillsOf exp) rows).
              tech_skill_name row = n)
       \<and> (\<forall>row \<in> set (fold (\<lambda>es rows. technicalStep (f exp) rows es) (skillsOf exp) rows).
             tech_skill_name row = n \<longrightarrow> tech_experience_yrs_months row = t)"
    using Cons.prems by (rule technical_inner_named)
  show ?case
    using Cons.IH [of "fold (\<lambda>es rows. technicalStep (f exp) rows es) (skillsOf exp) rows"] i
    by simp
qed

lemma technical_inner_absent:
  assumes "\<forall>row \<in> set rows. tech_skill_name row \<noteq> n"
    and "\<forall>es \<in> set ess. \<forall>sk. skills es = Some sk \<and> skill_type sk = ''hard''
           \<longrightarrow> skill_name sk \<noteq> n"
  shows "\<forall>row \<in> set (fold (\<lambda>es rows. technicalStep d rows es) ess rows). tech_skill_name row \<noteq> n"
  using assms
proof (induction ess arbitrary: rows)
  case Nil
  then show ?case by simp
next
  case (Cons es ess)
  have "\<forall>row \<in> set (technicalStep d rows es). tech_skill_name row \<noteq> n"
    using Cons.prems by (intro technicalStep_absent) auto
  then show ?case using Cons.IH [of "technicalStep d rows es"] Cons.prems(2) by simp
qed

lemma technical_outer_absent:
  assumes "\<forall>row \<in> set rows. tech_skill_name row \<noteq> n"
    and "\<forall>exp \<in> set exps. \<forall>es \<in> set (skillsOf exp). \<forall>sk.
           skills es = Some sk \<and> skill_type sk = ''hard'' \<longrightarrow> skill_name sk \<noteq> n"
  shows "\<forall>row \<in> set (fold (\<lambda>exp rows. fold (\<lambda>es rows. technicalStep (f exp) rows es)
                                       (skillsOf exp) rows) exps rows).
           tech_skill_name row \<noteq> n"
  using assms
proof (induction exps arbitrary: rows)
  case Nil
  then show ?case by simp
next
  case (Cons exp exps)
  have "\<forall>row \<in> set (fold (\<lambda>es rows. technicalStep (f exp) rows es) (skillsOf exp) rows).
          tech_skill_name row \<noteq> n"
    using Cons.prems by (intro technical_inner_absent) auto
  then show ?case
    using Cons.IH [of "fold (\<lambda>es rows. technicalStep (f exp) rows es) (skillsOf exp) rows"]
      Cons.prems(2) by simp
qed

text \<open>
  The skills of one experience, one of which is a hard skill named \<open>n\<close>: afterwards there
  is a row of that name, and the rows of that name have the text of the experience if
  those that were there before have it.
\<close>

lemma technical_inner_writes:
  assumes "es \<in> set ess" "skills es = Some sk" "skill_type sk = ''hard''"
    and "\<forall>row \<in> set rows. tech_skill_name row = skill_name sk
           \<longrightarrow> tech_experience_yrs_months row = d"
  shows "(\<exists>row \<in> set (fold (\<lambda>es rows. technicalStep d rows es) ess rows).
            tech_skill_name row = skill_name sk)
       \<and> (\<forall>row \<in> set (fold (\<lambda>es rows. technicalStep d rows es) ess rows).
             tech_skill_name row = skill_name sk \<longrightarrow> tech_experience_yrs_months row = d)"
  using assms(1,4)
proof (induction ess arbitrary: rows)
  case Nil
  then show ?case by simp
next
  case (Cons e ess)
  have same: "\<forall>row \<in> set (technicalStep d rows e).
      tech_skill_name row = skill_name sk \<longrightarrow> tech_experience_yrs_months row = d"
    using Cons.prems(2) by (rule technicalStep_same)
  show ?case
  proof (cases "es = e")
    case True
    have "\<exists>row \<in> set (technicalStep d rows e). tech_skill_name row = skill_name sk"
      using assms(2,3) True technicalStep_writes by blast
    then show ?thesis
      using technical_inner_named [OF _ same, where ess = ess and d = d] by simp
  next
    case False
    then have "es \<in> set ess" using Cons.prems(1) by simp
    then show ?thesis using Cons.IH [OF _ same] by simp
  qed
qed

lemma technical_first_writer:
  assumes "es \<in> set (skillsOf exp)" "skills es = Some sk" "skill_type sk = ''hard''"
    and "\<forall>exp' \<in> set pre. \<forall>es' \<in> set (skillsOf exp'). \<forall>sk'.
           skills es' = Some sk' \<and> skill_type sk' = ''hard'' \<longrightarrow> skill_name sk' \<noteq> skill_name sk"
  shows "(\<exists>row \<in> set (technical_expertise_primary_skills rt (pre @ exp # post)).
            tech_skill_name row = skill_name sk)
       \<and> (\<forall>row \<in> set (technical_expertise_primary_skills rt (pre @ exp # post)).
             tech_skill_name row = skill_name sk
             \<longrightarrow> tech_experience_yrs_months row = expDuration rt exp)"
proof -
  define step where
    "step = (\<lambda>exp rows. fold (\<lambda>es rows. technicalStep (expDuration rt exp) rows es)
                          (skillsOf exp) rows)"
  define r1 where "r1 = fold step pre []"
  define r2 where "r2 = step exp r1"
  have u: "technical_expertise_primary_skills rt (pre @ exp # post) = fold step post r2"
    by (simp add: technical_expertise_primary_skills_def step_def r1_def r2_def)
  have a: "\<forall>row \<in> set r1. tech_skill_name row \<noteq> skill_name sk"
    unfolding r1_def step_def
    using technical_outer_absent [where rows = "[]" and n = "skill_name sk" and exps = pre and f = "expDuration rt"] assms(4) by simp
  then have "\<forall>row \<in> set r1. tech_skill_name row = skill_name sk
           \<longrightarrow> tech_experience_yrs_months row = expDuration rt exp" by blast
  then have b: "(\<exists>row \<in> set r2. tech_skill_name row = skill_name sk)
       \<and> (\<forall>row \<in> set r2. tech_skill_name row = skill_name sk
             \<longrightarrow> tech_experience_yrs_months row = expDuration rt exp)"
    unfolding r2_def step_def using assms(1-3) by (intro technical_inner_writes) auto
  show ?thesis unfolding u step_def
    using technical_outer_named [where rows = r2 and n = "skill_name sk" and t = "expDuration rt exp" and f = "expDuration rt" and exps = post] b
    by blast
qed

subsection \<open>The last writer of an entry of the domain table\<close>

lemma map_of_mapSet: "map_of (mapSet k v m) = (map_of m)(k \<mapsto> v)"
  by (induction m) (auto simp: fun_eq_iff)

lemma fst_set_mapSet: "fst ` set (mapSet k v m) = insert k (fst ` set m)"
  unfolding dom_map_of_conv_image_fst [symmetric] map_of_mapSet by simp

lemma distinct_mapSet: "distinct (map fst m) \<Longrightarrow> distinct (map fst (mapSet k v m))"
  by (induction m) (auto simp: fst_set_mapSet)

text \<open>
  The entry of a family \<open>f\<close> and a skill \<open>a\<close> in the map \<open>m\<close>, the text kept for them, is
  \<open>Option.bind (map_of m f) (\<lambda>i. map_of i a)\<close>. A step writes the entry of the family and
  the skill it visits and leaves the others as they are.
\<close>

lemma map_of_domainStep:
  "map_of (domainStep d m es) =
     (case skills es of
        None \<Rightarrow> map_of m
      | Some sk \<Rightarrow>
          (case skill_families sk of
             None \<Rightarrow> map_of m
           | Some fam \<Rightarrow>
               (map_of m)(family_name fam \<mapsto>
                  mapSet (skill_name sk) d
                    (case map_of m (family_name fam) of None \<Rightarrow> [] | Some i \<Rightarrow> i))))"
proof (cases "skills es")
  case None
  then show ?thesis by (simp add: domainStep_def)
next
  case (Some sk)
  note sk = this
  show ?thesis
  proof (cases "skill_families sk")
    case None
    then show ?thesis using sk by (simp add: domainStep_def)
  next
    case (Some fam)
    show ?thesis
    proof (cases "map_of m (family_name fam)")
      case None
      then show ?thesis using sk Some
        by (simp add: domainStep_def mapGet_def Let_def map_of_mapSet)
    next
      case (Some i)
      then show ?thesis using sk \<open>skill_families sk = Some fam\<close>
        by (simp add: domainStep_def mapGet_def Let_def map_of_mapSet)
    qed
  qed
qed

lemma entry_domainStep:
  "Option.bind (map_of (domainStep d m es) f) (\<lambda>i. map_of i a) =
     (if \<exists>sk fam. skills es = Some sk \<and> skill_families sk = Some fam
                   \<and> family_name fam = f \<and> skill_name sk = a
      then Some d else Option.bind (map_of m f) (\<lambda>i. map_of i a))"
proof (cases "skills es")
  case None
  then show ?thesis by (simp add: map_of_domainStep)
next
  case (Some sk)
  note sk = this
  show ?thesis
  proof (cases "skill_families sk")
    case None
    then show ?thesis using sk by (simp add: map_of_domainStep)
  next
    case (Some fam)
    show ?thesis
    proof (cases "family_name fam = f")
      case False
      then show ?thesis using sk Some by (simp add: map_of_domainStep)
    next
      case True
      show ?thesis
      proof (cases "map_of m f")
        case None
        then show ?thesis using sk Some True by (simp add: map_of_domainStep map_of_mapSet)
      next
        case (Some i)
        then show ?thesis using sk \<open>skill_families sk = Some fam\<close> True
          by (simp add: map_of_domainStep map_of_mapSet)
      qed
    qed
  qed
qed

lemma entry_inner:
  "Option.bind (map_of (fold (\<lambda>es m. domainStep d m es) ess m) f) (\<lambda>i. map_of i a) =
     (if \<exists>es \<in> set ess. \<exists>sk fam. skills es = Some sk \<and> skill_families sk = Some fam
                   \<and> family_name fam = f \<and> skill_name sk = a
      then Some d else Option.bind (map_of m f) (\<lambda>i. map_of i a))"
proof (induction ess arbitrary: m)
  case Nil
  then show ?case by simp
next
  case (Cons es ess)
  show ?case
    unfolding fold_simps Cons.IH [of "domainStep d m es"] entry_domainStep [of d m es f a]
    by auto
qed

lemma entry_outer_untouched:
  assumes "\<forall>exp \<in> set exps. \<forall>es \<in> set (skillsOf exp). \<forall>sk fam.
             skills es = Some sk \<and> skill_families sk = Some fam
             \<longrightarrow> \<not> (family_name fam = f \<and> skill_name sk = a)"
  shows "Option.bind
           (map_of (fold (\<lambda>exp m. fold (\<lambda>es m. domainStep (g exp) m es) (skillsOf exp) m) exps m) f)
           (\<lambda>i. map_of i a)
         = Option.bind (map_of m f) (\<lambda>i. map_of i a)"
  using assms
proof (induction exps arbitrary: m)
  case Nil
  then show ?case by simp
next
  case (Cons exp exps)
  have n: "\<not> (\<exists>es \<in> set (skillsOf exp). \<exists>sk fam. skills es = Some sk \<and> skill_families sk = Some fam
                   \<and> family_name fam = f \<and> skill_name sk = a)"
    using Cons.prems by auto
  have r: "\<forall>exp \<in> set exps. \<forall>es \<in> set (skillsOf exp). \<forall>sk fam.
             skills es = Some sk \<and> skill_families sk = Some fam
             \<longrightarrow> \<not> (family_name fam = f \<and> skill_name sk = a)"
    using Cons.prems by simp
  show ?case
    unfolding fold_simps Cons.IH [OF r]
    using n by (simp only: entry_inner if_False)
qed

lemma domain_last_writer_entry:
  assumes "es \<in> set (skillsOf exp)" "skills es = Some sk" "skill_families sk = Some fam"
    and "\<forall>exp' \<in> set post. \<forall>es' \<in> set (skillsOf exp'). \<forall>sk' fam'.
           skills es' = Some sk' \<and> skill_families sk' = Some fam'
           \<longrightarrow> \<not> (family_name fam' = family_name fam \<and> skill_name sk' = skill_name sk)"
  shows "Option.bind (map_of (domain_expertise_map rt (pre @ exp # post)) (family_name fam))
           (\<lambda>i. map_of i (skill_name sk))
         = Some (expDuration rt exp)"
proof -
  have w: "\<exists>es \<in> set (skillsOf exp). \<exists>sk' fam'. skills es = Some sk' \<and> skill_families sk' = Some fam'
                   \<and> family_name fam' = family_name fam \<and> skill_name sk' = skill_name sk"
    using assms(1-3) by blast
  show ?thesis
    unfolding domain_expertise_map_def fold_append comp_def fold_simps
      entry_outer_untouched [OF assms(4)]
    using w by (simp only: entry_inner if_True)
qed

text \<open>No key comes twice, in the map and in the maps it holds.\<close>

lemma domainStep_distinct:
  assumes "distinct (map fst m)" "\<forall>(k, i) \<in> set m. distinct (map fst i)"
  shows "distinct (map fst (domainStep d m es))
       \<and> (\<forall>(k, i) \<in> set (domainStep d m es). distinct (map fst i))"
proof (cases "skills es")
  case None
  then show ?thesis using assms by (simp add: domainStep_def)
next
  case (Some sk)
  note sk = this
  show ?thesis
  proof (cases "skill_families sk")
    case None
    then show ?thesis using sk assms by (simp add: domainStep_def)
  next
    case (Some fam)
    define dn where "dn = family_name fam"
    define m' where "m' = (case mapGet dn m of None \<Rightarrow> mapSet dn [] m | Some _ \<Rightarrow> m)"
    define inner where "inner = (case mapGet dn m' of None \<Rightarrow> [] | Some i \<Rightarrow> i)"
    have e: "domainStep d m es = mapSet dn (mapSet (skill_name sk) d inner) m'"
      unfolding domainStep_def inner_def m'_def dn_def Let_def using sk Some by simp
    have m1: "distinct (map fst m')"
      using assms(1) by (simp add: m'_def distinct_mapSet split: option.splits)
    have m2: "distinct (map fst i)" if "(k, i) \<in> set m'" for k i
    proof (cases "mapGet dn m")
      case None
      then have "(k, i) \<in> insert (dn, []) (set m)"
        using that set_mapSet [of dn "[]" m] by (auto simp: m'_def)
      then show ?thesis using assms(2) by auto
    next
      case (Some j)
      then show ?thesis using that assms(2) by (auto simp: m'_def)
    qed
    have i: "distinct (map fst inner)"
    proof (cases "mapGet dn m'")
      case None
      then show ?thesis by (simp add: inner_def)
    next
      case (Some j)
      then have "(dn, j) \<in> set m'" by (rule mapGet_in)
      then show ?thesis using m2 Some by (simp add: inner_def)
    qed
    have n: "distinct (map fst (mapSet (skill_name sk) d inner))"
      using i by (rule distinct_mapSet)
    have a: "distinct (map fst (mapSet dn (mapSet (skill_name sk) d inner) m'))"
      using m1 by (rule distinct_mapSet)
    have b: "distinct (map fst j)"
      if "(k, j) \<in> set (mapSet dn (mapSet (skill_name sk) d inner) m')" for k j
    proof -
      have "(k, j) \<in> insert (dn, mapSet (skill_name sk) d inner) (set m')"
        using that set_mapSet [of dn "mapSet (skill_name sk) d inner" m'] by blast
      then show ?thesis using n m2 by auto
    qed
    show ?thesis unfolding e using a b by auto
  qed
qed

lemma domain_inner_distinct:
  assumes "distinct (map fst m)" "\<forall>(k, i) \<in> set m. distinct (map fst i)"
  shows "distinct (map fst (fold (\<lambda>es m. domainStep d m es) ess m))
       \<and> (\<forall>(k, i) \<in> set (fold (\<lambda>es m. domainStep d m es) ess m). distinct (map fst i))"
  using assms
proof (induction ess arbitrary: m)
  case Nil
  then show ?case by simp
next
  case (Cons es ess)
  have "distinct (map fst (domainStep d m es))
       \<and> (\<forall>(k, i) \<in> set (domainStep d m es). distinct (map fst i))"
    using Cons.prems by (rule domainStep_distinct)
  then show ?case using Cons.IH [of "domainStep d m es"] by simp
qed

lemma domain_outer_distinct:
  assumes "distinct (map fst m)" "\<forall>(k, i) \<in> set m. distinct (map fst i)"
  shows "distinct (map fst (fold (\<lambda>exp m. fold (\<lambda>es m. domainStep (g exp) m es) (skillsOf exp) m)
                              exps m))
       \<and> (\<forall>(k, i) \<in> set (fold (\<lambda>exp m. fold (\<lambda>es m. domainStep (g exp) m es) (skillsOf exp) m)
                              exps m).
            distinct (map fst i))"
  using assms
proof (induction exps arbitrary: m)
  case Nil
  then show ?case by simp
next
  case (Cons exp exps)
  have "distinct (map fst (fold (\<lambda>es m. domainStep (g exp) m es) (skillsOf exp) m))
       \<and> (\<forall>(k, i) \<in> set (fold (\<lambda>es m. domainStep (g exp) m es) (skillsOf exp) m).
            distinct (map fst i))"
    using Cons.prems by (rule domain_inner_distinct)
  then show ?case
    using Cons.IH [of "fold (\<lambda>es m. domainStep (g exp) m es) (skillsOf exp) m"] by simp
qed

lemma domain_expertise_map_distinct:
  "distinct (map fst (domain_expertise_map rt exps))"
  "(k, i) \<in> set (domain_expertise_map rt exps) \<Longrightarrow> distinct (map fst i)"
  using domain_outer_distinct [where m = "[]" and g = "expDuration rt" and exps = exps]
  unfolding domain_expertise_map_def by auto

text \<open>The rows of the domain table are the entries of the map.\<close>

lemma domain_expertise_rows_iff:
  "row \<in> set (domain_expertise_rows rt exps) \<longleftrightarrow>
     Option.bind (map_of (domain_expertise_map rt exps) (domain row))
       (\<lambda>i. map_of i (specific_area row)) = Some (experience_yrs_months row)"
proof
  assume "row \<in> set (domain_expertise_rows rt exps)"
  then obtain d sm area e where m: "(d, sm) \<in> set (domain_expertise_map rt exps)"
    and i: "(area, e) \<in> set sm"
    and r: "row = \<lparr>domain = d, specific_area = area, experience_yrs_months = e\<rparr>"
    by (auto simp: domain_expertise_rows_def)
  have "map_of (domain_expertise_map rt exps) d = Some sm"
    using m domain_expertise_map_distinct(1) [of rt exps] by simp
  moreover have "map_of sm area = Some e"
    using i domain_expertise_map_distinct(2) [OF m] by simp
  ultimately show "Option.bind (map_of (domain_expertise_map rt exps) (domain row))
       (\<lambda>i. map_of i (specific_area row)) = Some (experience_yrs_months row)"
    by (simp add: r)
next
  assume "Option.bind (map_of (domain_expertise_map rt exps) (domain row))
       (\<lambda>i. map_of i (specific_area row)) = Some (experience_yrs_months row)"
  then obtain sm where sm: "map_of (domain_expertise_map rt exps) (domain row) = Some sm"
    and e: "map_of sm (specific_area row) = Some (experience_yrs_months row)"
    by (auto simp: bind_eq_Some_conv)
  have m: "(domain row, sm) \<in> set (domain_expertise_map rt exps)" using sm by (rule map_of_SomeD)
  have i: "(specific_area row, experience_yrs_months row) \<in> set sm" using e by (rule map_of_SomeD)
  have "\<lparr>domain = domain row, specific_area = specific_area row,
         experience_yrs_months = experience_yrs_months row\<rparr>
        \<in> set (domain_expertise_rows rt exps)"
    unfolding domain_expertise_rows_def using m i by force
  then show "row \<in> set (domain_expertise_rows rt exps)" by (cases row) simp
qed

lemma domain_last_writer:
  assumes "es \<in> set (skillsOf exp)" "skills es = Some sk" "skill_families sk = Some fam"
    and "\<forall>exp' \<in> set post. \<forall>es' \<in> set (skillsOf exp'). \<forall>sk' fam'.
           skills es' = Some sk' \<and> skill_families sk' = Some fam'
           \<longrightarrow> \<not> (family_name fam' = family_name fam \<and> skill_name sk' = skill_name sk)"
  shows "\<lparr>domain = family_name fam, specific_area = skill_name sk,
           experience_yrs_months = expDuration rt exp\<rparr>
         \<in> set (domain_expertise_rows rt (pre @ exp # post))
       \<and> (\<forall>row \<in> set (domain_expertise_rows rt (pre @ exp # post)).
             domain row = family_name fam \<and> specific_area row = skill_name sk
             \<longrightarrow> experience_yrs_months row = expDuration rt exp)"
proof -
  have e: "Option.bind (map_of (domain_expertise_map rt (pre @ exp # post)) (family_name fam))
           (\<lambda>i. map_of i (skill_name sk))
         = Some (expDuration rt exp)"
    using assms by (rule domain_last_writer_entry)
  have a: "\<lparr>domain = family_name fam, specific_area = skill_name sk,
           experience_yrs_months = expDuration rt exp\<rparr>
         \<in> set (domain_expertise_rows rt (pre @ exp # post))"
    unfolding domain_expertise_rows_iff using e by simp
  have b: "experience_yrs_months row = expDuration rt exp"
    if "row \<in> set (domain_expertise_rows rt (pre @ exp # post))"
      "domain row = family_name fam" "specific_area row = skill_name sk" for row
    using that(1) e unfolding domain_expertise_rows_iff that(2,3) by simp
  show ?thesis using a b by blast
qed

subsection \<open>An experience without a start date\<close>

text \<open>
  C9. Without a start date (\<^verbatim>\<open>null\<close>, \<^verbatim>\<open>undefined\<close> or the empty string)
  \<^verbatim>\<open>calculateDuration\<close> returns the empty string, which is not the text
  \<^verbatim>\<open>Moins d'un mois\<close>. The tenure texts of the two expertise tables are the durations of
  the experiences, and an experience without a start date puts the empty text there: in
  the technical table, where the first experience with a skill writes its row, for each
  of its hard skills that no earlier experience has; in the domain table, where the last
  experience with a skill writes its row, for each of its skills with a family that no
  later experience has. The table then has that row with the empty text, and no other
  row of that skill.
\<close>

theorem calculateDuration_without_start:
  "calculateDuration rt None e = []
   \<and> calculateDuration rt (Some []) e = []
   \<and> calculateDuration rt None e \<noteq> ''Moins d'un mois''
   \<and> (\<not> truthy (startdate exp) \<longrightarrow> expDuration rt exp = [])
   \<and> tech_experience_yrs_months ` set (technical_expertise_primary_skills rt exps)
        \<subseteq> expDuration rt ` set exps
   \<and> experience_yrs_months ` set (domain_expertise_rows rt exps) \<subseteq> expDuration rt ` set exps
   \<and> (\<not> truthy (startdate exp) \<longrightarrow>
        (\<forall>es sk. es \<in> set (skillsOf exp) \<and> skills es = Some sk \<and> skill_type sk = ''hard''
            \<and> (\<forall>exp' \<in> set pre. \<forall>es' \<in> set (skillsOf exp'). \<forall>sk'.
                   skills es' = Some sk' \<and> skill_type sk' = ''hard''
                   \<longrightarrow> skill_name sk' \<noteq> skill_name sk)
          \<longrightarrow> \<lparr>tech_skill_name = skill_name sk, tech_experience_yrs_months = []\<rparr>
                \<in> set (technical_expertise_primary_skills rt (pre @ exp # post))
              \<and> (\<forall>row \<in> set (technical_expertise_primary_skills rt (pre @ exp # post)).
                    tech_skill_name row = skill_name sk
                    \<longrightarrow> tech_experience_yrs_months row = []))
        \<and> (\<forall>es sk fam. es \<in> set (skillsOf exp) \<and> skills es = Some sk
            \<and> skill_families sk = Some fam
            \<and> (\<forall>exp' \<in> set post. \<forall>es' \<in> set (skillsOf exp'). \<forall>sk' fam'.
                   skills es' = Some sk' \<and> skill_families sk' = Some fam'
                   \<longrightarrow> \<not> (family_name fam' = family_name fam \<and> skill_name sk' = skill_name sk))
          \<longrightarrow> \<lparr>domain = family_name fam, specific_area = skill_name sk,
                 experience_yrs_months = []\<rparr>
                \<in> set (domain_expertise_rows rt (pre @ exp # post))
              \<and> (\<forall>row \<in> set (domain_expertise_rows rt (pre @ exp # post)).
                    domain row = family_name fam \<and> specific_area row = skill_name sk
                    \<longrightarrow> experience_yrs_months row = [])))"
proof -
  have a: "calculateDuration rt None e = []" "calculateDuration rt (Some []) e = []"
    by (simp_all add: calculateDuration_def)
  have b: "\<not> truthy (startdate exp) \<longrightarrow> expDuration rt exp = []"
    by (auto simp: truthy_def expDuration_def calculateDuration_def split: option.splits)
  have c: "tech_experience_yrs_months ` set (technical_expertise_primary_skills rt exps)
        \<subseteq> expDuration rt ` set exps"
    using technical_outer_texts [of "expDuration rt" exps "[]"]
    by (simp add: technical_expertise_primary_skills_def)
  have "mapValues (domain_expertise_map rt exps) \<subseteq> expDuration rt ` set exps"
    using domain_outer_values [of "expDuration rt" exps "[]"]
    by (simp add: domain_expertise_map_def mapValues_def)
  then have d: "experience_yrs_months ` set (domain_expertise_rows rt exps) \<subseteq> expDuration rt ` set exps"
    using domain_rows_texts [of _ rt exps] by blast
  have t: "\<lparr>tech_skill_name = skill_name sk, tech_experience_yrs_months = []\<rparr>
                \<in> set (technical_expertise_primary_skills rt (pre @ exp # post))
              \<and> (\<forall>row \<in> set (technical_expertise_primary_skills rt (pre @ exp # post)).
                    tech_skill_name row = skill_name sk
                    \<longrightarrow> tech_experience_yrs_months row = [])"
    if n: "\<not> truthy (startdate exp)"
      and h: "es \<in> set (skillsOf exp)" "skills es = Some sk" "skill_type sk = ''hard''"
        "\<forall>exp' \<in> set pre. \<forall>es' \<in> set (skillsOf exp'). \<forall>sk'.
                   skills es' = Some sk' \<and> skill_type sk' = ''hard''
                   \<longrightarrow> skill_name sk' \<noteq> skill_name sk"
    for es sk
  proof -
    have z: "expDuration rt exp = []" using b n by blast
    have f: "(\<exists>row \<in> set (technical_expertise_primary_skills rt (pre @ exp # post)).
            tech_skill_name row = skill_name sk)
       \<and> (\<forall>row \<in> set (technical_expertise_primary_skills rt (pre @ exp # post)).
             tech_skill_name row = skill_name sk
             \<longrightarrow> tech_experience_yrs_months row = [])"
      using technical_first_writer [OF h, of rt post] unfolding z .
    then obtain row where r: "row \<in> set (technical_expertise_primary_skills rt (pre @ exp # post))"
      "tech_skill_name row = skill_name sk" "tech_experience_yrs_months row = []" by blast
    have "row = \<lparr>tech_skill_name = skill_name sk, tech_experience_yrs_months = []\<rparr>"
      using r(2,3) by (cases row) simp
    then show ?thesis using r(1) f by blast
  qed
  have m: "\<lparr>domain = family_name fam, specific_area = skill_name sk,
                 experience_yrs_months = []\<rparr>
                \<in> set (domain_expertise_rows rt (pre @ exp # post))
              \<and> (\<forall>row \<in> set (domain_expertise_rows rt (pre @ exp # post)).
                    domain row = family_name fam \<and> specific_area row = skill_name sk
                    \<longrightarrow> experience_yrs_months row = [])"
    if n: "\<not> truthy (startdate exp)"
      and h: "es \<in> set (skillsOf exp)" "skills es = Some sk" "skill_families sk = Some fam"
        "\<forall>exp' \<in> set post. \<forall>es' \<in> set (skillsOf exp'). \<forall>sk' fam'.
                   skills es' = Some sk' \<and> skill_families sk' = Some fam'
                   \<longrightarrow> \<not> (family_name fam' = family_name fam \<and> skill_name sk' = skill_name sk)"
    for es sk fam
  proof -
    have z: "expDuration rt exp = []" using b n by blast
    show ?thesis using domain_last_writer [OF h, of rt pre] unfolding z .
  qed
  have tm: "\<not> truthy (startdate exp) \<longrightarrow>
        (\<forall>es sk. es \<in> set (skillsOf exp) \<and> skills es = Some sk \<and> skill_type sk = ''hard''
            \<and> (\<forall>exp' \<in> set pre. \<forall>es' \<in> set (skillsOf exp'). \<forall>sk'.
                   skills es' = Some sk' \<and> skill_type sk' = ''hard''
                   \<longrightarrow> skill_name sk' \<noteq> skill_name sk)
          \<longrightarrow> \<lparr>tech_skill_name = skill_name sk, tech_experience_yrs_months = []\<rparr>
                \<in> set (technical_expertise_primary_skills rt (pre @ exp # post))
              \<and> (\<forall>row \<in> set (technical_expertise_primary_skills rt (pre @ exp # post)).
                    tech_skill_name row = skill_name sk
                    \<longrightarrow> tech_experience_yrs_months row = []))
        \<and> (\<forall>es sk fam. es \<in> set (skillsOf exp) \<and> skills es = Some sk
            \<and> skill_families sk = Some fam
            \<and> (\<forall>exp' \<in> set post. \<forall>es' \<in> set (skillsOf exp'). \<forall>sk' fam'.
                   skills es' = Some sk' \<and> skill_families sk' = Some fam'
                   \<longrightarrow> \<not> (family_name fam' = family_name fam \<and> skill_name sk' = skill_name sk))
          \<longrightarrow> \<lparr>domain = family_name fam, specific_area = skill_name sk,
                 experience_yrs_months = []\<rparr>
                \<in> set (domain_expertise_rows rt (pre @ exp # post))
              \<and> (\<forall>row \<in> set (domain_expertise_rows rt (pre @ exp # post)).
                    domain row = family_name fam \<and> specific_area row = skill_name sk
                    \<longrightarrow> experience_yrs_months row = []))"
  proof (intro impI conjI allI)
    fix es sk
    assume n: "\<not> truthy (startdate exp)"
      and h: "es \<in> set (skillsOf exp) \<and> skills es = Some sk \<and> skill_type sk = ''hard''
            \<and> (\<forall>exp' \<in> set pre. \<forall>es' \<in> set (skillsOf exp'). \<forall>sk'.
                   skills es' = Some sk' \<and> skill_type sk' = ''hard''
                   \<longrightarrow> skill_name sk' \<noteq> skill_name sk)"
    have r: "\<lparr>tech_skill_name = skill_name sk, tech_experience_yrs_months = []\<rparr>
                \<in> set (technical_expertise_primary_skills rt (pre @ exp # post))
              \<and> (\<forall>row \<in> set (technical_expertise_primary_skills rt (pre @ exp # post)).
                    tech_skill_name row = skill_name sk
                    \<longrightarrow> tech_experience_yrs_months row = [])"
      using t [OF n, of es sk] h by blast
    show "\<lparr>tech_skill_name = skill_name sk, tech_experience_yrs_months = []\<rparr>
                \<in> set (technical_expertise_primary_skills rt (pre @ exp # post))"
      using r by blast
    show "\<forall>row \<in> set (technical_expertise_primary_skills rt (pre @ exp # post)).
                    tech_skill_name row = skill_name sk
                    \<longrightarrow> tech_experience_yrs_months row = []"
      using r by blast
  next
    fix es sk fam
    assume n: "\<not> truthy (startdate exp)"
      and h: "es \<in> set (skillsOf exp) \<and> skills es = Some sk
            \<and> skill_families sk = Some fam
            \<and> (\<forall>exp' \<in> set post. \<forall>es' \<in> set (skillsOf exp'). \<forall>sk' fam'.
                   skills es' = Some sk' \<and> skill_families sk' = Some fam'
                   \<longrightarrow> \<not> (family_name fam' = family_name fam \<and> skill_name sk' = skill_name sk))"
    have r: "\<lparr>domain = family_name fam, specific_area = skill_name sk,
                 experience_yrs_months = []\<rparr>
                \<in> set (domain_expertise_rows rt (pre @ exp # post))
              \<and> (\<forall>row \<in> set (domain_expertise_rows rt (pre @ exp # post)).
                    domain row = family_name fam \<and> specific_area row = skill_name sk
                    \<longrightarrow> experience_yrs_months row = [])"
      using m [OF n, of es sk fam] h by blast
    show "\<lparr>domain = family_name fam, specific_area = skill_name sk,
                 experience_yrs_months = []\<rparr>
                \<in> set (domain_expertise_rows rt (pre @ exp # post))"
      using r by blast
    show "\<forall>row \<in> set (domain_expertise_rows rt (pre @ exp # post)).
                    domain row = family_name fam \<and> specific_area row = skill_name sk
                    \<longrightarrow> experience_yrs_months row = []"
      using r by blast
  qed
  have a3: "calculateDuration rt None e \<noteq> ''Moins d'un mois''" using a(1) by simp
  show ?thesis
    apply (rule conjI, rule a(1))
    apply (rule conjI, rule a(2))
    apply (rule conjI, rule a3)
    apply (rule conjI, rule b)
    apply (rule conjI, rule c)
    apply (rule conjI, rule d)
    apply (rule tm)
    done
qed

theorem calculateDuration_without_start_witness:
  "\<not> truthy (startdate experienceWithoutStart)
   \<and> expDuration utcHost experienceWithoutStart = []
   \<and> expDuration utcHost datedExperience = ''3 ans 3 mois''
   \<and> \<lparr>tech_skill_name = ''Isabelle'', tech_experience_yrs_months = []\<rparr>
       \<in> set (technical_expertise_primary_skills utcHost [experienceWithoutStart, datedExperience])
   \<and> technical_expertise_primary_skills utcHost [experienceWithoutStart, datedExperience]
       = [\<lparr>tech_skill_name = ''Isabelle'', tech_experience_yrs_months = []\<rparr>]
   \<and> \<lparr>domain = ''Proof'', specific_area = ''Isabelle'', experience_yrs_months = []\<rparr>
       \<in> set (domain_expertise_rows utcHost [datedExperience, experienceWithoutStart])
   \<and> domain_expertise_rows utcHost [datedExperience, experienceWithoutStart]
       = [\<lparr>domain = ''Proof'', specific_area = ''Isabelle'', experience_yrs_months = []\<rparr>]
   \<and> technical_expertise_primary_skills utcHost [datedExperience, experienceWithoutStart]
       = [\<lparr>tech_skill_name = ''Isabelle'', tech_experience_yrs_months = ''3 ans 3 mois''\<rparr>]
   \<and> domain_expertise_rows utcHost [experienceWithoutStart, datedExperience]
       = [\<lparr>domain = ''Proof'', specific_area = ''Isabelle'',
           experience_yrs_months = ''3 ans 3 mois''\<rparr>]"
proof -
  define fam where "fam = \<lparr>family_name = ''Proof''\<rparr>"
  define sk where "sk = \<lparr>skill_name = ''Isabelle'', skill_type = ''hard'',
                          skill_families = Some fam\<rparr>"
  define es where "es = \<lparr>skills = Some sk\<rparr>"
  have h: "\<not> truthy (startdate experienceWithoutStart)"
    by (simp add: experienceWithoutStart_def truthy_def)
  have s: "es \<in> set (skillsOf experienceWithoutStart)" "skills es = Some sk"
    "skill_type sk = ''hard''" "skill_families sk = Some fam"
    "skill_name sk = ''Isabelle''" "family_name fam = ''Proof''"
    by (simp_all add: skillsOf_def experienceWithoutStart_def es_def sk_def fam_def)
  have d: "expDuration utcHost experienceWithoutStart = []"
    using calculateDuration_without_start [of utcHost None experienceWithoutStart "[]" "[]" "[]"] h
    by blast
  have t: "\<lparr>tech_skill_name = ''Isabelle'', tech_experience_yrs_months = []\<rparr>
       \<in> set (technical_expertise_primary_skills utcHost [experienceWithoutStart, datedExperience])"
    using calculateDuration_without_start [of utcHost None experienceWithoutStart "[]" "[]"
        "[datedExperience]"] h s
    by force
  have m: "\<lparr>domain = ''Proof'', specific_area = ''Isabelle'', experience_yrs_months = []\<rparr>
       \<in> set (domain_expertise_rows utcHost [datedExperience, experienceWithoutStart])"
    using calculateDuration_without_start [of utcHost None experienceWithoutStart "[]"
        "[datedExperience]" "[]"] h s
    by force
  have x: "expDuration utcHost datedExperience = ''3 ans 3 mois''" by code_simp
  have t1: "technical_expertise_primary_skills utcHost [experienceWithoutStart, datedExperience]
       = [\<lparr>tech_skill_name = ''Isabelle'', tech_experience_yrs_months = []\<rparr>]" by code_simp
  have m1: "domain_expertise_rows utcHost [datedExperience, experienceWithoutStart]
       = [\<lparr>domain = ''Proof'', specific_area = ''Isabelle'', experience_yrs_months = []\<rparr>]"
    by code_simp
  have t2: "technical_expertise_primary_skills utcHost [datedExperience, experienceWithoutStart]
       = [\<lparr>tech_skill_name = ''Isabelle'', tech_experience_yrs_months = ''3 ans 3 mois''\<rparr>]"
    by code_simp
  have m2: "domain_expertise_rows utcHost [experienceWithoutStart, datedExperience]
       = [\<lparr>domain = ''Proof'', specific_area = ''Isabelle'',
           experience_yrs_months = ''3 ans 3 mois''\<rparr>]" by code_simp
  show ?thesis using h d x t t1 m m1 t2 m2 by blast
qed


section \<open>The claims about the tenure calculator\<close>

lemma renderSpan_not_empty: "renderSpan ym \<noteq> []"
  by (simp add: renderSpan_def Let_def)

text \<open>
  C5. For a start and an end that are valid dates, the years and months are the
  differences of the calendar years and of the calendar months (the days play no part),
  with one year borrowed when the months are negative; the months then lie between 0 and
  11. When both are zero, in particular in the same calendar month, the text is
  \<^verbatim>\<open>Moins d'un mois\<close>, and the text is never empty.
\<close>

theorem calculateDuration_calendar_months:
  assumes "s \<noteq> []" "newDate rt s = Some ts" "endDate rt e = Some te"
  shows "let sy = YearFromTime (ts + tza rt ts); sm = MonthFromTime (ts + tza rt ts);
             ey = YearFromTime (te + tza rt te); em = MonthFromTime (te + tza rt te);
             years = (if em - sm < 0 then ey - sy - 1 else ey - sy);
             months = (if em - sm < 0 then em - sm + 12 else em - sm)
         in tenureSpan rt (Some ts) (Some te) = (Some years, Some months)
            \<and> calculateDuration rt (Some s) e = renderSpan (Some years, Some months)
            \<and> 0 \<le> months \<and> months \<le> 11
            \<and> (years = 0 \<and> months = 0 \<longrightarrow> calculateDuration rt (Some s) e = ''Moins d'un mois'')
            \<and> (ey = sy \<and> em = sm \<longrightarrow> calculateDuration rt (Some s) e = ''Moins d'un mois'')
            \<and> calculateDuration rt (Some s) e \<noteq> []"
proof -
  define sy sm ey em where "sy = YearFromTime (ts + tza rt ts)"
    and "sm = MonthFromTime (ts + tza rt ts)"
    and "ey = YearFromTime (te + tza rt te)" and "em = MonthFromTime (te + tza rt te)"
  define years months where "years = (if em - sm < 0 then ey - sy - 1 else ey - sy)"
    and "months = (if em - sm < 0 then em - sm + 12 else em - sm)"
  have span: "tenureSpan rt (Some ts) (Some te) = (Some years, Some months)"
    by (simp add: tenureSpan_Some years_def months_def sy_def sm_def ey_def em_def Let_def)
  have dur: "calculateDuration rt (Some s) e = renderSpan (Some years, Some months)"
    using assms span by (simp add: calculateDuration_Some)
  have r: "0 \<le> sm" "sm \<le> 11" "0 \<le> em" "em \<le> 11"
    unfolding sm_def em_def by (rule MonthFromTime_range)+
  have m: "0 \<le> months" "months \<le> 11" using r by (auto simp: months_def)
  have z: "years = 0 \<and> months = 0 \<longrightarrow> calculateDuration rt (Some s) e = ''Moins d'un mois''"
    unfolding dur by (auto simp: renderSpan_nothing)
  have same: "ey = sy \<and> em = sm \<longrightarrow> calculateDuration rt (Some s) e = ''Moins d'un mois''"
    using z by (simp add: years_def months_def)
  have ne: "calculateDuration rt (Some s) e \<noteq> []"
    unfolding dur by (rule renderSpan_not_empty)
  show ?thesis
    unfolding Let_def
    using span dur m z same ne
    unfolding years_def months_def sy_def sm_def ey_def em_def by blast
qed

theorem calculateDuration_calendar_months_witness:
  "''2020-01-15'' \<noteq> []
   \<and> newDate utcHost ''2020-01-15'' = Some 1579046400000
   \<and> endDate utcHost (Some ''2020-01-20'') = Some 1579478400000
   \<and> tenureSpan utcHost (Some 1579046400000) (Some 1579478400000) = (Some 0, Some 0)
   \<and> calculateDuration utcHost (Some ''2020-01-15'') (Some ''2020-01-20'') = ''Moins d'un mois''"
proof -
  have a: "''2020-01-15'' \<noteq> []" by simp
  have b: "newDate utcHost ''2020-01-15'' = Some 1579046400000" by code_simp
  have c: "endDate utcHost (Some ''2020-01-20'') = Some 1579478400000" by code_simp
  have f: "YearFromTime (1579046400000 + tza utcHost 1579046400000) = 2020"
    "MonthFromTime (1579046400000 + tza utcHost 1579046400000) = 0"
    "YearFromTime (1579478400000 + tza utcHost 1579478400000) = 2020"
    "MonthFromTime (1579478400000 + tza utcHost 1579478400000) = 0"
    by code_simp+
  show ?thesis
    using calculateDuration_calendar_months [OF a b c] a b c unfolding Let_def f
    by (simp add: renderSpan_nothing)
qed


lemma borrowed_months:
  fixes dm :: int
  assumes "- 12 < dm" "dm < 12"
  shows "(if dm < 0 then dm + 12 else dm) = dm mod 12"
proof (cases "dm < 0")
  case True
  have "dm = 12 * (- 1) + (dm + 12)" by simp
  then have "dm mod 12 = dm + 12"
    by (rule int_mod_pos_eq) (use assms True in simp_all)
  then show ?thesis using True by simp
next
  case False
  then show ?thesis using assms by (simp add: mod_pos_pos_trivial)
qed

text \<open>
  C10. When the end is not after the start on the local clock, \<^verbatim>\<open>calculateDuration\<close>
  still returns a text: the computed year count is zero or negative and no year phrase
  is written. What is left is the borrowed month count, or \<^verbatim>\<open>Moins d'un mois\<close> when
  that is zero, as when the end lies a whole number of years before the start.
\<close>

theorem calculateDuration_end_before_start:
  assumes "s \<noteq> []" "newDate rt s = Some ts" "endDate rt e = Some te"
    and "te + tza rt te \<le> ts + tza rt ts"
  shows "let m = (MonthFromTime (te + tza rt te) - MonthFromTime (ts + tza rt ts)) mod 12
         in calculateDuration rt (Some s) e
              = (if m = 0 then ''Moins d'un mois'' else numToString m @ '' mois'')
            \<and> (MonthFromTime (te + tza rt te) = MonthFromTime (ts + tza rt ts)
                 \<longrightarrow> calculateDuration rt (Some s) e = ''Moins d'un mois'')"
proof -
  define dy where "dy = YearFromTime (te + tza rt te) - YearFromTime (ts + tza rt ts)"
  define dm where "dm = MonthFromTime (te + tza rt te) - MonthFromTime (ts + tza rt ts)"
  define years months where "years = (if dm < 0 then dy - 1 else dy)"
    and "months = (if dm < 0 then dm + 12 else dm)"
  have dy: "dy \<le> 0" unfolding dy_def using YearFromTime_mono [OF assms(4)] by simp
  have dm: "- 12 < dm" "dm < 12"
    using MonthFromTime_range [of "te + tza rt te"] MonthFromTime_range [of "ts + tza rt ts"]
    by (simp_all add: dm_def)
  have m: "months = dm mod 12" unfolding months_def using dm by (rule borrowed_months)
  have m0: "0 \<le> months" using dm by (simp add: months_def)
  have y: "years \<le> 0" using dy by (simp add: years_def)
  have "tenureSpan rt (Some ts) (Some te) = (Some years, Some months)"
    by (simp add: tenureSpan_Some years_def months_def dy_def dm_def Let_def)
  then have dur: "calculateDuration rt (Some s) e = renderSpan (Some years, Some months)"
    using assms by (simp add: calculateDuration_Some)
  have r: "calculateDuration rt (Some s) e
      = (if months = 0 then ''Moins d'un mois'' else numToString months @ '' mois'')"
  proof (cases "months = 0")
    case True
    then show ?thesis unfolding dur using y by (simp add: renderSpan_nothing)
  next
    case False
    then have "0 < months" using m0 by simp
    then show ?thesis unfolding dur using y False by (simp add: renderSpan_months_only)
  qed
  have "dm = 0 \<Longrightarrow> months = 0" by (simp add: months_def)
  then show ?thesis using r unfolding Let_def m dm_def by auto
qed

theorem calculateDuration_end_before_start_witness:
  "''2023-04-10'' \<noteq> []
   \<and> newDate utcHost ''2023-04-10'' = Some 1681084800000
   \<and> endDate utcHost (Some ''2020-04-28'') = Some 1588032000000
   \<and> 1588032000000 + tza utcHost 1588032000000 \<le> 1681084800000 + tza utcHost 1681084800000
   \<and> calculateDuration utcHost (Some ''2023-04-10'') (Some ''2020-04-28'') = ''Moins d'un mois''"
proof -
  have a: "''2023-04-10'' \<noteq> []" by simp
  have b: "newDate utcHost ''2023-04-10'' = Some 1681084800000" by code_simp
  have c: "endDate utcHost (Some ''2020-04-28'') = Some 1588032000000" by code_simp
  have d: "1588032000000 + tza utcHost 1588032000000 \<le> 1681084800000 + tza utcHost 1681084800000"
    by (simp add: utcHost_def)
  have f: "MonthFromTime (1588032000000 + tza utcHost 1588032000000) = 3"
    "MonthFromTime (1681084800000 + tza utcHost 1681084800000) = 3"
    by code_simp+
  show ?thesis
    using calculateDuration_end_before_start [OF a b c d] a b c d unfolding Let_def f by simp
qed


section \<open>The example of 2020-01-15 to 2023-04-10\<close>

lemma newDate_ISO: "parseISO s = Some t \<Longrightarrow> newDate rt s = TimeClip t"
  by (simp add: newDate_def)

lemma Day_local:
  assumes "\<bar>off\<bar> < msPerDay"
  shows "Day (d * msPerDay + off) = d \<or> Day (d * msPerDay + off) = d - 1"
proof (cases "0 \<le> off")
  case True
  have "d * msPerDay + off = msPerDay * d + off" by simp
  then have "(d * msPerDay + off) div msPerDay = d"
    by (rule int_div_pos_eq) (use assms True in simp_all)
  then show ?thesis by (simp add: Day_def)
next
  case False
  have "d * msPerDay + off = msPerDay * (d - 1) + (off + msPerDay)" by (simp add: algebra_simps)
  then have "(d * msPerDay + off) div msPerDay = d - 1"
    by (rule int_div_pos_eq) (use assms False in simp_all)
  then show ?thesis by (simp add: Day_def)
qed

lemma MonthFromTime_Day:
  "MonthFromTime t =
     monthOfDay (InLeapYear (YearFromDay (Day t))) (Day t - DayFromYear (YearFromDay (Day t)))"
  by (simp add: MonthFromTime_def DayWithinYear_def YearFromTime_def)

lemma local_2020_01_15:
  assumes "\<bar>off\<bar> < msPerDay"
  shows "YearFromTime (1579046400000 + off) = 2020" "MonthFromTime (1579046400000 + off) = 0"
proof -
  have e: "1579046400000 + off = 18276 * msPerDay + off" by (simp add: msPerDay_def)
  have d: "Day (1579046400000 + off) = 18276 \<or> Day (1579046400000 + off) = 18276 - 1"
    unfolding e by (rule Day_local [OF assms])
  have y: "YearFromDay 18276 = 2020" "YearFromDay 18275 = 2020" by code_simp+
  have m: "monthOfDay (InLeapYear 2020) (18276 - DayFromYear 2020) = 0"
    "monthOfDay (InLeapYear 2020) (18275 - DayFromYear 2020) = 0" by code_simp+
  show "YearFromTime (1579046400000 + off) = 2020"
    unfolding YearFromTime_def using d y by auto
  show "MonthFromTime (1579046400000 + off) = 0"
    unfolding MonthFromTime_Day using d y m by auto
qed

lemma local_2023_04_10:
  assumes "\<bar>off\<bar> < msPerDay"
  shows "YearFromTime (1681084800000 + off) = 2023" "MonthFromTime (1681084800000 + off) = 3"
proof -
  have e: "1681084800000 + off = 19457 * msPerDay + off" by (simp add: msPerDay_def)
  have d: "Day (1681084800000 + off) = 19457 \<or> Day (1681084800000 + off) = 19457 - 1"
    unfolding e by (rule Day_local [OF assms])
  have y: "YearFromDay 19457 = 2023" "YearFromDay 19456 = 2023" by code_simp+
  have m: "monthOfDay (InLeapYear 2023) (19457 - DayFromYear 2023) = 3"
    "monthOfDay (InLeapYear 2023) (19456 - DayFromYear 2023) = 3" by code_simp+
  show "YearFromTime (1681084800000 + off) = 2023"
    unfolding YearFromTime_def using d y by auto
  show "MonthFromTime (1681084800000 + off) = 3"
    unfolding MonthFromTime_Day using d y m by auto
qed

text \<open>
  C1, as the spec states it, fails: on a host at UTC the span from 2020-01-15 to
  2023-04-10 is not 3 years 2 months and the text is not \<^verbatim>\<open>3 ans 2 mois\<close>.
\<close>

theorem tenure_2020_2023_counterexample:
  "\<not> (tenureSpan utcHost (newDate utcHost ''2020-01-15'') (newDate utcHost ''2023-04-10'')
        = (Some 3, Some 2)
      \<and> calculateDuration utcHost (Some ''2020-01-15'') (Some ''2023-04-10'') = ''3 ans 2 mois'')"
proof -
  have "calculateDuration utcHost (Some ''2020-01-15'') (Some ''2023-04-10'') = ''3 ans 3 mois''"
    by code_simp
  then show ?thesis by simp
qed

text \<open>
  C1, amended. The days are ignored: January to April is 3 months, so the span is 3 years
  3 months and the text \<^verbatim>\<open>3 ans 3 mois\<close>, on every host whose local time is less than
  a day away from UTC.
\<close>

theorem tenure_2020_2023:
  assumes "\<And>t. \<bar>tza rt t\<bar> < msPerDay"
  shows "tenureSpan rt (newDate rt ''2020-01-15'') (newDate rt ''2023-04-10'') = (Some 3, Some 3)
         \<and> calculateDuration rt (Some ''2020-01-15'') (Some ''2023-04-10'') = ''3 ans 3 mois''"
proof -
  have p: "parseISO ''2020-01-15'' = Some 1579046400000"
    "parseISO ''2023-04-10'' = Some 1681084800000" by code_simp+
  have n: "newDate rt ''2020-01-15'' = Some 1579046400000"
    "newDate rt ''2023-04-10'' = Some 1681084800000"
    by (simp_all add: newDate_ISO [OF p(1)] newDate_ISO [OF p(2)] TimeClip_def maxTime_def)
  have e: "endDate rt (Some ''2023-04-10'') = Some 1681084800000"
    by (simp add: endDate_def n)
  note f = local_2020_01_15 [OF assms [of 1579046400000]]
    local_2023_04_10 [OF assms [of 1681084800000]]
  have span: "tenureSpan rt (Some 1579046400000) (Some 1681084800000) = (Some 3, Some 3)"
    by (simp add: tenureSpan_Some f)
  have r: "renderSpan (Some 3, Some 3) = ''3 ans 3 mois''" by code_simp
  have "calculateDuration rt (Some ''2020-01-15'') (Some ''2023-04-10'') = ''3 ans 3 mois''"
    by (simp add: calculateDuration_Some n e span r)
  then show ?thesis using span n by simp
qed

theorem tenure_2020_2023_witness:
  "(\<forall>t. \<bar>tza brusselsWinterHost t\<bar> < msPerDay)
   \<and> calculateDuration brusselsWinterHost (Some ''2020-01-15'') (Some ''2023-04-10'')
       = ''3 ans 3 mois''"
proof -
  have h: "\<bar>tza brusselsWinterHost t\<bar> < msPerDay" for t
    by (simp add: brusselsWinterHost_def msPerDay_def)
  show ?thesis using tenure_2020_2023 [of brusselsWinterHost, OF h] h by simp
qed


section \<open>The envelope of a set of stints\<close>

lemma TimeClip_Some: "TimeClip t = Some u \<Longrightarrow> u = t \<and> \<bar>t\<bar> \<le> maxTime"
  by (simp add: TimeClip_def split: if_splits)

lemma TimeClip_valid: "\<bar>t\<bar> \<le> maxTime \<Longrightarrow> TimeClip t = Some t"
  by (simp add: TimeClip_def)

lemma newDate_valid: "newDate rt s = Some t \<Longrightarrow> \<bar>t\<bar> \<le> maxTime"
  by (auto simp: newDate_def split: option.splits dest: TimeClip_Some)

lemma newDateOf_valid: "newDateOf rt v = Some t \<Longrightarrow> \<bar>t\<bar> \<le> maxTime"
  by (auto simp: newDateOf_def maxTime_def split: option.splits dest: newDate_valid)

lemma endDate_valid: "endDate rt v = Some t \<Longrightarrow> \<bar>t\<bar> \<le> maxTime"
  by (auto simp: endDate_def newDateNow_def split: option.splits if_splits
      dest: newDate_valid TimeClip_Some)

lemma those_Some: "those xs = Some ys \<Longrightarrow> xs = map Some ys"
proof (induction xs arbitrary: ys)
  case Nil
  then show ?case by simp
next
  case (Cons x xs)
  then show ?case by (auto split: option.splits)
qed

lemma those_None: "those xs = None \<longleftrightarrow> None \<in> set xs"
  by (induction xs) (auto split: option.splits)

lemma those_map_valid:
  assumes "those (map f xs) = Some ys" "\<And>x t. f x = Some t \<Longrightarrow> \<bar>t\<bar> \<le> maxTime" "y \<in> set ys"
  shows "\<bar>y\<bar> \<le> maxTime"
proof -
  have "map f xs = map Some ys" using assms(1) by (rule those_Some)
  then have "Some y \<in> set (map f xs)" using assms(3) by simp
  then obtain x where "f x = Some y" by auto
  then show ?thesis by (rule assms(2))
qed

lemma dateOfMin_valid:
  assumes "those ts = Some ys" "ys \<noteq> []" "\<And>y. y \<in> set ys \<Longrightarrow> \<bar>y\<bar> \<le> maxTime"
  shows "dateOfMin ts = Some (Min (set ys))"
proof -
  obtain x xs where ys: "ys = x # xs" using assms(2) by (cases ys) auto
  have "Min (set ys) \<in> set ys" using assms(2) by (intro Min_in) simp_all
  then have "\<bar>Min (set ys)\<bar> \<le> maxTime" by (rule assms(3))
  moreover have "fold min xs x = Min (set ys)" unfolding ys by (rule Min.set_eq_fold [symmetric])
  ultimately show ?thesis using assms(1) by (simp add: dateOfMin_def ys TimeClip_valid)
qed

lemma dateOfMax_valid:
  assumes "those ts = Some ys" "ys \<noteq> []" "\<And>y. y \<in> set ys \<Longrightarrow> \<bar>y\<bar> \<le> maxTime"
  shows "dateOfMax ts = Some (Max (set ys))"
proof -
  obtain x xs where ys: "ys = x # xs" using assms(2) by (cases ys) auto
  have "Max (set ys) \<in> set ys" using assms(2) by (intro Max_in) simp_all
  then have "\<bar>Max (set ys)\<bar> \<le> maxTime" by (rule assms(3))
  moreover have "fold max xs x = Max (set ys)" unfolding ys by (rule Max.set_eq_fold [symmetric])
  ultimately show ?thesis using assms(1) by (simp add: dateOfMax_def ys TimeClip_valid)
qed

lemma toISOString_nonempty: "toISOString d = Inr s \<Longrightarrow> s \<noteq> []"
  by (cases d) (auto simp: toISOString_def)

lemma newDate_toISOString:
  assumes "\<bar>t\<bar> \<le> maxTime" "toISOString (Some t) = Inr s"
  shows "newDate rt s = Some t"
  using parseISO_toISOString [OF assms] assms(1) by (simp add: newDate_def TimeClip_def)

text \<open>
  Passing the two ends of an envelope through \<^verbatim>\<open>toISOString\<close> and back gives the tenure
  between them.
\<close>

lemma durationOfEnvelope_valid:
  assumes "\<bar>a\<bar> \<le> maxTime" "\<bar>b\<bar> \<le> maxTime"
  shows "durationOfEnvelope rt (Some a) (Some b) = Inr (renderSpan (tenureSpan rt (Some a) (Some b)))"
proof -
  obtain sa where sa: "toISOString (Some a) = Inr sa" by (simp add: toISOString_def)
  obtain sb where sb: "toISOString (Some b) = Inr sb" by (simp add: toISOString_def)
  have ne: "sa \<noteq> []" "sb \<noteq> []" using sa sb by (auto dest: toISOString_nonempty)
  have "newDate rt sa = Some a" "newDate rt sb = Some b"
    using assms sa sb by (auto intro: newDate_toISOString)
  then have "calculateDuration rt (Some sa) (Some sb) = renderSpan (tenureSpan rt (Some a) (Some b))"
    using ne by (simp add: calculateDuration_Some endDate_def)
  then show ?thesis by (simp add: durationOfEnvelope_def sa sb)
qed

lemma durationOfEnvelope_cases:
  "durationOfEnvelope rt a b = Inl RangeError
   \<or> (\<exists>ym. durationOfEnvelope rt a b = Inr (renderSpan ym))"
proof (cases "toISOString a")
  case (Inl e)
  then show ?thesis by (cases a) (auto simp: durationOfEnvelope_def toISOString_def)
next
  case (Inr sa)
  note sa = this
  show ?thesis
  proof (cases "toISOString b")
    case (Inl e)
    then show ?thesis using sa by (cases b) (auto simp: durationOfEnvelope_def toISOString_def)
  next
    case (Inr sb)
    have "sa \<noteq> []" using sa by (rule toISOString_nonempty)
    then have "calculateDuration rt (Some sa) (Some sb)
        = renderSpan (tenureSpan rt (newDate rt sa) (endDate rt (Some sb)))"
      by (rule calculateDuration_Some)
    then have "\<exists>ym. calculateDuration rt (Some sa) (Some sb) = renderSpan ym"
      by blast
    then show ?thesis using sa Inr by (auto simp: durationOfEnvelope_def)
  qed
qed


lemma digitChar_not_N: "d < 10 \<Longrightarrow> digitChar d \<noteq> CHR ''N''"
proof
  assume d: "d < 10" and "digitChar d = CHR ''N''"
  then have "(of_char (digitChar d) :: nat) = of_char CHR ''N''" by simp
  then show False using d by (simp add: digitChar_def)
qed

lemma decimal_no_N: "CHR ''N'' \<notin> set (decimal n)"
proof (induction n rule: decimal.induct)
  case (1 n)
  show ?case
  proof (cases "n < 10")
    case True
    then show ?thesis using digitChar_not_N [of n] by (auto simp: decimal.simps [of n])
  next
    case False
    then show ?thesis
      using 1 digitChar_not_N [of "n mod 10"] by (auto simp: decimal.simps [of n])
  qed
qed

lemma numShow_no_N: "numGreater v 0 \<Longrightarrow> CHR ''N'' \<notin> set (numShow v)"
  by (cases v) (auto simp: numGreater_def numShow_def numToString_def decimal_no_N)

lemma set_trim: "set (trim s) \<subseteq> set s"
  unfolding trim_def by (metis set_dropWhileD set_rev subsetI)

text \<open>The text of a span is never the sentinel \<^verbatim>\<open>N/A\<close>.\<close>

lemma renderSpan_not_NA: "renderSpan ym \<noteq> ''N/A''"
proof
  assume e: "renderSpan ym = ''N/A''"
  define years months where "years = fst ym" and "months = snd ym"
  define r1 where "r1 = (if numGreater years 0
      then numShow years @ '' an'' @ (if numGreater years 1 then ''s'' else []) else [])"
  define r2 where "r2 = (if numGreater months 0
      then (if r1 \<noteq> [] then r1 @ '' '' else r1) @ numShow months @ '' mois'' else r1)"
  have r: "renderSpan ym = (if trim r2 \<noteq> [] then trim r2 else ''Moins d'un mois'')"
    by (simp add: renderSpan_def r1_def r2_def years_def months_def Let_def)
  have "CHR ''N'' \<notin> set r1"
    using numShow_no_N [of years] by (auto simp: r1_def)
  then have "CHR ''N'' \<notin> set r2"
    using numShow_no_N [of months] by (auto simp: r2_def)
  then have "CHR ''N'' \<notin> set (trim r2)" using set_trim [of r2] by blast
  then have "CHR ''N'' \<notin> set (renderSpan ym)" unfolding r by simp
  then show False unfolding e by simp
qed

lemma dateOfMin_invalid: "None \<in> set ts \<Longrightarrow> dateOfMin ts = None"
  using those_None [of ts] by (simp add: dateOfMin_def)

lemma dateOfMax_invalid: "None \<in> set ts \<Longrightarrow> dateOfMax ts = None"
  using those_None [of ts] by (simp add: dateOfMax_def)

lemma durationOfEnvelope_invalid:
  "a = None \<or> b = None \<Longrightarrow> durationOfEnvelope rt a b = Inl RangeError"
  by (cases a; cases b) (auto simp: durationOfEnvelope_def toISOString_def)

section \<open>The claims about the envelopes\<close>

lemma matchesCompany_iff:
  "matchesCompany rt name exp \<longleftrightarrow>
     (\<exists>c. company exp = Some c \<and> c \<noteq> [] \<and> toLowerCase rt c = toLowerCase rt name)"
  by (auto simp: matchesCompany_def split: option.splits)

lemma envelope_of_valid:
  assumes "m \<noteq> []"
    and "those (map (\<lambda>exp. newDateOf rt (startdate exp)) m) = Some ss"
    and "those (map (\<lambda>exp. endDate rt (enddate exp)) m) = Some es"
  shows "durationOfEnvelope rt (dateOfMin (map (\<lambda>exp. newDateOf rt (startdate exp)) m))
           (dateOfMax (map (\<lambda>exp. endDate rt (enddate exp)) m))
         = Inr (renderSpan (tenureSpan rt (Some (Min (set ss))) (Some (Max (set es)))))"
proof -
  have l: "length ss = length m" "length es = length m"
    using those_Some [OF assms(2)] those_Some [OF assms(3)] by (metis length_map)+
  then have ne: "ss \<noteq> []" "es \<noteq> []" using assms(1) by auto
  have vs: "\<bar>y\<bar> \<le> maxTime" if "y \<in> set ss" for y
    using assms(2) _ that by (rule those_map_valid) (rule newDateOf_valid)
  have ve: "\<bar>y\<bar> \<le> maxTime" if "y \<in> set es" for y
    using assms(3) _ that by (rule those_map_valid) (rule endDate_valid)
  have mn: "dateOfMin (map (\<lambda>exp. newDateOf rt (startdate exp)) m) = Some (Min (set ss))"
    using assms(2) ne(1) vs by (rule dateOfMin_valid)
  have mx: "dateOfMax (map (\<lambda>exp. endDate rt (enddate exp)) m) = Some (Max (set es))"
    using assms(3) ne(2) ve by (rule dateOfMax_valid)
  have "Min (set ss) \<in> set ss" "Max (set es) \<in> set es" using ne by simp_all
  then have "\<bar>Min (set ss)\<bar> \<le> maxTime" "\<bar>Max (set es)\<bar> \<le> maxTime" using vs ve by blast+
  then show ?thesis unfolding mn mx by (rule durationOfEnvelope_valid)
qed

lemma envelope_of_invalid:
  assumes "None \<in> set starts \<or> None \<in> set ends"
  shows "durationOfEnvelope rt (dateOfMin starts) (dateOfMax ends) = Inl RangeError"
proof -
  have "dateOfMin starts = None \<or> dateOfMax ends = None"
    using assms dateOfMin_invalid [of starts] dateOfMax_invalid [of ends] by auto
  then show ?thesis by (rule durationOfEnvelope_invalid)
qed

text \<open>
  C4. \<^verbatim>\<open>calculateDurationForCompany\<close> keeps the experiences whose company is present
  and equal to the given name once both are in lower case. With none it returns
  \<^verbatim>\<open>N/A\<close>, which is the text of no tenure span. Otherwise, when the dates of the kept
  experiences are valid, it returns the tenure from their earliest start to their latest
  end, an experience without an end date ending now: overlapping stints are merged, not
  added up. But when a start or an end date of a kept experience is not a date, it
  computes no tenure: \<^verbatim>\<open>toISOString\<close> throws a \<^verbatim>\<open>RangeError\<close>, for want of the check
  that the total of all experiences makes on its start dates.
\<close>

theorem calculateDurationForCompany_envelope_or_throw:
  "let m = filter (matchesCompany rt name) exps;
       starts = map (\<lambda>exp. newDateOf rt (startdate exp)) m;
       ends = map (\<lambda>exp. endDate rt (enddate exp)) m
   in (\<forall>exp. matchesCompany rt name exp \<longleftrightarrow>
          (\<exists>c. company exp = Some c \<and> c \<noteq> [] \<and> toLowerCase rt c = toLowerCase rt name))
      \<and> (m = [] \<longrightarrow> calculateDurationForCompany rt exps name = Inr ''N/A''
                    \<and> calculateDurationForCompany rt exps name \<noteq> Inr (renderSpan ym))
      \<and> (m \<noteq> [] \<and> those starts = Some ss \<and> those ends = Some es
          \<longrightarrow> calculateDurationForCompany rt exps name
                = Inr (renderSpan (tenureSpan rt (Some (Min (set ss))) (Some (Max (set es))))))
      \<and> (m \<noteq> [] \<and> (None \<in> set starts \<or> None \<in> set ends)
          \<longrightarrow> calculateDurationForCompany rt exps name = Inl RangeError)
      \<and> endDate rt None = TimeClip (now rt)"
proof -
  define m where "m = filter (matchesCompany rt name) exps"
  define starts where "starts = map (\<lambda>exp. newDateOf rt (startdate exp)) m"
  define ends where "ends = map (\<lambda>exp. endDate rt (enddate exp)) m"
  have u: "calculateDurationForCompany rt exps name
      = (if m = [] then Inr ''N/A''
         else durationOfEnvelope rt (dateOfMin starts) (dateOfMax ends))"
    by (simp add: calculateDurationForCompany_def m_def starts_def ends_def Let_def)
  have a: "m = [] \<longrightarrow> calculateDurationForCompany rt exps name = Inr ''N/A''
                    \<and> calculateDurationForCompany rt exps name \<noteq> Inr (renderSpan ym)"
    using renderSpan_not_NA [of ym] by (simp add: u)
  have b: "m \<noteq> [] \<and> those starts = Some ss \<and> those ends = Some es
          \<longrightarrow> calculateDurationForCompany rt exps name
                = Inr (renderSpan (tenureSpan rt (Some (Min (set ss))) (Some (Max (set es)))))"
    using envelope_of_valid [of m rt ss es] by (simp add: u starts_def ends_def)
  have i: "m \<noteq> [] \<and> (None \<in> set starts \<or> None \<in> set ends)
          \<longrightarrow> calculateDurationForCompany rt exps name = Inl RangeError"
    using envelope_of_invalid [of starts ends rt] by (simp add: u)
  have c: "endDate rt None = TimeClip (now rt)" by (simp add: endDate_def newDateNow_def)
  show ?thesis
    unfolding Let_def m_def [symmetric] starts_def [symmetric] ends_def [symmetric]
    using a b i c matchesCompany_iff by blast
qed

theorem calculateDurationForCompany_envelope_or_throw_witness:
  "filter (matchesCompany utcHost ''acme'') acmeExperiences \<noteq> []
   \<and> those (map (\<lambda>exp. newDateOf utcHost (startdate exp))
             (filter (matchesCompany utcHost ''acme'') acmeExperiences))
       = Some [1577836800000, 1546300800000]
   \<and> those (map (\<lambda>exp. endDate utcHost (enddate exp))
             (filter (matchesCompany utcHost ''acme'') acmeExperiences))
       = Some [1609459200000, 1590969600000]
   \<and> toISOString (Some (Min (set [1577836800000, 1546300800000]))) = Inr ''2019-01-01T00:00:00.000Z''
   \<and> toISOString (Some (Max (set [1609459200000, 1590969600000]))) = Inr ''2021-01-01T00:00:00.000Z''
   \<and> calculateDurationForCompany utcHost acmeExperiences ''acme'' = Inr ''2 ans''
   \<and> calculateDurationForCompany utcHost acmeExperiences ''Initech'' = Inr ''N/A''
   \<and> filter (matchesCompany utcHost ''DXC'') dxcExperiencesWithBadStart = dxcExperiencesWithBadStart
   \<and> map (\<lambda>exp. newDateOf utcHost (startdate exp)) dxcExperiencesWithBadStart
       = [Some 1579046400000, None]
   \<and> calculateDurationForCompany utcHost dxcExperiencesWithBadStart ''DXC'' = Inl RangeError
   \<and> total_experience utcHost dxcExperiencesWithBadStart = Inr ''N/A''
   \<and> GET utcHost dxcStore echoRenderer (Some ''u-1'')
       = (Json 500 ''Failed to generate CV.'' (Message ''Invalid time value''),
          [Query ''users'', Query ''experiences'', Query ''user_skills'',
           ConsoleError ''Error generating CV:''])"
proof -
  have f: "filter (matchesCompany utcHost ''acme'') acmeExperiences \<noteq> []" by code_simp
  have s: "those (map (\<lambda>exp. newDateOf utcHost (startdate exp))
             (filter (matchesCompany utcHost ''acme'') acmeExperiences))
       = Some [1577836800000, 1546300800000]" by code_simp
  have e: "those (map (\<lambda>exp. endDate utcHost (enddate exp))
             (filter (matchesCompany utcHost ''acme'') acmeExperiences))
       = Some [1609459200000, 1590969600000]" by code_simp
  have mn: "Min (set [1577836800000, 1546300800000 :: int]) = 1546300800000" by simp
  have mx: "Max (set [1609459200000, 1590969600000 :: int]) = 1609459200000" by simp
  have i: "toISOString (Some 1546300800000) = Inr ''2019-01-01T00:00:00.000Z''"
    "toISOString (Some 1609459200000) = Inr ''2021-01-01T00:00:00.000Z''" by code_simp+
  have r: "renderSpan (tenureSpan utcHost (Some 1546300800000) (Some 1609459200000)) = ''2 ans''"
    by code_simp
  have n: "filter (matchesCompany utcHost ''Initech'') acmeExperiences = []" by code_simp
  have fd: "filter (matchesCompany utcHost ''DXC'') dxcExperiencesWithBadStart
      = dxcExperiencesWithBadStart" by code_simp
  have sd: "map (\<lambda>exp. newDateOf utcHost (startdate exp)) dxcExperiencesWithBadStart
       = [Some 1579046400000, None]" by code_simp
  have nd: "dxcExperiencesWithBadStart \<noteq> []" by (simp add: dxcExperiencesWithBadStart_def)
  have t: "total_experience utcHost dxcExperiencesWithBadStart = Inr ''N/A''" by code_simp
  have g: "GET utcHost dxcStore echoRenderer (Some ''u-1'')
       = (Json 500 ''Failed to generate CV.'' (Message ''Invalid time value''),
          [Query ''users'', Query ''experiences'', Query ''user_skills'',
           ConsoleError ''Error generating CV:''])" by code_simp
  have "calculateDurationForCompany utcHost acmeExperiences ''acme'' = Inr ''2 ans''"
    using calculateDurationForCompany_envelope_or_throw [of utcHost "''acme''" acmeExperiences
        "(None, None)" "[1577836800000, 1546300800000]" "[1609459200000, 1590969600000]"]
      f s e
    unfolding Let_def mn mx r by blast
  moreover have "calculateDurationForCompany utcHost acmeExperiences ''Initech'' = Inr ''N/A''"
    using calculateDurationForCompany_envelope_or_throw [of utcHost "''Initech''" acmeExperiences
        "(None, None)" "[]" "[]"] n
    unfolding Let_def by blast
  moreover have "calculateDurationForCompany utcHost dxcExperiencesWithBadStart ''DXC''
      = Inl RangeError"
    using calculateDurationForCompany_envelope_or_throw [of utcHost "''DXC''"
        dxcExperiencesWithBadStart "(None, None)" "[]" "[]"] nd
    unfolding Let_def fd sd by simp
  ultimately show ?thesis using f s e i fd sd t g unfolding mn mx by simp
qed

lemma list_all_valid_those:
  "list_all (\<lambda>d. d \<noteq> None) ts \<longleftrightarrow> None \<notin> set ts"
  unfolding list_all_iff by metis

lemma total_experience_unfold:
  "total_experience rt exps =
     (if exps \<noteq> [] \<and> None \<notin> set (map (\<lambda>exp. newDateOf rt (startdate exp)) exps)
      then durationOfEnvelope rt (dateOfMin (map (\<lambda>exp. newDateOf rt (startdate exp)) exps))
             (dateOfMax (map (\<lambda>exp. endDate rt (enddate exp)) exps))
      else Inr ''N/A'')"
  unfolding total_experience_def Let_def list_all_valid_those by (cases exps) simp_all

text \<open>
  C2, as the spec states it, fails: with one experience whose dates are valid and one
  whose start date does not parse, the total is the sentinel, although the list is not
  empty and not every date is unparseable; the invalid date is not left out of the
  reduction.
\<close>

theorem total_experience_counterexample:
  "experiencesWithBadStart \<noteq> []
   \<and> newDateOf utcHost (startdate (hd experiencesWithBadStart)) = Some 1579046400000
   \<and> endDate utcHost (enddate (hd experiencesWithBadStart)) = Some 1681084800000
   \<and> total_experience utcHost experiencesWithBadStart = Inr ''N/A''
   \<and> total_experience utcHost [hd experiencesWithBadStart] = Inr ''3 ans 3 mois''"
  by code_simp

text \<open>
  C2, amended. The guard is all or nothing on the start dates: the total is the sentinel
  exactly when there is no experience or some start date is invalid. When every start
  and every end is valid, it is the tenure from the earliest start to the latest end.
\<close>

theorem total_experience_guard:
  "(total_experience rt exps = Inr ''N/A''
      \<longleftrightarrow> exps = [] \<or> (\<exists>exp \<in> set exps. newDateOf rt (startdate exp) = None))
   \<and> (exps \<noteq> [] \<and> those (map (\<lambda>exp. newDateOf rt (startdate exp)) exps) = Some ss
         \<and> those (map (\<lambda>exp. endDate rt (enddate exp)) exps) = Some es
       \<longrightarrow> total_experience rt exps
             = Inr (renderSpan (tenureSpan rt (Some (Min (set ss))) (Some (Max (set es))))))"
proof -
  define starts where "starts = map (\<lambda>exp. newDateOf rt (startdate exp)) exps"
  define ends where "ends = map (\<lambda>exp. endDate rt (enddate exp)) exps"
  have bad: "(\<exists>exp \<in> set exps. newDateOf rt (startdate exp) = None) \<longleftrightarrow> None \<in> set starts"
    unfolding starts_def set_map image_iff by (metis (no_types))
  have skip: "total_experience rt exps = Inr ''N/A''" if "exps = [] \<or> None \<in> set starts"
    using that unfolding total_experience_unfold starts_def by auto
  have go: "total_experience rt exps = durationOfEnvelope rt (dateOfMin starts) (dateOfMax ends)"
    if "exps \<noteq> []" "None \<notin> set starts"
    using that unfolding total_experience_unfold starts_def ends_def by simp
  have "total_experience rt exps \<noteq> Inr ''N/A''" if "exps \<noteq> []" "None \<notin> set starts"
    using durationOfEnvelope_cases [of rt "dateOfMin starts" "dateOfMax ends"]
      renderSpan_not_NA
    unfolding go [OF that] by auto
  then have iff: "total_experience rt exps = Inr ''N/A''
      \<longleftrightarrow> exps = [] \<or> (\<exists>exp \<in> set exps. newDateOf rt (startdate exp) = None)"
    unfolding bad using skip by blast
  have env: "total_experience rt exps
             = Inr (renderSpan (tenureSpan rt (Some (Min (set ss))) (Some (Max (set es)))))"
    if "exps \<noteq> []" "those starts = Some ss" "those ends = Some es"
  proof -
    have "None \<notin> set starts" using that(2) those_None [of starts] by auto
    then show ?thesis
      unfolding go [OF that(1) \<open>None \<notin> set starts\<close>]
      using envelope_of_valid [of exps rt ss es] that
      by (simp add: starts_def ends_def)
  qed
  show ?thesis using iff env unfolding starts_def ends_def by blast
qed

theorem total_experience_guard_witness:
  "(\<exists>exp \<in> set experiencesWithBadStart. newDateOf utcHost (startdate exp) = None)
   \<and> total_experience utcHost experiencesWithBadStart = Inr ''N/A''
   \<and> acmeExperiences \<noteq> []
   \<and> those (map (\<lambda>exp. newDateOf utcHost (startdate exp)) acmeExperiences)
       = Some [1614556800000, 1577836800000, 1546300800000]
   \<and> those (map (\<lambda>exp. endDate utcHost (enddate exp)) acmeExperiences)
       = Some [1700000000000, 1609459200000, 1590969600000]
   \<and> total_experience utcHost acmeExperiences = Inr ''4 ans 10 mois''"
proof -
  have b: "\<exists>exp \<in> set experiencesWithBadStart. newDateOf utcHost (startdate exp) = None"
    by code_simp
  have n: "acmeExperiences \<noteq> []" by code_simp
  have s: "those (map (\<lambda>exp. newDateOf utcHost (startdate exp)) acmeExperiences)
       = Some [1614556800000, 1577836800000, 1546300800000]" by code_simp
  have e: "those (map (\<lambda>exp. endDate utcHost (enddate exp)) acmeExperiences)
       = Some [1700000000000, 1609459200000, 1590969600000]" by code_simp
  have mn: "Min (set [1614556800000, 1577836800000, 1546300800000 :: int]) = 1546300800000"
    by simp
  have mx: "Max (set [1700000000000, 1609459200000, 1590969600000 :: int]) = 1700000000000"
    by simp
  have r: "renderSpan (tenureSpan utcHost (Some 1546300800000) (Some 1700000000000))
      = ''4 ans 10 mois''"
    by code_simp
  have "total_experience utcHost experiencesWithBadStart = Inr ''N/A''"
    using total_experience_guard [of utcHost experiencesWithBadStart "[]" "[]"] b by blast
  moreover have "total_experience utcHost acmeExperiences = Inr ''4 ans 10 mois''"
    using total_experience_guard [of utcHost acmeExperiences
        "[1614556800000, 1577836800000, 1546300800000]"
        "[1700000000000, 1609459200000, 1590969600000]"] n s e
    unfolding mn mx r by blast
  ultimately show ?thesis using b n s e by simp
qed


section \<open>The roster of professional activities\<close>

lemma mset_take_drop: "mset (take n xs) + mset (drop n xs) = mset xs"
  by (metis append_take_drop_id mset_append)

lemma mset_CountAndMakeRun:
  "CountAndMakeRun a = (run, rest) \<Longrightarrow> mset run + mset rest = mset a"
  by (auto simp: CountAndMakeRun_def Let_def mset_take_drop split: list.splits if_splits)

lemma mset_insertPivot: "mset (insertPivot a pivot) = add_mset pivot (mset a)"
  by (simp add: insertPivot_def Let_def mset_take_drop)

lemma mset_BinaryInsertionSort: "mset (BinaryInsertionSort run rest) = mset run + mset rest"
  unfolding BinaryInsertionSort_def
  by (induction rest arbitrary: run) (simp_all add: mset_insertPivot)

lemma mset_sortRows: "mset (sortRows rows) = mset rows"
proof -
  obtain run rest where c: "CountAndMakeRun rows = (run, rest)" by (cases "CountAndMakeRun rows")
  show ?thesis using mset_CountAndMakeRun [OF c] by (simp add: sortRows_def c mset_BinaryInsertionSort)
qed

lemma mset_concat_append:
  "mset (concat (map (\<lambda>x. f x @ g x) xs)) = mset (concat (map f xs)) + mset (concat (map g xs))"
  by (induction xs) simp_all

lemma mset_concat_member: "x \<in> set xs \<Longrightarrow> mset (f x) \<subseteq># mset (concat (map f xs))"
proof (induction xs)
  case Nil
  then show ?case by simp
next
  case (Cons y ys)
  show ?case
  proof (cases "x = y")
    case True
    then show ?thesis by simp
  next
    case False
    then have "mset (f x) \<subseteq># mset (concat (map f ys))" using Cons by simp
    then show ?thesis by (simp add: subset_mset.add_increasing)
  qed
qed

text \<open>The rows are those of the certifications, of the trainings and of the flags.\<close>

lemma professional_activities_rows_mset:
  "mset (professional_activities_rows rt certs uss) =
     mset (map (certRow rt) certs) + mset (concat (map (trainingRows rt) uss))
       + mset (concat (map (syntheticRows rt) uss))"
  by (simp add: professional_activities_rows_def mset_sortRows mset_concat_append)

lemma length_syntheticRows:
  "length (concat (map (syntheticRows rt) uss)) = length (filter hascertification uss)"
  by (induction uss) (simp_all add: syntheticRows_def)

text \<open>
  C3, as the spec states it, fails: a training nested under a user-skill whose
  \<^verbatim>\<open>hastrainings\<close> flag is not set gets no row.
\<close>

theorem trainings_listed_counterexample:
  "trainings unflaggedUserSkill = Some [awsTraining]
   \<and> professional_activities_rows utcHost [] [unflaggedUserSkill] = []"
  by code_simp

text \<open>
  C3, amended. For every user-skill whose \<^verbatim>\<open>hastrainings\<close> flag is set, every training
  nested under it has its own row, with the training's name, its provider or \<^verbatim>\<open>N/A\<close>,
  and the year of its date, which is \<^verbatim>\<open>N/A\<close> when the training has no date.
\<close>

theorem trainings_listed:
  assumes "uskill \<in> set userSkills" "hastrainings uskill" "trainings uskill = Some ts"
  shows "mset (map (trainingRow rt) ts) \<subseteq># mset (professional_activities_rows rt certs userSkills)
         \<and> (\<forall>tr \<in> set ts.
               trainingRow rt tr \<in> set (professional_activities_rows rt certs userSkills)
               \<and> course_certification_name (trainingRow rt tr) = training_name tr
               \<and> institution (trainingRow rt tr) = orElse (provider tr) ''N/A''
               \<and> year (trainingRow rt tr)
                   = (case training_date tr of
                        None \<Rightarrow> Str ''N/A''
                      | Some d \<Rightarrow> if d = [] then Str ''N/A''
                                  else Num (getFullYear rt (newDate rt d))))"
proof -
  have "trainingRows rt uskill = map (trainingRow rt) ts"
    using assms(2,3) by (simp add: trainingRows_def)
  then have "mset (map (trainingRow rt) ts) \<subseteq># mset (concat (map (trainingRows rt) userSkills))"
    using mset_concat_member [OF assms(1), of "trainingRows rt"] by simp
  then have sub: "mset (map (trainingRow rt) ts)
      \<subseteq># mset (professional_activities_rows rt certs userSkills)"
    unfolding professional_activities_rows_mset
    by (simp add: subset_mset.add_increasing subset_mset.add_increasing2)
  have "trainingRow rt tr \<in> set (professional_activities_rows rt certs userSkills)"
    if "tr \<in> set ts" for tr
  proof -
    have "trainingRow rt tr \<in># mset (map (trainingRow rt) ts)" using that by simp
    then have "trainingRow rt tr \<in># mset (professional_activities_rows rt certs userSkills)"
      using sub by (meson mset_subset_eqD)
    then show ?thesis by simp
  qed
  then show ?thesis using sub by (simp add: trainingRow_def yearOf_def)
qed

theorem trainings_listed_witness:
  "trainedUserSkill \<in> set [unflaggedUserSkill, trainedUserSkill]
   \<and> hastrainings trainedUserSkill
   \<and> trainings trainedUserSkill = Some [awsTraining]
   \<and> \<lparr>course_certification_name = ''AWS Essentials'', institution = ''AWS'',
       year = Num (Some 2022), years_of_experience = []\<rparr>
      \<in> set (professional_activities_rows utcHost [] [unflaggedUserSkill, trainedUserSkill])"
proof -
  have a: "trainedUserSkill \<in> set [unflaggedUserSkill, trainedUserSkill]" by simp
  have b: "hastrainings trainedUserSkill" by (simp add: trainedUserSkill_def)
  have c: "trainings trainedUserSkill = Some [awsTraining]" by (simp add: trainedUserSkill_def)
  have r: "trainingRow utcHost awsTraining =
      \<lparr>course_certification_name = ''AWS Essentials'', institution = ''AWS'',
       year = Num (Some 2022), years_of_experience = []\<rparr>"
    by code_simp
  have "trainingRow utcHost awsTraining
      \<in> set (professional_activities_rows utcHost [] [unflaggedUserSkill, trainedUserSkill])"
    using trainings_listed [OF a b c, of utcHost "[]"] by simp
  then show ?thesis using a b c unfolding r by blast
qed

text \<open>
  C6, as the spec states it, fails: a flagged user-skill without structured
  certifications whose \<^verbatim>\<open>certificationname\<close> is set gets a row with that name, not
  with the name of the skill.
\<close>

theorem synthetic_certification_counterexample:
  "hascertification namedCertificationSkill
   \<and> skills_name namedCertificationSkill = Some ''AWS''
   \<and> map course_certification_name
         (professional_activities_rows utcHost [] [namedCertificationSkill])
       = [''AWS Solutions Architect'']"
  by code_simp

text \<open>
  C6, amended. Every user-skill flagged \<^verbatim>\<open>hascertification\<close> contributes exactly one
  synthetic row, whether or not structured certifications exist: the roster is made of
  the certification rows, the training rows and one synthetic row per flagged user-skill.
  The row is named by the \<^verbatim>\<open>certificationname\<close> of the user-skill when that is set,
  otherwise by the name of the skill, otherwise \<^verbatim>\<open>Unnamed Certification\<close>.
\<close>

theorem synthetic_certification_row:
  assumes "uskill \<in> set userSkills" "hascertification uskill"
  shows "syntheticRows rt uskill
           = [\<lparr>course_certification_name = certName uskill,
               institution = ''N/A (via User Skill)'',
               year = yearOf rt (certificationdate uskill),
               years_of_experience = []\<rparr>]
         \<and> mset (syntheticRows rt uskill)
             \<subseteq># mset (professional_activities_rows rt certs userSkills)
         \<and> mset (professional_activities_rows rt certs userSkills)
             = mset (map (certRow rt) certs) + mset (concat (map (trainingRows rt) userSkills))
               + mset (concat (map (syntheticRows rt) userSkills))
         \<and> length (concat (map (syntheticRows rt) userSkills))
             = length (filter hascertification userSkills)
         \<and> (certificationname uskill = Some c \<and> c \<noteq> [] \<longrightarrow> certName uskill = c)
         \<and> (\<not> truthy (certificationname uskill) \<and> skills_name uskill = Some n \<and> n \<noteq> []
              \<longrightarrow> certName uskill = n)
         \<and> (\<not> truthy (certificationname uskill) \<and> \<not> truthy (skills_name uskill)
              \<longrightarrow> certName uskill = ''Unnamed Certification'')"
proof -
  have one: "syntheticRows rt uskill
           = [\<lparr>course_certification_name = certName uskill,
               institution = ''N/A (via User Skill)'',
               year = yearOf rt (certificationdate uskill),
               years_of_experience = []\<rparr>]"
    using assms(2) by (simp add: syntheticRows_def)
  have "mset (syntheticRows rt uskill) \<subseteq># mset (concat (map (syntheticRows rt) userSkills))"
    using assms(1) by (rule mset_concat_member)
  then have sub: "mset (syntheticRows rt uskill)
      \<subseteq># mset (professional_activities_rows rt certs userSkills)"
    unfolding professional_activities_rows_mset
    by (simp add: subset_mset.add_increasing)
  have names: "certificationname uskill = Some c \<and> c \<noteq> [] \<longrightarrow> certName uskill = c"
    "\<not> truthy (certificationname uskill) \<and> skills_name uskill = Some n \<and> n \<noteq> []
       \<longrightarrow> certName uskill = n"
    "\<not> truthy (certificationname uskill) \<and> \<not> truthy (skills_name uskill)
       \<longrightarrow> certName uskill = ''Unnamed Certification''"
    by (auto simp: certName_def orElse_def truthy_def split: option.splits)
  show ?thesis
    using one sub names professional_activities_rows_mset [of rt certs userSkills]
      length_syntheticRows [of rt userSkills]
    by blast
qed

theorem synthetic_certification_row_witness:
  "trainedUserSkill \<in> set [unflaggedUserSkill, trainedUserSkill]
   \<and> hascertification trainedUserSkill
   \<and> \<not> truthy (certificationname trainedUserSkill)
   \<and> skills_name trainedUserSkill = Some ''AWS''
   \<and> syntheticRows utcHost trainedUserSkill
       = [\<lparr>course_certification_name = ''AWS'', institution = ''N/A (via User Skill)'',
           year = Str ''N/A'', years_of_experience = []\<rparr>]
   \<and> length (concat (map (syntheticRows utcHost) [unflaggedUserSkill, trainedUserSkill])) = 1"
proof -
  have a: "trainedUserSkill \<in> set [unflaggedUserSkill, trainedUserSkill]" by simp
  have b: "hascertification trainedUserSkill" by (simp add: trainedUserSkill_def)
  have c: "\<not> truthy (certificationname trainedUserSkill)"
    by (simp add: trainedUserSkill_def truthy_def)
  have d: "skills_name trainedUserSkill = Some ''AWS''" by (simp add: trainedUserSkill_def)
  have y: "yearOf utcHost (certificationdate trainedUserSkill) = Str ''N/A''"
    by (simp add: trainedUserSkill_def yearOf_def)
  have f: "length (filter hascertification [unflaggedUserSkill, trainedUserSkill]) = 1"
    by (simp add: trainedUserSkill_def unflaggedUserSkill_def)
  note t = synthetic_certification_row [OF a b, of utcHost "[]" "[]" "''AWS''"]
  have n: "certName trainedUserSkill = ''AWS''" using t c d by blast
  show ?thesis using t a b c d unfolding n y f by blast
qed

section \<open>The order of the roster\<close>

lemma SortCompare_keys:
  "sortYear x = Some kx \<Longrightarrow> sortYear y = Some ky \<Longrightarrow> SortCompare x y = ky - kx"
  by (simp add: SortCompare_def comparefn_def numSub_def)

lemma findInsertionPoint_spec:
  assumes "left \<le> right" "right \<le> length a"
    and "\<forall>i<left. \<not> SortCompare pivot (a ! i) < 0"
    and "\<forall>i. right \<le> i \<and> i < length a \<longrightarrow> SortCompare pivot (a ! i) < 0"
    and "\<forall>i j. i \<le> j \<and> j < length a \<and> SortCompare pivot (a ! i) < 0
           \<longrightarrow> SortCompare pivot (a ! j) < 0"
  shows "findInsertionPoint pivot a left right \<le> length a
     \<and> (\<forall>i < findInsertionPoint pivot a left right. \<not> SortCompare pivot (a ! i) < 0)
     \<and> (\<forall>i. findInsertionPoint pivot a left right \<le> i \<and> i < length a
            \<longrightarrow> SortCompare pivot (a ! i) < 0)"
  using assms
proof (induction pivot a left right rule: findInsertionPoint.induct)
  case (1 pivot a left right)
  show ?case
  proof (cases "left < right")
    case False
    have e: "findInsertionPoint pivot a left right = left"
      by (subst findInsertionPoint.simps) (simp add: False)
    have lr: "left = right" using False "1.prems"(1) by simp
    show ?thesis unfolding e using "1.prems"(2,3,4) unfolding lr by blast
  next
    case True
    define mid where "mid = left + (right - left) div 2"
    have m: "left \<le> mid" "mid < right" using True by (simp_all add: mid_def)
    show ?thesis
    proof (cases "SortCompare pivot (a ! mid) < 0")
      case lt: True
      have lt': "SortCompare pivot (a ! (left + (right - left) div 2)) < 0"
        using lt by (simp add: mid_def)
      have e: "findInsertionPoint pivot a left right = findInsertionPoint pivot a left mid"
        by (subst findInsertionPoint.simps) (simp add: True lt' mid_def)
      have ih: "findInsertionPoint pivot a left mid \<le> length a
         \<and> (\<forall>i < findInsertionPoint pivot a left mid. \<not> SortCompare pivot (a ! i) < 0)
         \<and> (\<forall>i. findInsertionPoint pivot a left mid \<le> i \<and> i < length a
               \<longrightarrow> SortCompare pivot (a ! i) < 0)"
        unfolding mid_def
      proof (rule "1.IH"(1) [OF True lt'])
        show "left \<le> left + (right - left) div 2" by simp
        show "left + (right - left) div 2 \<le> length a"
          using m(2) "1.prems"(2) by (simp add: mid_def)
        show "\<forall>i<left. \<not> SortCompare pivot (a ! i) < 0" by (rule "1.prems"(3))
        show "\<forall>i. left + (right - left) div 2 \<le> i \<and> i < length a
                 \<longrightarrow> SortCompare pivot (a ! i) < 0"
          using "1.prems"(5) lt' by blast
        show "\<forall>i j. i \<le> j \<and> j < length a \<and> SortCompare pivot (a ! i) < 0
                 \<longrightarrow> SortCompare pivot (a ! j) < 0" by (rule "1.prems"(5))
      qed
      show ?thesis unfolding e by (rule ih)
    next
      case ge: False
      have ge': "\<not> SortCompare pivot (a ! (left + (right - left) div 2)) < 0"
        using ge by (simp add: mid_def)
      have e: "findInsertionPoint pivot a left right = findInsertionPoint pivot a (mid + 1) right"
        by (subst findInsertionPoint.simps) (simp add: True ge' mid_def)
      have ih: "findInsertionPoint pivot a (mid + 1) right \<le> length a
         \<and> (\<forall>i < findInsertionPoint pivot a (mid + 1) right. \<not> SortCompare pivot (a ! i) < 0)
         \<and> (\<forall>i. findInsertionPoint pivot a (mid + 1) right \<le> i \<and> i < length a
               \<longrightarrow> SortCompare pivot (a ! i) < 0)"
        unfolding mid_def
      proof (rule "1.IH"(2) [OF True ge'])
        show "left + (right - left) div 2 + 1 \<le> right" using m(2) by (simp add: mid_def)
        show "right \<le> length a" by (rule "1.prems"(2))
        show "\<forall>i<left + (right - left) div 2 + 1. \<not> SortCompare pivot (a ! i) < 0"
        proof (intro allI impI)
          fix i assume "i < left + (right - left) div 2 + 1"
          then have "i \<le> left + (right - left) div 2" by simp
          moreover have "left + (right - left) div 2 < length a"
            using m(2) "1.prems"(2) by (simp add: mid_def)
          ultimately show "\<not> SortCompare pivot (a ! i) < 0" using "1.prems"(5) ge' by blast
        qed
        show "\<forall>i. right \<le> i \<and> i < length a \<longrightarrow> SortCompare pivot (a ! i) < 0"
          by (rule "1.prems"(4))
        show "\<forall>i j. i \<le> j \<and> j < length a \<and> SortCompare pivot (a ! i) < 0
                 \<longrightarrow> SortCompare pivot (a ! j) < 0" by (rule "1.prems"(5))
      qed
      show ?thesis unfolding e by (rule ih)
    qed
  qed
qed

lemma sorted_insertPivot:
  assumes n: "sortYear pivot \<noteq> None" "\<forall>y \<in> set a. sortYear y \<noteq> None"
    and s: "sorted_wrt (\<lambda>x y. SortCompare x y \<le> 0) a"
  shows "sorted_wrt (\<lambda>x y. SortCompare x y \<le> 0) (insertPivot a pivot)"
proof -
  define l where "l = findInsertionPoint pivot a 0 (length a)"
  obtain kp where kp: "sortYear pivot = Some kp" using n(1) by blast
  have k: "\<exists>ki. sortYear (a ! i) = Some ki" if "i < length a" for i
  proof -
    have "a ! i \<in> set a" using that by (rule nth_mem)
    then have "sortYear (a ! i) \<noteq> None" using n(2) by blast
    then show ?thesis by blast
  qed
  have c1: "SortCompare pivot (a ! i) = the (sortYear (a ! i)) - kp" if il: "i < length a" for i
  proof -
    obtain ki where ki: "sortYear (a ! i) = Some ki" using k [OF il] by blast
    show ?thesis using SortCompare_keys [OF kp ki] ki by simp
  qed
  have c2: "SortCompare (a ! i) pivot = kp - the (sortYear (a ! i))" if il: "i < length a" for i
  proof -
    obtain ki where ki: "sortYear (a ! i) = Some ki" using k [OF il] by blast
    show ?thesis using SortCompare_keys [OF ki kp] ki by simp
  qed
  have cc: "SortCompare (a ! i) (a ! j) = the (sortYear (a ! j)) - the (sortYear (a ! i))"
    if il: "i < length a" and jl: "j < length a" for i j
  proof -
    obtain ki where ki: "sortYear (a ! i) = Some ki" using k [OF il] by blast
    obtain kj where kj: "sortYear (a ! j) = Some kj" using k [OF jl] by blast
    show ?thesis using SortCompare_keys [OF ki kj] ki kj by simp
  qed
  have ord: "SortCompare (a ! i) (a ! j) \<le> 0" if "i < j" "j < length a" for i j
    using s that unfolding sorted_wrt_iff_nth_less by blast
  have mono: "\<forall>i j. i \<le> j \<and> j < length a \<and> SortCompare pivot (a ! i) < 0
           \<longrightarrow> SortCompare pivot (a ! j) < 0"
  proof (intro allI impI)
    fix i j assume h: "i \<le> j \<and> j < length a \<and> SortCompare pivot (a ! i) < 0"
    then have h1: "i \<le> j" and h2: "j < length a" and h3: "SortCompare pivot (a ! i) < 0"
      by blast+
    show "SortCompare pivot (a ! j) < 0"
    proof (cases "i = j")
      case True
      then show ?thesis using h3 by simp
    next
      case False
      then have ij: "i < j" using h1 by simp
      have il: "i < length a" using ij h2 by simp
      have o: "SortCompare (a ! i) (a ! j) \<le> 0" using ord [OF ij h2] .
      have "the (sortYear (a ! i)) - kp < 0" using h3 c1 [OF il] by simp
      moreover have "the (sortYear (a ! j)) - the (sortYear (a ! i)) \<le> 0"
        using o cc [OF il h2] by simp
      ultimately have "the (sortYear (a ! j)) - kp < 0" by linarith
      then show ?thesis using c1 [OF h2] by simp
    qed
  qed
  have sp0: "findInsertionPoint pivot a 0 (length a) \<le> length a
     \<and> (\<forall>i < findInsertionPoint pivot a 0 (length a). \<not> SortCompare pivot (a ! i) < 0)
     \<and> (\<forall>i. findInsertionPoint pivot a 0 (length a) \<le> i \<and> i < length a
            \<longrightarrow> SortCompare pivot (a ! i) < 0)"
  proof (rule findInsertionPoint_spec)
    show "0 \<le> length a" by simp
    show "length a \<le> length a" by simp
    show "\<forall>i<0. \<not> SortCompare pivot (a ! i) < 0" by simp
    show "\<forall>i. length a \<le> i \<and> i < length a \<longrightarrow> SortCompare pivot (a ! i) < 0" by simp
    show "\<forall>i j. i \<le> j \<and> j < length a \<and> SortCompare pivot (a ! i) < 0
           \<longrightarrow> SortCompare pivot (a ! j) < 0" by (rule mono)
  qed
  have sp1: "l \<le> length a" using sp0 unfolding l_def by blast
  have sp2: "\<not> SortCompare pivot (a ! i) < 0" if "i < l" for i
    using sp0 that unfolding l_def by blast
  have sp3: "SortCompare pivot (a ! i) < 0" if "l \<le> i" "i < length a" for i
    using sp0 that unfolding l_def by blast
  have t: "SortCompare x pivot \<le> 0" if "x \<in> set (take l a)" for x
  proof -
    have "\<exists>i. i < length (take l a) \<and> x = take l a ! i"
      using that unfolding in_set_conv_nth by blast
    then obtain i where i: "i < length (take l a)" "x = take l a ! i" by blast
    have il: "i < l" "i < length a" using i(1) by simp_all
    have x: "x = a ! i" using i(2) il by simp
    have "\<not> SortCompare pivot (a ! i) < 0" using sp2 [OF il(1)] .
    then have "\<not> the (sortYear (a ! i)) - kp < 0" using c1 [OF il(2)] by simp
    then have "kp - the (sortYear (a ! i)) \<le> 0" by linarith
    then show ?thesis unfolding x using c2 [OF il(2)] by simp
  qed
  have d: "SortCompare pivot y \<le> 0" if "y \<in> set (drop l a)" for y
  proof -
    have "\<exists>i. i < length (drop l a) \<and> y = drop l a ! i"
      using that unfolding in_set_conv_nth by blast
    then obtain i where i: "i < length (drop l a)" "y = drop l a ! i" by blast
    have il: "l + i < length a" using i(1) by simp
    have y: "y = a ! (l + i)" using i(2) sp1 by simp
    have "SortCompare pivot (a ! (l + i)) < 0" using sp3 [of "l + i"] il by simp
    then show ?thesis unfolding y by simp
  qed
  have "sorted_wrt (\<lambda>x y. SortCompare x y \<le> 0) (take l a @ drop l a)" using s by simp
  then have td: "sorted_wrt (\<lambda>x y. SortCompare x y \<le> 0) (take l a)"
    "sorted_wrt (\<lambda>x y. SortCompare x y \<le> 0) (drop l a)"
    "\<forall>x \<in> set (take l a). \<forall>y \<in> set (drop l a). SortCompare x y \<le> 0"
    unfolding sorted_wrt_append by blast+
  have "sorted_wrt (\<lambda>x y. SortCompare x y \<le> 0) (take l a @ pivot # drop l a)"
    unfolding sorted_wrt_append sorted_wrt.simps using td t d by simp
  then show ?thesis by (simp add: insertPivot_def l_def Let_def)
qed

lemma set_insertPivot: "set (insertPivot a pivot) = insert pivot (set a)"
  using mset_insertPivot [of a pivot] by (metis set_mset_mset set_mset_add_mset_insert)

lemma sorted_BinaryInsertionSort:
  assumes "\<forall>y \<in> set run \<union> set rest. sortYear y \<noteq> None"
    and "sorted_wrt (\<lambda>x y. SortCompare x y \<le> 0) run"
  shows "sorted_wrt (\<lambda>x y. SortCompare x y \<le> 0) (BinaryInsertionSort run rest)"
  using assms unfolding BinaryInsertionSort_def
proof (induction rest arbitrary: run)
  case Nil
  then show ?case by simp
next
  case (Cons p rest)
  have "sorted_wrt (\<lambda>x y. SortCompare x y \<le> 0) (insertPivot run p)"
    using Cons.prems by (intro sorted_insertPivot) auto
  moreover have "\<forall>y \<in> set (insertPivot run p) \<union> set rest. sortYear y \<noteq> None"
    using Cons.prems(1) by (auto simp: set_insertPivot)
  ultimately show ?case using Cons.IH [of "insertPivot run p"] by simp
qed

text \<open>A run that goes on while no element ranks before the one it follows.\<close>

lemma runLength_ascending:
  assumes "\<forall>y \<in> set (p # rest). sortYear y \<noteq> None"
  shows "sorted_wrt (\<lambda>x y. the (sortYear y) \<le> the (sortYear x))
           (p # take (runLength False p rest) rest)"
  using assms
proof (induction rest arbitrary: p)
  case Nil
  then show ?case by simp
next
  case (Cons c rest)
  obtain kp kc where k: "sortYear p = Some kp" "sortYear c = Some kc"
    using Cons.prems by auto
  have o: "SortCompare c p = kp - kc" using k by (simp add: SortCompare_keys)
  show ?case
  proof (cases "SortCompare c p < 0")
    case True
    then show ?thesis by (simp add: Let_def)
  next
    case False
    have ih: "sorted_wrt (\<lambda>x y. the (sortYear y) \<le> the (sortYear x))
           (c # take (runLength False c rest) rest)"
      using Cons.IH [of c] Cons.prems by simp
    have "kc \<le> kp" using False o by simp
    then show ?thesis using False ih k by (auto simp: Let_def)
  qed
qed

lemma runLength_descending:
  assumes "\<forall>y \<in> set (p # rest). sortYear y \<noteq> None"
  shows "sorted_wrt (\<lambda>x y. the (sortYear x) < the (sortYear y))
           (p # take (runLength True p rest) rest)"
  using assms
proof (induction rest arbitrary: p)
  case Nil
  then show ?case by simp
next
  case (Cons c rest)
  obtain kp kc where k: "sortYear p = Some kp" "sortYear c = Some kc"
    using Cons.prems by auto
  have o: "SortCompare c p = kp - kc" using k by (simp add: SortCompare_keys)
  show ?case
  proof (cases "0 \<le> SortCompare c p")
    case True
    then show ?thesis by (simp add: Let_def)
  next
    case False
    have ih: "sorted_wrt (\<lambda>x y. the (sortYear x) < the (sortYear y))
           (c # take (runLength True c rest) rest)"
      using Cons.IH [of c] Cons.prems by simp
    have "kp < kc" using False o by simp
    then show ?thesis using False ih k by (auto simp: Let_def)
  qed
qed

lemma sorted_CountAndMakeRun:
  assumes n: "\<forall>y \<in> set a. sortYear y \<noteq> None" and c: "CountAndMakeRun a = (run, rest)"
  shows "sorted_wrt (\<lambda>x y. SortCompare x y \<le> 0) run"
proof -
  have key: "sorted_wrt (\<lambda>x y. the (sortYear y) \<le> the (sortYear x)) run"
  proof (cases a)
    case Nil
    then show ?thesis using c by (simp add: CountAndMakeRun_def)
  next
    case (Cons h t)
    note a = this
    show ?thesis
    proof (cases t)
      case Nil
      then show ?thesis using c a by (auto simp: CountAndMakeRun_def)
    next
      case (Cons l rest')
      obtain kh kl where k: "sortYear h = Some kh" "sortYear l = Some kl"
        using n a Cons by auto
      have o: "SortCompare l h = kh - kl" using k by (simp add: SortCompare_keys)
      have nl: "\<forall>y \<in> set (l # rest'). sortYear y \<noteq> None" using n a Cons by simp
      show ?thesis
      proof (cases "SortCompare l h < 0")
        case True
        have r: "run = rev (h # l # take (runLength True l rest') rest')"
          using c a Cons True by (simp add: CountAndMakeRun_def Let_def)
        have "sorted_wrt (\<lambda>x y. the (sortYear x) < the (sortYear y))
                (h # l # take (runLength True l rest') rest')"
          using runLength_descending [OF nl] True o k by auto
        then have "sorted_wrt (\<lambda>x y. the (sortYear y) < the (sortYear x)) run"
          unfolding r sorted_wrt_rev .
        then show ?thesis by (rule sorted_wrt_mono_rel [rotated]) simp
      next
        case False
        have r: "run = h # l # take (runLength False l rest') rest'"
          using c a Cons False by (simp add: CountAndMakeRun_def Let_def)
        show ?thesis unfolding r using runLength_ascending [OF nl] False o k by auto
      qed
    qed
  qed
  have "set run \<subseteq> set a" using mset_CountAndMakeRun [OF c]
    by (metis mset_subset_eq_add_left set_mset_mono set_mset_mset)
  then have v: "\<And>x. x \<in> set run \<Longrightarrow> \<exists>kx. sortYear x = Some kx" using n by blast
  show ?thesis
  proof (rule sorted_wrt_mono_rel [OF _ key])
    fix x y assume "x \<in> set run" "y \<in> set run" "the (sortYear y) \<le> the (sortYear x)"
    then show "SortCompare x y \<le> 0" using v [of x] v [of y] by (auto simp: SortCompare_keys)
  qed
qed

text \<open>
  When no row has a \<^verbatim>\<open>NaN\<close> year, the roster is in descending order of the year, a
  row without a date counting as year 0: the comparator puts no row after one that it
  ranks behind it.
\<close>

lemma sortRows_sorted:
  assumes "\<forall>r \<in> set rows. sortYear r \<noteq> None"
  shows "sorted_wrt (\<lambda>a b. SortCompare a b \<le> 0) (sortRows rows)"
proof -
  obtain run rest where c: "CountAndMakeRun rows = (run, rest)" by (cases "CountAndMakeRun rows")
  have "set run \<union> set rest = set rows" using mset_CountAndMakeRun [OF c]
    by (metis set_mset_mset set_mset_union)
  then have n: "\<forall>y \<in> set run \<union> set rest. sortYear y \<noteq> None" using assms by simp
  show ?thesis unfolding sortRows_def c using sorted_BinaryInsertionSort [OF n sorted_CountAndMakeRun [OF assms c]]
    by simp
qed

lemma SortCompare_descending:
  assumes "sortYear a = Some ka" "sortYear b = Some kb"
  shows "SortCompare a b \<le> 0 \<longleftrightarrow> kb \<le> ka"
  using assms by (simp add: SortCompare_keys)

text \<open>
  C7. With certifications of the years 2021, \<^verbatim>\<open>N/A\<close> (no date) and 2023 the roster is
  ordered 2023, 2021, \<^verbatim>\<open>N/A\<close>. With a date that is not a date in the place of the
  missing one, the year is \<^verbatim>\<open>NaN\<close>, which \<^verbatim>\<open>typeof\<close> reports as a number: the
  comparator answers \<^verbatim>\<open>NaN\<close> for every pair with that row, the sort reads it as 0, the
  rows stay as they were and 2023 comes after 2021, in the roster and in the document
  that the handler returns for a user with one user-skill and these certifications. The
  place of the \<^verbatim>\<open>NaN\<close> row is an accident of the sort: of four rows of the years 2021,
  2022, \<^verbatim>\<open>NaN\<close> and 2023 it comes last.
\<close>

theorem roster_order_with_unparseable_year:
  "map year (professional_activities_rows utcHost certificationsWithMissingDate [plainUserSkill])
     = [Num (Some 2023), Num (Some 2021), Str ''N/A'']
   \<and> map year (professional_activities_rows utcHost certificationsWithBadDate [plainUserSkill])
     = [Num (Some 2021), Num None, Num (Some 2023)]
   \<and> GET utcHost badDateStore rosterRenderer (Some ''u-1'')
     = (Docx ''2021;NaN;2023;'' ''attachment; filename=\"cv_Ada_L.docx\"'',
        [Query ''users'', Query ''experiences'', Query ''user_skills'', Query ''certifications''])
   \<and> map year (professional_activities_rows utcHost certificationsWithBadDateOfFour [plainUserSkill])
     = [Num (Some 2023), Num (Some 2022), Num (Some 2021), Num None]"
  by code_simp

section \<open>The claims about the request handler\<close>

text \<open>
  C8. When the reads of the user and of the experiences succeed and the read of the
  user-skills fails, the handler answers 500 with the message of that error, having
  logged under the name of the failing read; the certifications are never read, and no
  document is rendered.
\<close>

theorem GET_user_skills_failure:
  assumes "userId \<noteq> []"
    and "error (users_single db userId) = None" "data (users_single db userId) = Some userData"
    and "error (experiences_select db userId) = None"
    and "error (user_skills_select db userId) = Some userSkillsError"
  shows "GET rt db rd (Some userId)
           = (Json 500 ''Failed to generate CV.'' (Message userSkillsError),
              [Query ''users'', Query ''experiences'', Query ''user_skills'',
               ConsoleError ''Error fetching user skills:'',
               ConsoleError ''Error generating CV:''])
         \<and> Query ''certifications'' \<notin> set (snd (GET rt db rd (Some userId)))
         \<and> (\<forall>buf name. fst (GET rt db rd (Some userId)) \<noteq> Docx buf name)"
proof -
  have f: "fetchData db userId
      = (Throw (UpstreamError userSkillsError),
         [Query ''users'', Query ''experiences'', Query ''user_skills'',
          ConsoleError ''Error fetching user skills:''])"
    using assms(2-5) by (simp add: fetchData_def Let_def)
  have "GET rt db rd (Some userId)
           = (Json 500 ''Failed to generate CV.'' (Message userSkillsError),
              [Query ''users'', Query ''experiences'', Query ''user_skills'',
               ConsoleError ''Error fetching user skills:'',
               ConsoleError ''Error generating CV:''])"
    using assms(1) by (simp add: GET_def caught_def f message_def)
  then show ?thesis by simp
qed

theorem GET_user_skills_failure_witness:
  "''u-1'' \<noteq> []
   \<and> error (users_single failingSkillsStore ''u-1'') = None
   \<and> data (users_single failingSkillsStore ''u-1'')
       = Some \<lparr>email = Some ''ada@example.org'', fullname = Some ''Ada L''\<rparr>
   \<and> error (experiences_select failingSkillsStore ''u-1'') = None
   \<and> error (user_skills_select failingSkillsStore ''u-1'')
       = Some ''permission denied for table user_skills''
   \<and> fst (GET utcHost failingSkillsStore echoRenderer (Some ''u-1''))
       = Json 500 ''Failed to generate CV.'' (Message ''permission denied for table user_skills'')
   \<and> Query ''certifications'' \<notin> set (snd (GET utcHost failingSkillsStore echoRenderer (Some ''u-1'')))"
proof -
  have a: "''u-1'' \<noteq> []" by simp
  have b: "error (users_single failingSkillsStore ''u-1'') = None"
    and c: "data (users_single failingSkillsStore ''u-1'')
       = Some \<lparr>email = Some ''ada@example.org'', fullname = Some ''Ada L''\<rparr>"
    and d: "error (experiences_select failingSkillsStore ''u-1'') = None"
    and e: "error (user_skills_select failingSkillsStore ''u-1'')
       = Some ''permission denied for table user_skills''"
    by (simp_all add: failingSkillsStore_def)
  show ?thesis
    using GET_user_skills_failure [OF a b c d e, of utcHost echoRenderer] a b c d e by simp
qed

text \<open>For comparison, a request whose four reads succeed: all four are issued.\<close>

lemma GET_answering_example:
  "GET utcHost answeringStore echoRenderer (Some ''u-1'')
     = (Docx ''templateAda L'' ''attachment; filename=\"cv_Ada_L.docx\"'',
        [Query ''users'', Query ''experiences'', Query ''user_skills'', Query ''certifications''])"
  by code_simp


text \<open>
  A template that the renderer refuses: 500 with the diagnostics of the renderer, logged
  twice. And the file name of the document, where every run of white space of the name,
  here a no-break space and a space, is one underscore.
\<close>

lemma GET_render_failure_example:
  "GET utcHost answeringStore failingRenderer (Some ''u-1'')
     = (Json 500 ''Failed to render CV document.'' (Diagnostics [unclosedTag]),
        [Query ''users'', Query ''experiences'', Query ''user_skills'', Query ''certifications'',
         ConsoleError ''Docxtemplater render error:'', ConsoleError ''Template Errors:''])"
  by code_simp

lemma underscores_example:
  "underscores [CHR ''A'', CHR 0xC2, CHR 0xA0, CHR '' '', CHR ''L'', CHR 0x09] = ''A_L_''"
  by code_simp


section \<open>Invalid dates in an envelope\<close>

text \<open>
  An invalid end date makes the total throw: its guard looks at the start dates only.
\<close>

lemma total_experience_invalid_end:
  assumes "\<forall>exp \<in> set exps. newDateOf rt (startdate exp) \<noteq> None"
    and "exp \<in> set exps" "endDate rt (enddate exp) = None"
  shows "total_experience rt exps = Inl RangeError"
proof -
  have ne: "exps \<noteq> []" using assms(2) by auto
  have s: "None \<notin> set (map (\<lambda>exp. newDateOf rt (startdate exp)) exps)"
    using assms(1) unfolding set_map image_iff by metis
  have "None \<in> set (map (\<lambda>exp. endDate rt (enddate exp)) exps)"
    using assms(2,3) unfolding set_map image_iff by metis
  then have "dateOfMax (map (\<lambda>exp. endDate rt (enddate exp)) exps) = None"
    by (rule dateOfMax_invalid)
  then show ?thesis
    unfolding total_experience_unfold using ne s durationOfEnvelope_invalid by simp
qed

end
